theory Spec2Isabelle
  imports Complex_Main "HOL-Library.Word" "HOL-Library.Multiset"
begin

unbundle bit_operations_syntax

section \<open>Numbers, points and the seeded generator\<close>

text \<open>
  JavaScript numbers are modelled as reals (the idealisation the specification itself
  uses: "over real/rational arithmetic"). Where the source divides by a length that may
  be zero, the resulting NaN is written out as the branch the comparison then takes.
  The fields of \<open>Vec2\<close> are called \<open>vx\<close> and \<open>vy\<close>, since \<open>x\<close> and \<open>y\<close> are needed
  as variable names.
\<close>

record Vec2 =
  vx :: real
  vy :: real

definition mkVec2 :: "real \<Rightarrow> real \<Rightarrow> Vec2" where
  "mkVec2 a b = \<lparr>vx = a, vy = b\<rparr>"

text \<open>
  \<open>mulberry32\<close> (imported from \<open>lib/utils\<close>; the copy in \<open>test-road-generation.js\<close>
  is the one transcribed). The closure variable \<open>a\<close> is a JavaScript number that is
  never truncated, so the state is an integer; the bit operations act on its low 32
  bits. \<open>Math.imul\<close> is multiplication of 32-bit words and \<open>>>>\<close> the logical shift.
\<close>

type_synonym rng = int

definition mulberry32 :: "int \<Rightarrow> rng" where
  "mulberry32 a = a"

definition rng_next :: "rng \<Rightarrow> real \<times> rng" where
  "rng_next a =
     (let a' = a + 0x6D2B79F5;
          t0 = (word_of_int a' :: 32 word);
          t1 = (t0 XOR drop_bit 15 t0) * (t0 OR 1);
          t2 = t1 XOR (t1 + (t1 XOR drop_bit 7 t1) * (t1 OR 61))
      in (real_of_int (uint (t2 XOR drop_bit 14 t2)) / 4294967296, a'))"

section \<open>Geometry kernel\<close>

text \<open>\<open>GeometryUtils.offsetPolygon\<close>: one output vertex for each index \<open>i\<close>.\<close>

definition offsetVertex :: "Vec2 \<Rightarrow> Vec2 \<Rightarrow> Vec2 \<Rightarrow> real \<Rightarrow> Vec2" where
  "offsetVertex prv cur nxt offset =
     (let dx1 = vx cur - vx prv; dy1 = vy cur - vy prv;
          len1 = sqrt (dx1 * dx1 + dy1 * dy1);
          dx2 = vx nxt - vx cur; dy2 = vy nxt - vy cur;
          len2 = sqrt (dx2 * dx2 + dy2 * dy2)
      in if len1 = 0 \<or> len2 = 0 then cur \<comment> \<open>0/0 is NaN, and \<open>NaN > 0.001\<close> is false\<close>
         else
           let nx1 = - dy1 / len1; ny1 = dx1 / len1;
               nx2 = - dy2 / len2; ny2 = dx2 / len2;
               nx = (nx1 + nx2) / 2; ny = (ny1 + ny2) / 2;
               nlen = sqrt (nx * nx + ny * ny)
           in if nlen > 0.001 then
                let nx' = nx / nlen; ny' = ny / nlen;
                    dot = nx1 * nx2 + ny1 * ny2;
                    scale = offset / sqrt ((1 + dot) / 2)
                in \<lparr>vx = vx cur + nx' * scale, vy = vy cur + ny' * scale\<rparr>
              else cur)"

definition offsetPolygon :: "Vec2 list \<Rightarrow> real \<Rightarrow> Vec2 list" where
  "offsetPolygon vertices offset =
     (let n = length vertices
      in map (\<lambda>i. offsetVertex (vertices ! ((i + n - 1) mod n)) (vertices ! i)
                     (vertices ! ((i + 1) mod n)) offset) [0..<n])"

section \<open>Zones, parcels and building massings\<close>

datatype ZoneType = residential | commercial | industrial | none
datatype ZoneDensity = low | medium | high

datatype EraTag = E1890s | E1910s | E1930s | E1950s | E1970s | E1990s | E2010s | E2030s

datatype BuildingStyle =
  victorian | art_deco | modern | brutalist | postmodern | contemporary | futuristic

datatype RoofType = flat | gable | hip | mansard | pyramid | barrel | sawtooth | green

record Parcel =
  parcel_id :: int
  vertices :: "Vec2 list"
  zoneType :: ZoneType
  zoneDensity :: ZoneDensity
  area :: real
  frontage :: real
  frontageEdge :: int
  isCorner :: bool
  centroid :: Vec2
  blockId :: int

record BuildingMassing =
  massing_id :: int
  parcelId :: int
  footprint :: "Vec2 list"
  height :: real
  baseHeight :: real
  bodyHeight :: real
  roofHeight :: real
  style :: BuildingStyle
  roofType :: RoofType
  floorCount :: int
  setback :: real
  seed :: int
  massing_zoneType :: ZoneType
  massing_zoneDensity :: ZoneDensity
  level :: int

definition FLOOR_HEIGHT :: real where
  "FLOOR_HEIGHT = 3"

fun SETBACK_BY_DENSITY :: "ZoneDensity \<Rightarrow> real \<times> real" where
  "SETBACK_BY_DENSITY low = (4, 6)"
| "SETBACK_BY_DENSITY medium = (2, 4)"
| "SETBACK_BY_DENSITY high = (1, 2)"

fun HEIGHT_BY_DENSITY :: "ZoneDensity \<Rightarrow> real \<times> real" where
  "HEIGHT_BY_DENSITY low = (3, 6)"
| "HEIGHT_BY_DENSITY medium = (9, 15)"
| "HEIGHT_BY_DENSITY high = (18, 60)"

fun STYLE_BY_ERA :: "EraTag \<Rightarrow> BuildingStyle list" where
  "STYLE_BY_ERA E1890s = [victorian]"
| "STYLE_BY_ERA E1910s = [victorian, art_deco]"
| "STYLE_BY_ERA E1930s = [art_deco]"
| "STYLE_BY_ERA E1950s = [modern, brutalist]"
| "STYLE_BY_ERA E1970s = [brutalist, modern]"
| "STYLE_BY_ERA E1990s = [postmodern, contemporary]"
| "STYLE_BY_ERA E2010s = [contemporary, modern]"
| "STYLE_BY_ERA E2030s = [futuristic, contemporary]"

fun ROOF_BY_ERA :: "EraTag \<Rightarrow> RoofType list" where
  "ROOF_BY_ERA E1890s = [gable, hip, mansard]"
| "ROOF_BY_ERA E1910s = [gable, hip, mansard, pyramid]"
| "ROOF_BY_ERA E1930s = [flat, pyramid, barrel]"
| "ROOF_BY_ERA E1950s = [flat, sawtooth]"
| "ROOF_BY_ERA E1970s = [flat]"
| "ROOF_BY_ERA E1990s = [flat, pyramid, hip]"
| "ROOF_BY_ERA E2010s = [flat, green]"
| "ROOF_BY_ERA E2030s = [flat, green, pyramid]"

text \<open>The string comparison \<open>era >= '1950s'\<close> on the eight era tags.\<close>

fun era_ge_1950s :: "EraTag \<Rightarrow> bool" where
  "era_ge_1950s E1890s = False"
| "era_ge_1950s E1910s = False"
| "era_ge_1950s E1930s = False"
| "era_ge_1950s _ = True"

subsection \<open>The split grammar\<close>

fun styleRatios :: "BuildingStyle \<Rightarrow> real \<times> real" where
  "styleRatios victorian = (0.15, 0.2)"
| "styleRatios art_deco = (0.2, 0.15)"
| "styleRatios modern = (0.1, 0.05)"
| "styleRatios contemporary = (0.1, 0.05)"
| "styleRatios brutalist = (0.08, 0.03)"
| "styleRatios postmodern = (0.12, 0.1)"
| "styleRatios futuristic = (0.05, 0.08)"

record Splits =
  split_base :: real
  split_body :: real
  split_roof :: real

definition splitVertical :: "rng \<Rightarrow> real \<Rightarrow> BuildingStyle \<Rightarrow> Splits \<times> rng" where
  "splitVertical g h st =
     (let (baseRatio0, roofRatio0) = styleRatios st;
          (r1, g1) = rng_next g;
          baseRatio = baseRatio0 + (r1 - 0.5) * 0.05;
          (r2, g2) = rng_next g1;
          roofRatio = roofRatio0 + (r2 - 0.5) * 0.05;
          base = h * max 0.05 (min 0.25 baseRatio);
          roof = h * max 0.03 (min 0.25 roofRatio);
          body = h - base - roof
      in (\<lparr>split_base = base, split_body = body, split_roof = roof\<rparr>, g2))"

definition splitFloors :: "real \<Rightarrow> real list" where
  "splitFloors bodyH =
     (let floorCnt = max 1 (round (bodyH / FLOOR_HEIGHT));
          actualFloorHeight = bodyH / real_of_int floorCnt
      in replicate (nat floorCnt) actualFloorHeight)"

subsection \<open>The building manager\<close>

record BuildingManager =
  buildings :: "(int \<times> BuildingMassing) list"
  nextBuildingId :: int
  bm_rng :: rng

definition getStyleForEra :: "EraTag \<Rightarrow> rng \<Rightarrow> BuildingStyle \<times> rng" where
  "getStyleForEra era g =
     (let styles = STYLE_BY_ERA era; (r, g1) = rng_next g
      in (styles ! nat \<lfloor>r * real (length styles)\<rfloor>, g1))"

definition getRoofForEra :: "EraTag \<Rightarrow> ZoneDensity \<Rightarrow> rng \<Rightarrow> RoofType \<times> rng" where
  "getRoofForEra era density g =
     (let roofs = ROOF_BY_ERA era;
          pick = (\<lambda>g'. let (r, g'') = rng_next g'
                        in (roofs ! nat \<lfloor>r * real (length roofs)\<rfloor>, g''))
      in if density = high
         then (let (r0, g1) = rng_next g in if r0 > 0.3 then (flat, g1) else pick g1)
         else pick g)"

definition getSetback :: "ZoneDensity \<Rightarrow> rng \<Rightarrow> real \<times> rng" where
  "getSetback density g =
     (let (lo, hi) = SETBACK_BY_DENSITY density; (r, g1) = rng_next g
      in (lo + r * (hi - lo), g1))"

definition mapSet :: "'k \<Rightarrow> 'v \<Rightarrow> ('k \<times> 'v) list \<Rightarrow> ('k \<times> 'v) list" where
  "mapSet k v m = (if k \<in> fst ` set m then map (\<lambda>(k', v'). if k' = k then (k', v) else (k', v')) m
                   else m @ [(k, v)])"

definition generateBuildingForParcel ::
  "BuildingManager \<Rightarrow> Parcel \<Rightarrow> EraTag \<Rightarrow> int \<Rightarrow> BuildingMassing option \<times> BuildingManager" where
  "generateBuildingForParcel bm parcel era lvl =
     (if zoneType parcel = none then (None, bm)
      else
        let parcelRng = mulberry32 (parcel_id parcel + lvl * 1000);
            (st, g1) = getStyleForEra era parcelRng;
            (rf, g2) = getRoofForEra era (zoneDensity parcel) g1;
            (sb, g3) = getSetback (zoneDensity parcel) g2;
            fp = offsetPolygon (vertices parcel) (- sb)
        in if length fp < 3 then (None, bm)
           else
             let (hmin, hmax) = HEIGHT_BY_DENSITY (zoneDensity parcel);
                 (r, g4) = rng_next g3;
                 baseH = hmin + r * (hmax - hmin);
                 h = baseH * (1 + real_of_int (lvl - 1) * 0.3);
                 floorCnt = max 1 (round (h / FLOOR_HEIGHT));
                 adjustedHeight = (case zoneType parcel of
                                     commercial \<Rightarrow> h * 1.1
                                   | industrial \<Rightarrow> h * 0.7
                                   | _ \<Rightarrow> h);
                 adjustedStyle = (case zoneType parcel of
                                     industrial \<Rightarrow> (if era_ge_1950s era then modern else st)
                                   | _ \<Rightarrow> st);
                 (splits, g') = splitVertical (bm_rng bm) adjustedHeight adjustedStyle;
                 building = \<lparr>massing_id = nextBuildingId bm,
                             parcelId = parcel_id parcel,
                             footprint = fp,
                             height = adjustedHeight,
                             baseHeight = split_base splits,
                             bodyHeight = split_body splits,
                             roofHeight = split_roof splits,
                             style = adjustedStyle,
                             roofType = rf,
                             floorCount = floorCnt,
                             setback = sb,
                             seed = parcel_id parcel,
                             massing_zoneType = zoneType parcel,
                             massing_zoneDensity = zoneDensity parcel,
                             level = lvl\<rparr>
             in (Some building,
                 bm\<lparr>buildings := mapSet (massing_id building) building (buildings bm),
                    nextBuildingId := nextBuildingId bm + 1,
                    bm_rng := g'\<rparr>))"

text \<open>\<open>generateBuildings\<close>: the loop body for one parcel, and the loop.\<close>

definition bulkMassing ::
  "BuildingManager \<Rightarrow> Parcel \<Rightarrow> EraTag \<Rightarrow> BuildingMassing option \<times> BuildingManager" where
  "bulkMassing bm parcel era =
     (if zoneType parcel = none then (None, bm)
      else
        let parcelRng = mulberry32 (parcel_id parcel);
            (st, g1) = getStyleForEra era parcelRng;
            (rf, g2) = getRoofForEra era (zoneDensity parcel) g1;
            (sb, g3) = getSetback (zoneDensity parcel) g2;
            fp = offsetPolygon (vertices parcel) (- sb)
        in if length fp < 3 then (None, bm)
           else
             let (hmin, hmax) = HEIGHT_BY_DENSITY (zoneDensity parcel);
                 (r, g4) = rng_next g3;
                 h = hmin + r * (hmax - hmin);
                 floorCnt = max 1 (round (h / FLOOR_HEIGHT));
                 adjustedHeight = (case zoneType parcel of
                                     commercial \<Rightarrow> h * 1.1
                                   | industrial \<Rightarrow> h * 0.7
                                   | _ \<Rightarrow> h);
                 adjustedStyle = (case zoneType parcel of
                                     industrial \<Rightarrow> (if era_ge_1950s era then modern else st)
                                   | _ \<Rightarrow> st);
                 (splits, g') = splitVertical (bm_rng bm) adjustedHeight adjustedStyle;
                 massing = \<lparr>massing_id = nextBuildingId bm,
                            parcelId = parcel_id parcel,
                            footprint = fp,
                            height = adjustedHeight,
                            baseHeight = split_base splits,
                            bodyHeight = split_body splits,
                            roofHeight = split_roof splits,
                            style = adjustedStyle,
                            roofType = rf,
                            floorCount = floorCnt,
                            setback = sb,
                            seed = parcel_id parcel,
                            massing_zoneType = zoneType parcel,
                            massing_zoneDensity = zoneDensity parcel,
                            level = 1\<rparr>
             in (Some massing,
                 bm\<lparr>buildings := mapSet (massing_id massing) massing (buildings bm),
                    nextBuildingId := nextBuildingId bm + 1,
                    bm_rng := g'\<rparr>))"

fun generateBuildings_loop ::
  "BuildingManager \<Rightarrow> Parcel list \<Rightarrow> EraTag \<Rightarrow> BuildingMassing list
     \<Rightarrow> BuildingMassing list \<times> BuildingManager" where
  "generateBuildings_loop bm [] era generated = (generated, bm)"
| "generateBuildings_loop bm (p # ps) era generated =
     (case bulkMassing bm p era of
        (None, bm') \<Rightarrow> generateBuildings_loop bm' ps era generated
      | (Some m, bm') \<Rightarrow> generateBuildings_loop bm' ps era (generated @ [m]))"

definition generateBuildings ::
  "BuildingManager \<Rightarrow> Parcel list \<Rightarrow> EraTag \<Rightarrow> BuildingMassing list \<times> BuildingManager" where
  "generateBuildings bm parcels era = generateBuildings_loop bm parcels era []"

text \<open>A high-density residential lot of 20 m by 20 m and a freshly seeded manager.\<close>

definition squareLot :: Parcel where
  "squareLot = \<lparr>parcel_id = 0,
                 vertices = [mkVec2 0 0, mkVec2 20 0, mkVec2 20 20, mkVec2 0 20],
                 zoneType = residential, zoneDensity = high, area = 400, frontage = 20,
                 frontageEdge = -1, isCorner = False, centroid = mkVec2 10 10, blockId = 0\<rparr>"

definition freshManager :: BuildingManager where
  "freshManager = \<lparr>buildings = [], nextBuildingId = 0, bm_rng = mulberry32 1\<rparr>"

section \<open>Spatial index and road graph\<close>

datatype RoadClass = highway | avenue | street | local
datatype RoadMaterial = dirt | cobblestone | asphalt | concrete

record RoadNode =
  node_id :: int
  pos :: Vec2
  node_edges :: "int list"
  isIntersection :: bool

record RoadEdge =
  edge_id :: int
  nodeA :: int
  nodeB :: int
  roadClass :: RoadClass
  material :: RoadMaterial
  width :: real
  edge_length :: real

definition SNAP_THRESHOLD :: real where
  "SNAP_THRESHOLD = 15"




text \<open>
  \<open>SpatialGrid\<close>: the string key \<open>"gx,gy"\<close> is the pair of cell coordinates; a missing
  key is \<open>None\<close>.
\<close>

record SpatialGrid =
  cellSize :: real
  grid :: "int \<times> int \<Rightarrow> int list option"
  grid_width :: real
  grid_height :: real

definition newSpatialGrid :: "real \<Rightarrow> real \<Rightarrow> SpatialGrid" where
  "newSpatialGrid w h = \<lparr>cellSize = 50, grid = Map.empty, grid_width = w, grid_height = h\<rparr>"

definition getKey :: "SpatialGrid \<Rightarrow> real \<Rightarrow> real \<Rightarrow> int \<times> int" where
  "getKey sg x y = (\<lfloor>x / cellSize sg\<rfloor>, \<lfloor>y / cellSize sg\<rfloor>)"

definition cellNodes :: "SpatialGrid \<Rightarrow> int \<times> int \<Rightarrow> int list" where
  "cellNodes sg key = (case grid sg key of None \<Rightarrow> [] | Some ns \<Rightarrow> ns)"

definition grid_insert :: "SpatialGrid \<Rightarrow> int \<Rightarrow> real \<Rightarrow> real \<Rightarrow> SpatialGrid" where
  "grid_insert sg nodeId x y =
     sg\<lparr>grid := (grid sg)(getKey sg x y \<mapsto> cellNodes sg (getKey sg x y) @ [nodeId])\<rparr>"

definition getNearby :: "SpatialGrid \<Rightarrow> real \<Rightarrow> real \<Rightarrow> real \<Rightarrow> int list" where
  "getNearby sg x y radius =
     (let cellRadius = \<lceil>radius / cellSize sg\<rceil>;
          cx = \<lfloor>x / cellSize sg\<rfloor>;
          cy = \<lfloor>y / cellSize sg\<rfloor>
      in concat (map (\<lambda>dx. concat (map (\<lambda>dy. cellNodes sg (cx + dx, cy + dy))
                                        [- cellRadius..cellRadius]))
                     [- cellRadius..cellRadius]))"

record RoadNetwork =
  nodes :: "int \<Rightarrow> RoadNode option"
  edges :: "int \<Rightarrow> RoadEdge option"
  spatialIndex :: SpatialGrid
  nextNodeId :: int
  nextEdgeId :: int

definition newRoadNetwork :: "real \<Rightarrow> real \<Rightarrow> RoadNetwork" where
  "newRoadNetwork w h = \<lparr>nodes = Map.empty, edges = Map.empty,
                          spatialIndex = newSpatialGrid w h, nextNodeId = 0, nextEdgeId = 0\<rparr>"

definition distance :: "Vec2 \<Rightarrow> Vec2 \<Rightarrow> real" where
  "distance a b = (let dx = vx b - vx a; dy = vy b - vy a in sqrt (dx * dx + dy * dy))"

text \<open>The loop of \<open>addNode\<close> over the nearby ids, with its early return.\<close>

fun findSnap :: "RoadNetwork \<Rightarrow> Vec2 \<Rightarrow> int list \<Rightarrow> int option" where
  "findSnap net p [] = None"
| "findSnap net p (nodeId # rest) =
     (case nodes net nodeId of
        Some node \<Rightarrow> if distance (pos node) p < SNAP_THRESHOLD then Some nodeId
                     else findSnap net p rest
      | None \<Rightarrow> findSnap net p rest)"

definition addNode :: "RoadNetwork \<Rightarrow> real \<Rightarrow> real \<Rightarrow> int \<times> RoadNetwork" where
  "addNode net x y =
     (case findSnap net (mkVec2 x y) (getNearby (spatialIndex net) x y SNAP_THRESHOLD) of
        Some nodeId \<Rightarrow> (nodeId, net)
      | None \<Rightarrow>
          let newId = nextNodeId net;
              node = \<lparr>node_id = newId, pos = mkVec2 x y, node_edges = [], isIntersection = False\<rparr>
          in (newId, net\<lparr>nodes := (nodes net)(newId \<mapsto> node),
                         spatialIndex := grid_insert (spatialIndex net) newId x y,
                         nextNodeId := newId + 1\<rparr>))"

text \<open>\<open>Math.atan2(y, x)\<close>, with \<open>atan2(0, 0) = 0\<close>.\<close>

definition atan2 :: "real \<Rightarrow> real \<Rightarrow> real" where
  "atan2 y x =
     (if x > 0 then arctan (y / x)
      else if x < 0 then (if y \<ge> 0 then arctan (y / x) + pi else arctan (y / x) - pi)
      else if y > 0 then pi / 2
      else if y < 0 then - pi / 2
      else 0)"










text \<open>
  The invariant of the node table and the index: the cell size is positive, ids below
  \<open>nextNodeId\<close>, and every node filed under the cell of its position.
\<close>

definition indexed :: "RoadNetwork \<Rightarrow> bool" where
  "indexed net \<longleftrightarrow>
     cellSize (spatialIndex net) > 0 \<and>
     (\<forall>i n. nodes net i = Some n \<longrightarrow>
        i < nextNodeId net \<and>
        i \<in> set (cellNodes (spatialIndex net)
                   (getKey (spatialIndex net) (vx (pos n)) (vy (pos n)))))"

text \<open>Two nodes 20 m apart, and a query point between them.\<close>

definition oneNode :: RoadNetwork where
  "oneNode = snd (addNode (newRoadNetwork 2000 2000) 0 0)"

definition twoNodes :: RoadNetwork where
  "twoNodes = snd (addNode oneNode 20 0)"


section \<open>Intersection welder\<close>

text \<open>
  JavaScript \<open>Map\<close>s whose iteration order matters are association lists in insertion
  order: \<open>set\<close> on a present key replaces the value in place (\<open>mapSet\<close>), \<open>delete\<close>
  removes the entry (\<open>mapDelete\<close>), \<open>get\<close> is \<open>map_of\<close>.
\<close>

definition mapDelete :: "'k \<Rightarrow> ('k \<times> 'v) list \<Rightarrow> ('k \<times> 'v) list" where
  "mapDelete k m = filter (\<lambda>kv. fst kv \<noteq> k) m"

record RoadSegment =
  seg_id :: real
  seg_start :: Vec2
  seg_end :: Vec2
  seg_width :: real
  seg_class :: real

text \<open>The objects \<open>{point, segmentId}\<close> returned by \<open>findIntersections\<close>.\<close>

record IntersectionPoint =
  ip_point :: Vec2
  ip_segmentId :: real

datatype IntersectionType = IT_end | IT_T | IT_cross | IT_complex

record Intersection =
  int_id :: int
  position :: Vec2
  connectedSegments :: "real list"
  int_type :: IntersectionType
  int_angle :: real
  int_radius :: real

record IntersectionHandler =
  segments :: "(real \<times> RoadSegment) list"
  intersections :: "(int \<times> Intersection) list"
  nextSegmentId :: real
  nextIntersectionId :: int

definition newIntersectionHandler :: IntersectionHandler where
  "newIntersectionHandler =
     \<lparr>segments = [], intersections = [], nextSegmentId = 0, nextIntersectionId = 0\<rparr>"

text \<open>The welder's own thresholds (its \<open>SNAP_THRESHOLD\<close> is 10, not the road graph's 15).\<close>

definition IH_SNAP_THRESHOLD :: real where
  "IH_SNAP_THRESHOLD = 10"

definition INTERSECTION_THRESHOLD :: real where
  "INTERSECTION_THRESHOLD = 2"

text \<open>\<open>IntersectionHandler.lineIntersection\<close>; \<open>lineParam\<close> is its local \<open>t\<close>.\<close>

definition lineDenom :: "Vec2 \<Rightarrow> Vec2 \<Rightarrow> Vec2 \<Rightarrow> Vec2 \<Rightarrow> real" where
  "lineDenom p1 p2 p3 p4 =
     (vx p1 - vx p2) * (vy p3 - vy p4) - (vy p1 - vy p2) * (vx p3 - vx p4)"

definition lineParam :: "Vec2 \<Rightarrow> Vec2 \<Rightarrow> Vec2 \<Rightarrow> Vec2 \<Rightarrow> real" where
  "lineParam p1 p2 p3 p4 =
     ((vx p1 - vx p3) * (vy p3 - vy p4) - (vy p1 - vy p3) * (vx p3 - vx p4))
       / lineDenom p1 p2 p3 p4"

definition lineParamU :: "Vec2 \<Rightarrow> Vec2 \<Rightarrow> Vec2 \<Rightarrow> Vec2 \<Rightarrow> real" where
  "lineParamU p1 p2 p3 p4 =
     - ((vx p1 - vx p2) * (vy p1 - vy p3) - (vy p1 - vy p2) * (vx p1 - vx p3))
       / lineDenom p1 p2 p3 p4"

definition ih_lineIntersection :: "Vec2 \<Rightarrow> Vec2 \<Rightarrow> Vec2 \<Rightarrow> Vec2 \<Rightarrow> Vec2 option" where
  "ih_lineIntersection p1 p2 p3 p4 =
     (if \<bar>lineDenom p1 p2 p3 p4\<bar> < 0.001 then None
      else
        let t = lineParam p1 p2 p3 p4; u = lineParamU p1 p2 p3 p4
        in if t \<ge> 0 \<and> t \<le> 1 \<and> u \<ge> 0 \<and> u \<le> 1
           then Some \<lparr>vx = vx p1 + t * (vx p2 - vx p1), vy = vy p1 + t * (vy p2 - vy p1)\<rparr>
           else None)"

text \<open>\<open>findIntersections\<close>: the loop over the segment table.\<close>

definition isMiddleIntersection :: "Vec2 \<Rightarrow> RoadSegment \<Rightarrow> RoadSegment \<Rightarrow> bool" where
  "isMiddleIntersection X newSegment segment \<longleftrightarrow>
     distance X (seg_start newSegment) > INTERSECTION_THRESHOLD \<and>
     distance X (seg_end newSegment) > INTERSECTION_THRESHOLD \<and>
     distance X (seg_start segment) > INTERSECTION_THRESHOLD \<and>
     distance X (seg_end segment) > INTERSECTION_THRESHOLD"

fun findIntersections_loop ::
  "RoadSegment \<Rightarrow> (real \<times> RoadSegment) list \<Rightarrow> IntersectionPoint list" where
  "findIntersections_loop newSegment [] = []"
| "findIntersections_loop newSegment ((i, segment) # rest) =
     (case ih_lineIntersection (seg_start newSegment) (seg_end newSegment)
             (seg_start segment) (seg_end segment) of
        None \<Rightarrow> findIntersections_loop newSegment rest
      | Some X \<Rightarrow>
          if isMiddleIntersection X newSegment segment
          then \<lparr>ip_point = X, ip_segmentId = i\<rparr> # findIntersections_loop newSegment rest
          else findIntersections_loop newSegment rest)"

definition findIntersections :: "IntersectionHandler \<Rightarrow> RoadSegment \<Rightarrow> IntersectionPoint list" where
  "findIntersections h newSegment = findIntersections_loop newSegment (segments h)"

definition splitExistingSegment :: "IntersectionHandler \<Rightarrow> real \<Rightarrow> Vec2 \<Rightarrow> IntersectionHandler" where
  "splitExistingSegment h segmentId point =
     (case map_of (segments h) segmentId of
        None \<Rightarrow> h
      | Some segment \<Rightarrow>
          if distance point (seg_start segment) > INTERSECTION_THRESHOLD \<and>
             distance point (seg_end segment) > INTERSECTION_THRESHOLD
          then
            let segment1 = \<lparr>seg_id = segmentId, seg_start = seg_start segment, seg_end = point,
                             seg_width = seg_width segment, seg_class = seg_class segment\<rparr>;
                segment2 = \<lparr>seg_id = nextSegmentId h, seg_start = point,
                             seg_end = seg_end segment,
                             seg_width = seg_width segment, seg_class = seg_class segment\<rparr>
            in h\<lparr>segments := mapSet (seg_id segment2) segment2
                                (mapSet (seg_id segment1) segment1
                                   (mapDelete segmentId (segments h))),
                  nextSegmentId := nextSegmentId h + 1\<rparr>
          else h)"

text \<open>
  \<open>splitSegmentAtPoints\<close>: the loop over the sorted points, with \<open>currentStart\<close>,
  \<open>segmentIndex\<close> and the list built so far. \<open>Array.prototype.sort\<close> is stable and sorts
  in place, so the caller's array is the sorted one afterwards; it is returned as well.
\<close>

fun splitLoop ::
  "IntersectionHandler \<Rightarrow> RoadSegment \<Rightarrow> IntersectionPoint list \<Rightarrow> Vec2 \<Rightarrow> nat
     \<Rightarrow> RoadSegment list \<Rightarrow> RoadSegment list \<times> IntersectionHandler" where
  "splitLoop h segment [] currentStart segmentIndex acc =
     (acc @ [\<lparr>seg_id = seg_id segment + real segmentIndex * 0.001,
               seg_start = currentStart, seg_end = seg_end segment,
               seg_width = seg_width segment, seg_class = seg_class segment\<rparr>], h)"
| "splitLoop h segment (ip # rest) currentStart segmentIndex acc =
     splitLoop (splitExistingSegment h (ip_segmentId ip) (ip_point ip)) segment rest
       (ip_point ip) (segmentIndex + 1)
       (acc @ [\<lparr>seg_id = seg_id segment + real segmentIndex * 0.001,
                 seg_start = currentStart, seg_end = ip_point ip,
                 seg_width = seg_width segment, seg_class = seg_class segment\<rparr>])"

definition splitSegmentAtPoints ::
  "IntersectionHandler \<Rightarrow> RoadSegment \<Rightarrow> IntersectionPoint list
     \<Rightarrow> RoadSegment list \<times> IntersectionPoint list \<times> IntersectionHandler" where
  "splitSegmentAtPoints h segment intersectionPoints =
     (if intersectionPoints = [] then ([segment], intersectionPoints, h)
      else
        let sortedPoints =
              sort_key (\<lambda>ip. distance (seg_start segment) (ip_point ip)) intersectionPoints;
            (segs, h') = splitLoop h segment sortedPoints (seg_start segment) 0 []
        in (segs, sortedPoints, h'))"

fun getIntersectionType :: "nat \<Rightarrow> IntersectionType" where
  "getIntersectionType n =
     (if n = 2 then IT_end else if n = 3 then IT_T else if n = 4 then IT_cross
      else IT_complex)"

fun sumAngles :: "(real \<times> RoadSegment) list \<Rightarrow> Vec2 \<Rightarrow> real list \<Rightarrow> real \<times> nat" where
  "sumAngles segs point [] = (0, 0)"
| "sumAngles segs point (i # ids) =
     (case map_of segs i of
        None \<Rightarrow> sumAngles segs point ids
      | Some segment \<Rightarrow>
          let a = (if distance point (seg_start segment) < INTERSECTION_THRESHOLD
                   then atan2 (vy (seg_end segment) - vy (seg_start segment))
                              (vx (seg_end segment) - vx (seg_start segment))
                   else atan2 (vy (seg_start segment) - vy (seg_end segment))
                              (vx (seg_start segment) - vx (seg_end segment)));
              (total, cnt) = sumAngles segs point ids
          in (a + total, cnt + 1))"

definition calculateAverageAngle ::
  "(real \<times> RoadSegment) list \<Rightarrow> real list \<Rightarrow> Vec2 \<Rightarrow> real" where
  "calculateAverageAngle segs segmentIds point =
     (let (total, cnt) = sumAngles segs point segmentIds
      in if cnt > 0 then total / real cnt else 0)"

definition isConnected :: "Vec2 \<Rightarrow> RoadSegment \<Rightarrow> bool" where
  "isConnected point segment \<longleftrightarrow>
     distance point (seg_start segment) < INTERSECTION_THRESHOLD \<or>
     distance point (seg_end segment) < INTERSECTION_THRESHOLD"

definition createOrUpdateIntersection :: "IntersectionHandler \<Rightarrow> Vec2 \<Rightarrow> IntersectionHandler" where
  "createOrUpdateIntersection h point =
     (let conn = filter (\<lambda>kv. isConnected point (snd kv)) (segments h);
          connected = map fst conn;
          maxWidth = foldl (\<lambda>m kv. max m (seg_width (snd kv))) 0 conn
      in if length connected < 2 then h
         else
           case find (\<lambda>kv. distance (position (snd kv)) point < INTERSECTION_THRESHOLD)
                     (intersections h) of
             Some (i, existing) \<Rightarrow>
               h\<lparr>intersections :=
                    mapSet i (existing\<lparr>connectedSegments := connected,
                                        int_type := getIntersectionType (length connected),
                                        int_radius := maxWidth * 0.75\<rparr>)
                      (intersections h)\<rparr>
           | None \<Rightarrow>
               let intersection =
                     \<lparr>int_id = nextIntersectionId h, position = point,
                      connectedSegments = connected,
                      int_type = getIntersectionType (length connected),
                      int_angle = calculateAverageAngle (segments h) connected point,
                      int_radius = maxWidth * 0.75\<rparr>
               in h\<lparr>intersections := mapSet (int_id intersection) intersection (intersections h),
                     nextIntersectionId := nextIntersectionId h + 1\<rparr>)"

text \<open>\<open>updateIntersections\<close>: the map from rounded coordinates to points, then one call each.\<close>

definition roundKey :: "Vec2 \<Rightarrow> int \<times> int" where
  "roundKey p = (round (vx p), round (vy p))"

definition updateIntersections ::
  "IntersectionHandler \<Rightarrow> RoadSegment list \<Rightarrow> IntersectionPoint list \<Rightarrow> IntersectionHandler" where
  "updateIntersections h segs intersectionPoints =
     (let pm1 = foldl (\<lambda>pm segment.
                   mapSet (roundKey (seg_end segment)) (seg_end segment)
                     (mapSet (roundKey (seg_start segment)) (seg_start segment) pm))
                 [] segs;
          pm2 = foldl (\<lambda>pm ip. mapSet (roundKey (ip_point ip)) (ip_point ip) pm)
                 pm1 intersectionPoints
      in foldl createOrUpdateIntersection h (map snd pm2))"

text \<open>
  \<open>handleEndpointSnapping\<close> mutates the new segment objects, which are the objects stored
  in the table: each is read from the table by its id, run through the inner loop over
  the table, and written back.
\<close>

definition snapStep :: "RoadSegment \<Rightarrow> RoadSegment \<Rightarrow> RoadSegment" where
  "snapStep segment existing =
     (if seg_id existing = seg_id segment then segment
      else
        let s1 = (if distance (seg_start segment) (seg_start existing) < IH_SNAP_THRESHOLD
                  then segment\<lparr>seg_start := seg_start existing\<rparr>
                  else if distance (seg_start segment) (seg_end existing) < IH_SNAP_THRESHOLD
                  then segment\<lparr>seg_start := seg_end existing\<rparr>
                  else segment)
        in if distance (seg_end s1) (seg_start existing) < IH_SNAP_THRESHOLD
           then s1\<lparr>seg_end := seg_start existing\<rparr>
           else if distance (seg_end s1) (seg_end existing) < IH_SNAP_THRESHOLD
           then s1\<lparr>seg_end := seg_end existing\<rparr>
           else s1)"

definition snapSegment :: "IntersectionHandler \<Rightarrow> real \<Rightarrow> IntersectionHandler" where
  "snapSegment h i =
     (case map_of (segments h) i of
        None \<Rightarrow> h
      | Some segment \<Rightarrow>
          h\<lparr>segments := mapSet i (foldl snapStep segment (map snd (segments h))) (segments h)\<rparr>)"

definition handleEndpointSnapping :: "IntersectionHandler \<Rightarrow> RoadSegment list \<Rightarrow> IntersectionHandler" where
  "handleEndpointSnapping h segs = foldl snapSegment h (map seg_id segs)"

definition addSegment ::
  "IntersectionHandler \<Rightarrow> Vec2 \<Rightarrow> Vec2 \<Rightarrow> real \<Rightarrow> real \<Rightarrow> real \<times> IntersectionHandler" where
  "addSegment h start endp w roadCls =
     (let segmentId = nextSegmentId h;
          h0 = h\<lparr>nextSegmentId := nextSegmentId h + 1\<rparr>;
          newSegment = \<lparr>seg_id = segmentId, seg_start = start, seg_end = endp,
                         seg_width = w, seg_class = roadCls\<rparr>;
          intersectionPoints = findIntersections h0 newSegment;
          (splitSegments, sortedPoints, h1) = splitSegmentAtPoints h0 newSegment intersectionPoints;
          h2 = h1\<lparr>segments := foldl (\<lambda>m segment. mapSet (seg_id segment) segment m)
                                   (segments h1) splitSegments\<rparr>;
          h3 = updateIntersections h2 splitSegments sortedPoints;
          h4 = handleEndpointSnapping h3 splitSegments
      in (segmentId, h4))"

text \<open>
  The point of a segment at parameter \<open>t\<close>, as \<open>lineIntersection\<close> computes it, and the
  examples: a first road \<open>weldA\<close>, a second one meeting its end (\<open>weldAB\<close>), and a third
  one crossing the first mid-span (\<open>weldABC\<close>, with the candidate segment \<open>crossing\<close>).
\<close>

definition pointAt :: "RoadSegment \<Rightarrow> real \<Rightarrow> Vec2" where
  "pointAt segment t =
     \<lparr>vx = vx (seg_start segment) + t * (vx (seg_end segment) - vx (seg_start segment)),
      vy = vy (seg_start segment) + t * (vy (seg_end segment) - vy (seg_start segment))\<rparr>"

definition weldA :: IntersectionHandler where
  "weldA = snd (addSegment newIntersectionHandler (mkVec2 0 0) (mkVec2 100 0) 12 2)"

definition weldAB :: IntersectionHandler where
  "weldAB = snd (addSegment weldA (mkVec2 100 0) (mkVec2 100 100) 12 2)"

definition weldABC :: IntersectionHandler where
  "weldABC = snd (addSegment weldAB (mkVec2 50 (- 50)) (mkVec2 50 50) 12 2)"

definition crossing :: RoadSegment where
  "crossing = \<lparr>seg_id = 1, seg_start = mkVec2 50 (- 50), seg_end = mkVec2 50 50,
                seg_width = 12, seg_class = 2\<rparr>"

section \<open>Polygons, parcel subdivision and city blocks\<close>

text \<open>
  A call that does not return a value is an error value: \<open>TypeError\<close> where the source
  reads a field of \<open>undefined\<close>, \<open>Nontermination\<close> where a loop bound is \<open>Infinity\<close>
  (a division by a zero width).
\<close>

datatype failure = TypeError | Nontermination

fun PARCEL_WIDTHS :: "ZoneType \<Rightarrow> real \<times> real" where
  "PARCEL_WIDTHS residential = (15, 30)"
| "PARCEL_WIDTHS commercial = (20, 40)"
| "PARCEL_WIDTHS industrial = (30, 60)"
| "PARCEL_WIDTHS none = (0, 0)"

fun DEPTH_MULTIPLIER :: "ZoneDensity \<Rightarrow> real" where
  "DEPTH_MULTIPLIER low = 2"
| "DEPTH_MULTIPLIER medium = 1.5"
| "DEPTH_MULTIPLIER high = 1"

definition polygonArea :: "Vec2 list \<Rightarrow> real" where
  "polygonArea vs =
     (let n = length vs
      in \<bar>sum_list (map (\<lambda>i. vx (vs ! i) * vy (vs ! ((i + 1) mod n))
                               - vx (vs ! ((i + 1) mod n)) * vy (vs ! i)) [0..<n])\<bar> / 2)"

text \<open>
  \<open>polygonCentroid\<close> divides by the area; it is only called on polygons whose area has
  been checked to be at least 50.
\<close>

definition polygonCentroid :: "Vec2 list \<Rightarrow> Vec2" where
  "polygonCentroid vs =
     (let n = length vs;
          factor = (\<lambda>i. vx (vs ! i) * vy (vs ! ((i + 1) mod n))
                         - vx (vs ! ((i + 1) mod n)) * vy (vs ! i));
          cx = sum_list (map (\<lambda>i. (vx (vs ! i) + vx (vs ! ((i + 1) mod n))) * factor i) [0..<n]);
          cy = sum_list (map (\<lambda>i. (vy (vs ! i) + vy (vs ! ((i + 1) mod n))) * factor i) [0..<n]);
          scale = 1 / (6 * polygonArea vs)
      in \<lparr>vx = \<bar>cx * scale\<bar>, vy = \<bar>cy * scale\<bar>\<rparr>)"

definition edgeLength :: "Vec2 \<Rightarrow> Vec2 \<Rightarrow> real" where
  "edgeLength a b = sqrt ((vx b - vx a)\<^sup>2 + (vy b - vy a)\<^sup>2)"

definition polygonPerimeter :: "Vec2 list \<Rightarrow> real" where
  "polygonPerimeter vs =
     (let n = length vs
      in sum_list (map (\<lambda>i. distance (vs ! i) (vs ! ((i + 1) mod n))) [0..<n]))"

definition pointToSegmentDistance :: "Vec2 \<Rightarrow> Vec2 \<Rightarrow> Vec2 \<Rightarrow> real" where
  "pointToSegmentDistance point segStart segEnd =
     (let dx = vx segEnd - vx segStart; dy = vy segEnd - vy segStart;
          lengthSq = dx * dx + dy * dy
      in if lengthSq = 0
         then sqrt ((vx point - vx segStart)\<^sup>2 + (vy point - vy segStart)\<^sup>2)
         else
           let t0 = ((vx point - vx segStart) * dx + (vy point - vy segStart) * dy) / lengthSq;
               t = max 0 (min 1 t0);
               projX = vx segStart + t * dx;
               projY = vy segStart + t * dy
           in sqrt ((vx point - projX)\<^sup>2 + (vy point - projY)\<^sup>2))"

definition pointInPolygon :: "Vec2 \<Rightarrow> Vec2 list \<Rightarrow> bool" where
  "pointInPolygon point vs =
     (let n = length vs
      in foldl (\<lambda>inside i.
                  let j = (if i = 0 then n - 1 else i - 1);
                      xi = vx (vs ! i); yi = vy (vs ! i);
                      xj = vx (vs ! j); yj = vy (vs ! j);
                      intersect = (((yi > vy point) \<noteq> (yj > vy point)) \<and>
                                   vx point < (xj - xi) * (vy point - yi) / (yj - yi) + xi)
                  in if intersect then \<not> inside else inside)
               False [0..<n])"

text \<open>\<open>GeometryUtils.lineIntersection\<close> (its parallelism bound is 0.0001).\<close>

definition lineIntersection :: "Vec2 \<Rightarrow> Vec2 \<Rightarrow> Vec2 \<Rightarrow> Vec2 \<Rightarrow> Vec2 option" where
  "lineIntersection p1 p2 p3 p4 =
     (if \<bar>lineDenom p1 p2 p3 p4\<bar> < 0.0001 then None
      else
        let t = lineParam p1 p2 p3 p4; u = lineParamU p1 p2 p3 p4
        in if t \<ge> 0 \<and> t \<le> 1 \<and> u \<ge> 0 \<and> u \<le> 1
           then Some \<lparr>vx = vx p1 + t * (vx p2 - vx p1), vy = vy p1 + t * (vy p2 - vy p1)\<rparr>
           else None)"

subsection \<open>The parcel subdivider\<close>

definition isLeftOfLine :: "Vec2 \<Rightarrow> Vec2 \<Rightarrow> Vec2 \<Rightarrow> bool" where
  "isLeftOfLine point lineStart lineEnd \<longleftrightarrow>
     (vx lineEnd - vx lineStart) * (vy point - vy lineStart)
       - (vy lineEnd - vy lineStart) * (vx point - vx lineStart) \<ge> 0"

text \<open>One pass of \<open>clipToPolygon\<close> against the clip edge \<open>edge1\<close>-\<open>edge2\<close>.\<close>

definition clipEdge :: "Vec2 list \<Rightarrow> Vec2 \<Rightarrow> Vec2 \<Rightarrow> Vec2 list" where
  "clipEdge input edge1 edge2 =
     (let len = length input
      in concat (map (\<lambda>j.
           let cur = input ! j;
               prv = input ! ((j + len - 1) mod len);
               curInside = isLeftOfLine cur edge1 edge2;
               prvInside = isLeftOfLine prv edge1 edge2;
               crossing = (case lineIntersection prv cur edge1 edge2 of
                             Some X \<Rightarrow> [X] | None \<Rightarrow> [])
           in if curInside then (if \<not> prvInside then crossing else []) @ [cur]
              else if prvInside then crossing
              else []) [0..<len]))"

definition clipToPolygon :: "Vec2 list \<Rightarrow> Vec2 list \<Rightarrow> Vec2 list" where
  "clipToPolygon subject clip =
     foldl (\<lambda>output i. if output = [] then output
                        else clipEdge output (clip ! i) (clip ! ((i + 1) mod length clip)))
           subject [0..<length clip]"

definition estimateBlockDepth :: "Vec2 list \<Rightarrow> nat \<Rightarrow> real" where
  "estimateBlockDepth block frontageEdgeIndex =
     (let frontStart = block ! frontageEdgeIndex;
          frontEnd = block ! ((frontageEdgeIndex + 1) mod length block)
      in foldl (\<lambda>maxDist vertex. max maxDist (pointToSegmentDistance vertex frontStart frontEnd))
               0 block)"

text \<open>The parcels pushed in iteration \<open>i\<close> of the loop of \<open>subdivideWithSkeleton\<close>.\<close>

definition keepParcel :: "Vec2 list \<Rightarrow> Vec2 list list" where
  "keepParcel poly = (if length poly \<ge> 3 \<and> polygonArea poly \<ge> 50 then [poly] else [])"

definition stripParcels ::
  "Vec2 list \<Rightarrow> Vec2 \<Rightarrow> Vec2 \<Rightarrow> Vec2 \<Rightarrow> real \<Rightarrow> int \<Rightarrow> bool \<Rightarrow> nat \<Rightarrow> Vec2 list list" where
  "stripParcels block frontStart frontEnd perpDir targetDepth numParcels doDoubleRow i =
     (let t1 = real i / real_of_int numParcels;
          t2 = (real i + 1) / real_of_int numParcels;
          p1 = \<lparr>vx = vx frontStart + t1 * (vx frontEnd - vx frontStart),
                vy = vy frontStart + t1 * (vy frontEnd - vy frontStart)\<rparr>;
          p2 = \<lparr>vx = vx frontStart + t2 * (vx frontEnd - vx frontStart),
                vy = vy frontStart + t2 * (vy frontEnd - vy frontStart)\<rparr>;
          p3 = \<lparr>vx = vx p2 + vx perpDir * targetDepth, vy = vy p2 + vy perpDir * targetDepth\<rparr>;
          p4 = \<lparr>vx = vx p1 + vx perpDir * targetDepth, vy = vy p1 + vy perpDir * targetDepth\<rparr>;
          frontParcel = clipToPolygon [p1, p2, p3, p4] block;
          backP3 = \<lparr>vx = vx p3 + vx perpDir * targetDepth, vy = vy p3 + vy perpDir * targetDepth\<rparr>;
          backP4 = \<lparr>vx = vx p4 + vx perpDir * targetDepth, vy = vy p4 + vy perpDir * targetDepth\<rparr>;
          backParcel = clipToPolygon [p4, p3, backP3, backP4] block
      in keepParcel frontParcel @ (if doDoubleRow then keepParcel backParcel else []))"

text \<open>
  \<open>subdivideWithSkeleton\<close>. With a target width of 0 (zone type \<open>none\<close>) the parcel
  count is \<open>Infinity\<close> and the loop never ends, unless the frontage length is 0 as well:
  then the count is NaN and the loop is not entered. With a frontage of length 0 and a
  positive target width the direction is NaN: the single strip clips to fewer than 3
  points and nothing is pushed.
\<close>

definition subdivideWithSkeleton ::
  "Vec2 list \<Rightarrow> ZoneType \<Rightarrow> ZoneDensity \<Rightarrow> nat \<Rightarrow> failure + Vec2 list list" where
  "subdivideWithSkeleton block zt zd frontageEdgeIndex =
     (if frontageEdgeIndex \<ge> length block then Inl TypeError
      else
        let (wmin, wmax) = PARCEL_WIDTHS zt;
            densityMultiplier = (if zd = high then 0.7 else if zd = medium then 0.85 else 1);
            targetWidth = ((wmin + wmax) / 2) * densityMultiplier;
            targetDepth = targetWidth * DEPTH_MULTIPLIER zd;
            frontStart = block ! frontageEdgeIndex;
            frontEnd = block ! ((frontageEdgeIndex + 1) mod length block);
            frontageLength = edgeLength frontStart frontEnd
        in if targetWidth = 0 then (if frontageLength = 0 then Inr [] else Inl Nontermination)
           else if frontageLength = 0 then Inr []
           else
             let numParcels = max 1 (round (frontageLength / targetWidth));
                 frontDir = \<lparr>vx = (vx frontEnd - vx frontStart) / frontageLength,
                             vy = (vy frontEnd - vy frontStart) / frontageLength\<rparr>;
                 perpDir = \<lparr>vx = - vy frontDir, vy = vx frontDir\<rparr>;
                 blockDepth = estimateBlockDepth block frontageEdgeIndex;
                 doDoubleRow = (blockDepth > targetDepth * 2.5 \<and> zd \<noteq> low)
             in Inr (concat (map (stripParcels block frontStart frontEnd perpDir targetDepth
                                     numParcels doDoubleRow)
                                 [0..<nat numParcels])))"

text \<open>\<open>getPolygonBounds\<close>; on the empty list the bounds are infinite and never matter.\<close>

definition getPolygonBounds :: "Vec2 list \<Rightarrow> real \<times> real \<times> real \<times> real" where
  "getPolygonBounds vs =
     (case vs of
        [] \<Rightarrow> (0, 0, 0, 0)
      | v # rest \<Rightarrow>
          (foldl min (vx v) (map vx rest), foldl min (vy v) (map vy rest),
           foldl max (vx v) (map vx rest), foldl max (vy v) (map vy rest)))"

definition clipByHalfPlane :: "Vec2 list \<Rightarrow> Vec2 \<Rightarrow> Vec2 \<Rightarrow> Vec2 list" where
  "clipByHalfPlane poly point normal =
     (if length poly < 3 then []
      else
        let n = length poly
        in concat (map (\<lambda>i.
             let cur = poly ! i;
                 nxt = poly ! ((i + 1) mod n);
                 curSide = (vx cur - vx point) * vx normal + (vy cur - vy point) * vy normal;
                 nxtSide = (vx nxt - vx point) * vx normal + (vy nxt - vy point) * vy normal;
                 cut = (let t = curSide / (curSide - nxtSide)
                        in \<lparr>vx = vx cur + t * (vx nxt - vx cur),
                             vy = vy cur + t * (vy nxt - vy cur)\<rparr>)
             in if curSide \<ge> 0 then cur # (if nxtSide < 0 then [cut] else [])
                else if nxtSide \<ge> 0 then [cut]
                else []) [0..<n]))"

text \<open>
  \<open>computeVoronoiCell\<close>: the seed is skipped by object identity, here by its index;
  the loop stops as soon as the cell has fewer than 3 vertices.
\<close>

fun cellLoop :: "Vec2 \<Rightarrow> Vec2 list \<Rightarrow> Vec2 list \<Rightarrow> Vec2 list" where
  "cellLoop sd [] cell = cell"
| "cellLoop sd (otherSeed # rest) cell =
     (let midpoint = \<lparr>vx = (vx sd + vx otherSeed) / 2, vy = (vy sd + vy otherSeed) / 2\<rparr>;
          dx = vx otherSeed - vx sd;
          dy = vy otherSeed - vy sd;
          cell' = clipByHalfPlane cell midpoint \<lparr>vx = - dy, vy = dx\<rparr>
      in if length cell' < 3 then cell' else cellLoop sd rest cell')"

definition computeVoronoiCell :: "nat \<Rightarrow> Vec2 list \<Rightarrow> Vec2 list \<Rightarrow> Vec2 list" where
  "computeVoronoiCell i allSeeds boundary =
     cellLoop (allSeeds ! i) (take i allSeeds @ drop (Suc i) allSeeds) boundary"

text \<open>The grid loops of \<open>subdivideWithVoronoi\<close>: one step per cell, in row-major order.\<close>

definition gridSeedStep ::
  "Vec2 list \<Rightarrow> int \<Rightarrow> real \<Rightarrow> real \<Rightarrow> real \<Rightarrow> real \<Rightarrow> Vec2 list \<times> rng \<Rightarrow> nat \<times> nat
     \<Rightarrow> Vec2 list \<times> rng" where
  "gridSeedStep block numParcels minX minY cellWidth cellHeight acc cell =
     (let (seeds, g) = acc; (row, col) = cell
      in if int (length seeds) < numParcels then
           let (r1, g1) = rng_next g;
               jitterX = (r1 - 0.5) * cellWidth * 0.3;
               (r2, g2) = rng_next g1;
               jitterY = (r2 - 0.5) * cellHeight * 0.3;
               point = \<lparr>vx = minX + (real col + 0.5) * cellWidth + jitterX,
                         vy = minY + (real row + 0.5) * cellHeight + jitterY\<rparr>
           in (if pointInPolygon point block then seeds @ [point] else seeds, g2)
         else (seeds, g))"

text \<open>The rejection-sampling loop, with the number of attempts left.\<close>

fun fillSeeds ::
  "nat \<Rightarrow> Vec2 list \<Rightarrow> int \<Rightarrow> real \<Rightarrow> real \<Rightarrow> real \<Rightarrow> real \<Rightarrow> real \<Rightarrow> Vec2 list \<times> rng
     \<Rightarrow> Vec2 list \<times> rng" where
  "fillSeeds 0 block numParcels minX minY maxX maxY minDist acc = acc"
| "fillSeeds (Suc k) block numParcels minX minY maxX maxY minDist acc =
     (let (seeds, g) = acc
      in if int (length seeds) < numParcels then
           let (r1, g1) = rng_next g;
               px = minX + r1 * (maxX - minX);
               (r2, g2) = rng_next g1;
               py = minY + r2 * (maxY - minY);
               point = \<lparr>vx = px, vy = py\<rparr>;
               tooClose = (\<exists>s \<in> set seeds. sqrt ((vx s - px)\<^sup>2 + (vy s - py)\<^sup>2) < minDist)
           in fillSeeds k block numParcels minX minY maxX maxY minDist
                (if pointInPolygon point block \<and> \<not> tooClose then seeds @ [point] else seeds, g2)
         else acc)"

definition subdivideWithVoronoi ::
  "rng \<Rightarrow> Vec2 list \<Rightarrow> ZoneType \<Rightarrow> ZoneDensity \<Rightarrow> (failure + Vec2 list list) \<times> rng" where
  "subdivideWithVoronoi g block zt zd =
     (let blockArea = polygonArea block;
          (wmin, wmax) = PARCEL_WIDTHS zt;
          avgWidth = (wmin + wmax) / 2;
          densityMultiplier = (if zd = high then 0.6 else if zd = medium then 0.8 else 1);
          targetParcelArea = avgWidth * avgWidth * DEPTH_MULTIPLIER zd * densityMultiplier
      in if targetParcelArea = 0 \<or> wmin = 0
         then (if blockArea = 0 then (Inr [], g) else (Inl Nontermination, g))
         else
           let maxParcels = \<lceil>blockArea / (wmin * wmin * 0.8)\<rceil>;
               numParcels = max 2 (min maxParcels (round (blockArea / targetParcelArea)));
               (minX, minY, maxX, maxY) = getPolygonBounds block;
               gridSize = nat \<lceil>sqrt (real_of_int numParcels)\<rceil>;
               cellWidth = (maxX - minX) / real gridSize;
               cellHeight = (maxY - minY) / real gridSize;
               cells = concat (map (\<lambda>row. map (\<lambda>col. (row, col)) [0..<gridSize]) [0..<gridSize]);
               acc1 = foldl (gridSeedStep block numParcels minX minY cellWidth cellHeight)
                        ([], g) cells;
               (seeds, g') = fillSeeds (nat (numParcels * 20)) block numParcels minX minY maxX maxY
                               (sqrt targetParcelArea * 0.4) acc1
           in (Inr (concat (map (\<lambda>i. keepParcel (computeVoronoiCell i seeds block))
                                [0..<length seeds])), g'))"

subsection \<open>The block manager\<close>

datatype SubdivisionMethod = skeleton | voronoi

record CityBlock =
  block_id :: int
  block_vertices :: "Vec2 list"
  holes :: "Vec2 list list"
  block_parcels :: "int list"
  block_area :: real
  perimeter :: real
  roadEdges :: "int list"

record ZonePaintRequest =
  polygon :: "Vec2 list"
  req_zoneType :: ZoneType
  req_zoneDensity :: ZoneDensity
  subdivisionMethod :: "SubdivisionMethod option"

record CityBlockManager =
  blocks :: "(int \<times> CityBlock) list"
  parcels :: "(int \<times> Parcel) list"
  nextBlockId :: int
  nextParcelId :: int
  cbm_rng :: rng

definition newCityBlockManager :: "rng \<Rightarrow> CityBlockManager" where
  "newCityBlockManager g =
     \<lparr>blocks = [], parcels = [], nextBlockId = 0, nextParcelId = 0, cbm_rng = g\<rparr>"

definition polygonsIntersect :: "Vec2 list \<Rightarrow> Vec2 list \<Rightarrow> bool" where
  "polygonsIntersect poly1 poly2 \<longleftrightarrow>
     (\<exists>v \<in> set poly1. pointInPolygon v poly2) \<or>
     (\<exists>v \<in> set poly2. pointInPolygon v poly1) \<or>
     (\<exists>i \<in> set [0..<length poly1]. \<exists>j \<in> set [0..<length poly2].
        lineIntersection (poly1 ! i) (poly1 ! ((i + 1) mod length poly1))
                         (poly2 ! j) (poly2 ! ((j + 1) mod length poly2)) \<noteq> None)"

definition edgesOverlap :: "Vec2 \<Rightarrow> Vec2 \<Rightarrow> Vec2 \<Rightarrow> Vec2 \<Rightarrow> bool" where
  "edgesOverlap a1 a2 b1 b2 =
     (let dax = vx a2 - vx a1; day = vy a2 - vy a1;
          dbx = vx b2 - vx b1; dby = vy b2 - vy b1;
          lenA = sqrt (dax * dax + day * day);
          lenB = sqrt (dbx * dbx + dby * dby)
      in if lenA < 0.001 \<or> lenB < 0.001 then False
         else
           let dot = \<bar>(dax / lenA) * (dbx / lenB) + (day / lenA) * (dby / lenB)\<bar>
           in if dot < 0.95 then False
              else pointToSegmentDistance a1 b1 b2 < 2 \<and> pointToSegmentDistance a2 b1 b2 < 2)"

text \<open>
  The choice of the frontage edge in \<open>paintZone\<close>: \<open>minDistance\<close> starts at
  \<open>Infinity\<close> (\<open>None\<close>).
\<close>

definition frontageStep ::
  "RoadNetwork \<Rightarrow> Vec2 \<Rightarrow> nat \<Rightarrow> nat \<times> real option \<Rightarrow> int \<Rightarrow> nat \<times> real option" where
  "frontageStep net midpoint i acc roadEdgeId =
     (case edges net roadEdgeId of
        None \<Rightarrow> acc
      | Some edge \<Rightarrow>
          (case nodes net (nodeA edge) of
             None \<Rightarrow> acc
           | Some nA \<Rightarrow>
               (case nodes net (nodeB edge) of
                  None \<Rightarrow> acc
                | Some nB \<Rightarrow>
                    let dist = pointToSegmentDistance midpoint (pos nA) (pos nB)
                    in if (case snd acc of None \<Rightarrow> True | Some m \<Rightarrow> dist < m)
                       then (i, Some dist) else acc)))"

definition bestFrontageIndex :: "RoadNetwork \<Rightarrow> CityBlock \<Rightarrow> nat" where
  "bestFrontageIndex net block =
     (let vs = block_vertices block
      in fst (foldl (\<lambda>acc i.
                let edgeStart = vs ! i;
                    edgeEnd = vs ! ((i + 1) mod length vs);
                    midpoint = \<lparr>vx = (vx edgeStart + vx edgeEnd) / 2,
                                vy = (vy edgeStart + vy edgeEnd) / 2\<rparr>
                in foldl (frontageStep net midpoint i) acc (roadEdges block))
              (0, None) [0..<length vs]))"

text \<open>
  Frontage of a parcel inside a block: the running \<open>frontage\<close>, \<open>frontageEdge\<close> and the
  set \<open>frontageEdges\<close> over all pairs of a parcel edge \<open>i\<close> and a block edge \<open>j\<close>.
\<close>

definition frontagePair ::
  "CityBlock \<Rightarrow> Vec2 list \<Rightarrow> real \<times> int \<times> int list \<Rightarrow> nat \<times> nat \<Rightarrow> real \<times> int \<times> int list" where
  "frontagePair block vs acc ij =
     (let (front, frontEdge, frontEdges) = acc; (i, j) = ij;
          bvs = block_vertices block;
          edgeStart = vs ! i;
          edgeEnd = vs ! ((i + 1) mod length vs);
          len = edgeLength edgeStart edgeEnd
      in if edgesOverlap edgeStart edgeEnd (bvs ! j) (bvs ! ((j + 1) mod length bvs)) then
           (if length (roadEdges block) > 0 then
              (if j < length (roadEdges block) \<and> roadEdges block ! j \<ge> 0
               then (front + len,
                     if frontEdge = - 1 then roadEdges block ! j else frontEdge,
                     List.insert (roadEdges block ! j) frontEdges)
               else (front + len, frontEdge, frontEdges))
            else
              (if len > 10
               then (front + len, if frontEdge = - 1 then int j else frontEdge,
                     List.insert (int j) frontEdges)
               else (front + len, frontEdge, frontEdges)))
         else acc)"

definition longestEdge :: "Vec2 list \<Rightarrow> real" where
  "longestEdge vs =
     foldl (\<lambda>m i. max m (edgeLength (vs ! i) (vs ! ((i + 1) mod length vs)))) 0 [0..<length vs]"

definition blockParcel ::
  "CityBlock \<Rightarrow> int \<Rightarrow> ZonePaintRequest \<Rightarrow> Vec2 list \<Rightarrow> int \<Rightarrow> Parcel" where
  "blockParcel block blockKey request vs newId =
     (let pairs = concat (map (\<lambda>i. map (\<lambda>j. (i, j)) [0..<length (block_vertices block)])
                              [0..<length vs]);
          (front, frontEdge, frontEdges) = foldl (frontagePair block vs) (0, - 1, []) pairs
      in \<lparr>parcel_id = newId, vertices = vs,
           zoneType = req_zoneType request, zoneDensity = req_zoneDensity request,
           area = polygonArea vs,
           frontage = (if front = 0 \<and> length vs \<ge> 3 then longestEdge vs else front),
           frontageEdge = frontEdge,
           isCorner = (length frontEdges > 1),
           centroid = polygonCentroid vs,
           blockId = blockKey\<rparr>)"

definition standaloneParcel :: "int \<Rightarrow> ZonePaintRequest \<Rightarrow> Vec2 list \<Rightarrow> int \<Rightarrow> Parcel" where
  "standaloneParcel blockKey request vs newId =
     \<lparr>parcel_id = newId, vertices = vs,
      zoneType = req_zoneType request, zoneDensity = req_zoneDensity request,
      area = polygonArea vs,
      frontage = (if length vs \<ge> 3 then longestEdge vs else 0),
      frontageEdge = - 1,
      isCorner = False,
      centroid = polygonCentroid vs,
      blockId = blockKey\<rparr>"

text \<open>
  The loop "create parcel objects": the parcel table, \<open>nextParcelId\<close>, the parcel list
  of the block and \<open>affectedParcels\<close>, for each polygon that passes the two checks.
\<close>

record ParcelAcc =
  acc_parcels :: "(int \<times> Parcel) list"
  acc_nextId :: int
  acc_blockParcels :: "int list"
  acc_affected :: "int list"

definition createParcel :: "(Vec2 list \<Rightarrow> int \<Rightarrow> Parcel) \<Rightarrow> ParcelAcc \<Rightarrow> Vec2 list \<Rightarrow> ParcelAcc" where
  "createParcel mk acc vs =
     (if length vs < 3 then acc
      else if polygonArea vs < 50 then acc
      else
        let parcel = mk vs (acc_nextId acc)
        in \<lparr>acc_parcels = mapSet (parcel_id parcel) parcel (acc_parcels acc),
            acc_nextId = acc_nextId acc + 1,
            acc_blockParcels = acc_blockParcels acc @ [parcel_id parcel],
            acc_affected = acc_affected acc @ [parcel_id parcel]\<rparr>)"

text \<open>The body of the loop over the blocks, for one block that intersects the paint polygon.\<close>

definition paintBlock ::
  "ZonePaintRequest \<Rightarrow> RoadNetwork \<Rightarrow> CityBlockManager \<times> int list \<Rightarrow> int \<times> CityBlock
     \<Rightarrow> failure + CityBlockManager \<times> int list" where
  "paintBlock request net st kb =
     (let (m, affected) = st; (blockKey, block) = kb;
          cleared = foldl (\<lambda>ps parcelId. mapDelete parcelId ps) (parcels m) (block_parcels block);
          method = (case subdivisionMethod request of None \<Rightarrow> skeleton | Some meth \<Rightarrow> meth);
          best = bestFrontageIndex net block;
          (polys, g') =
             (if method = voronoi
              then subdivideWithVoronoi (cbm_rng m) (block_vertices block)
                     (req_zoneType request) (req_zoneDensity request)
              else (subdivideWithSkeleton (block_vertices block)
                      (req_zoneType request) (req_zoneDensity request) best, cbm_rng m))
      in case polys of
           Inl e \<Rightarrow> Inl e
         | Inr parcelPolygons \<Rightarrow>
             let acc = foldl (createParcel (blockParcel block blockKey request))
                         \<lparr>acc_parcels = cleared, acc_nextId = nextParcelId m,
                          acc_blockParcels = [], acc_affected = affected\<rparr>
                         parcelPolygons
             in Inr (m\<lparr>blocks := mapSet blockKey (block\<lparr>block_parcels := acc_blockParcels acc\<rparr>)
                                    (blocks m),
                       parcels := acc_parcels acc,
                       nextParcelId := acc_nextId acc,
                       cbm_rng := g'\<rparr>,
                     acc_affected acc))"

fun paintBlocks ::
  "ZonePaintRequest \<Rightarrow> RoadNetwork \<Rightarrow> bool \<times> CityBlockManager \<times> int list
     \<Rightarrow> (int \<times> CityBlock) list \<Rightarrow> failure + bool \<times> CityBlockManager \<times> int list" where
  "paintBlocks request net st [] = Inr st"
| "paintBlocks request net (found, m, affected) ((blockKey, block) # rest) =
     (if polygonsIntersect (block_vertices block) (polygon request)
      then (case paintBlock request net (m, affected) (blockKey, block) of
              Inl e \<Rightarrow> Inl e
            | Inr (m', affected') \<Rightarrow> paintBlocks request net (True, m', affected') rest)
      else paintBlocks request net (found, m, affected) rest)"

text \<open>The standalone path: the virtual block, always subdivided by the skeleton method.\<close>

definition paintStandalone ::
  "ZonePaintRequest \<Rightarrow> CityBlockManager \<Rightarrow> int list \<Rightarrow> failure + int list \<times> CityBlockManager" where
  "paintStandalone request m affected =
     (let virtualBlock = \<lparr>block_id = nextBlockId m, block_vertices = polygon request,
                           holes = [], block_parcels = [],
                           block_area = polygonArea (polygon request),
                           perimeter = polygonPerimeter (polygon request),
                           roadEdges = []\<rparr>
      in case subdivideWithSkeleton (polygon request) (req_zoneType request)
                (req_zoneDensity request) 0 of
           Inl e \<Rightarrow> Inl e
         | Inr parcelPolygons \<Rightarrow>
             let acc = foldl (createParcel (standaloneParcel (block_id virtualBlock) request))
                         \<lparr>acc_parcels = parcels m, acc_nextId = nextParcelId m,
                          acc_blockParcels = [], acc_affected = affected\<rparr>
                         parcelPolygons
             in Inr (acc_affected acc,
                     m\<lparr>blocks := mapSet (block_id virtualBlock)
                                    (virtualBlock\<lparr>block_parcels := acc_blockParcels acc\<rparr>)
                                    (blocks m),
                       nextBlockId := nextBlockId m + 1,
                       parcels := acc_parcels acc,
                       nextParcelId := acc_nextId acc\<rparr>))"

definition paintZone ::
  "CityBlockManager \<Rightarrow> ZonePaintRequest \<Rightarrow> RoadNetwork
     \<Rightarrow> failure + int list \<times> CityBlockManager" where
  "paintZone m request net =
     (case paintBlocks request net (False, m, []) (blocks m) of
        Inl e \<Rightarrow> Inl e
      | Inr (foundIntersectingBlock, m', affected) \<Rightarrow>
          if \<not> foundIntersectingBlock \<and> length (polygon request) \<ge> 3
          then paintStandalone request m' affected
          else Inr (affected, m'))"

text \<open>
  The parcels of a reply \<open>zone-painted\<close>: the worker filters the whole parcel table by
  the returned ids.
\<close>

definition affectedParcels :: "CityBlockManager \<Rightarrow> int list \<Rightarrow> Parcel list" where
  "affectedParcels m ids = filter (\<lambda>p. parcel_id p \<in> set ids) (map snd (parcels m))"

subsection \<open>Notions used to state the properties of \<open>paintZone\<close>\<close>

text \<open>
  The table invariant of the block manager: block keys are distinct and below
  \<open>nextBlockId\<close>; every parcel is stored under its own id, below \<open>nextParcelId\<close>; the
  parcel ids listed in the blocks are below \<open>nextParcelId\<close>.
\<close>

definition wellFormed :: "CityBlockManager \<Rightarrow> bool" where
  "wellFormed m \<longleftrightarrow>
     distinct (map fst (blocks m)) \<and>
     (\<forall>kb \<in> set (blocks m). fst kb < nextBlockId m \<and>
        (\<forall>i \<in> set (block_parcels (snd kb)). i < nextParcelId m)) \<and>
     (\<forall>kp \<in> set (parcels m). parcel_id (snd kp) = fst kp \<and> fst kp < nextParcelId m)"

text \<open>The polygons that pass the two checks of the parcel-creation loops.\<close>

definition goodPolys :: "Vec2 list list \<Rightarrow> Vec2 list list" where
  "goodPolys polys = filter (\<lambda>vs. \<not> length vs < 3 \<and> \<not> polygonArea vs < 50) polys"

text \<open>Table entries for the polygons, numbered from a first id.\<close>

fun numbered :: "(Vec2 list \<Rightarrow> int \<Rightarrow> Parcel) \<Rightarrow> int \<Rightarrow> Vec2 list list \<Rightarrow> (int \<times> Parcel) list" where
  "numbered mk n [] = []"
| "numbered mk n (vs # rest) = (n, mk vs n) # numbered mk (n + 1) rest"

text \<open>The skeleton subdivision of a block as \<open>paintZone\<close> calls it.\<close>

definition skeletonOf :: "ZonePaintRequest \<Rightarrow> RoadNetwork \<Rightarrow> CityBlock \<Rightarrow> failure + Vec2 list list" where
  "skeletonOf request net block =
     subdivideWithSkeleton (block_vertices block) (req_zoneType request)
       (req_zoneDensity request) (bestFrontageIndex net block)"

definition blockHit :: "ZonePaintRequest \<Rightarrow> CityBlock \<Rightarrow> bool" where
  "blockHit request block \<longleftrightarrow> polygonsIntersect (block_vertices block) (polygon request)"

text \<open>
  The polygons a skeleton paint emits: those of the intersecting blocks, in table order,
  or those of the standalone path when no block intersects.
\<close>

definition polysOrNone :: "failure + Vec2 list list \<Rightarrow> Vec2 list list" where
  "polysOrNone r = (case r of Inl e \<Rightarrow> [] | Inr polys \<Rightarrow> goodPolys polys)"

definition blockPolys :: "ZonePaintRequest \<Rightarrow> RoadNetwork \<Rightarrow> (int \<times> CityBlock) list \<Rightarrow> Vec2 list list" where
  "blockPolys request net bs =
     concat (map (\<lambda>kb. if blockHit request (snd kb)
                         then polysOrNone (skeletonOf request net (snd kb)) else []) bs)"

definition paintedPolys :: "CityBlockManager \<Rightarrow> ZonePaintRequest \<Rightarrow> RoadNetwork \<Rightarrow> Vec2 list list" where
  "paintedPolys m request net =
     blockPolys request net (blocks m) @
     (if (\<forall>kb \<in> set (blocks m). \<not> blockHit request (snd kb)) \<and> length (polygon request) \<ge> 3
      then polysOrNone (subdivideWithSkeleton (polygon request) (req_zoneType request)
                          (req_zoneDensity request) 0)
      else [])"

text \<open>
  Two notions for the loop over the blocks: the table entries created by one call (each
  stored under its own id, ids in a range, area as computed from the vertices), and
  block tables that agree on keys, polygons and road edges.
\<close>

definition entriesIn :: "int \<Rightarrow> int \<Rightarrow> (int \<times> Parcel) list \<Rightarrow> bool" where
  "entriesIn lo hi es \<longleftrightarrow>
     (\<forall>kp \<in> set es. parcel_id (snd kp) = fst kp \<and> lo \<le> fst kp \<and> fst kp < hi \<and>
        area (snd kp) = polygonArea (vertices (snd kp)))"

definition sameShape :: "(int \<times> CityBlock) list \<Rightarrow> (int \<times> CityBlock) list \<Rightarrow> bool" where
  "sameShape bs cs \<longleftrightarrow>
     map fst bs = map fst cs \<and>
     map (block_vertices \<circ> snd) bs = map (block_vertices \<circ> snd) cs \<and>
     map (roadEdges \<circ> snd) bs = map (roadEdges \<circ> snd) cs"

text \<open>
  A sequence of \<open>paint-zone\<close> requests with the same request: the polygons of the
  parcels of each reply, in order.
\<close>

fun paintRepeat ::
  "nat \<Rightarrow> CityBlockManager \<Rightarrow> ZonePaintRequest \<Rightarrow> RoadNetwork \<Rightarrow> failure + Vec2 list list list" where
  "paintRepeat 0 m request net = Inr []"
| "paintRepeat (Suc n) m request net =
     (case paintZone m request net of
        Inl e \<Rightarrow> Inl e
      | Inr (ids, m') \<Rightarrow>
          (case paintRepeat n m' request net of
             Inl e \<Rightarrow> Inl e
           | Inr replies \<Rightarrow> Inr (map vertices (affectedParcels m' ids) # replies)))"

subsection \<open>Example lots\<close>

text \<open>
  A 10 m square lot, painted residential at low density; the strip the skeleton method
  cuts from it; the block table after the first paint on a fresh manager; and the cells
  the Voronoi method keeps from it, with the generator in state 1 and in the state left
  by that call.
\<close>

definition paintSquare :: "Vec2 list" where
  "paintSquare = [mkVec2 0 0, mkVec2 10 0, mkVec2 10 10, mkVec2 0 10]"

definition squareRequest :: "SubdivisionMethod option \<Rightarrow> ZonePaintRequest" where
  "squareRequest meth =
     \<lparr>polygon = paintSquare, req_zoneType = residential, req_zoneDensity = low,
      subdivisionMethod = meth\<rparr>"

definition squareStrip :: "Vec2 list" where
  "squareStrip = [mkVec2 0 10, mkVec2 0 0, mkVec2 10 0, mkVec2 10 10]"

definition squareBlock :: "int list \<Rightarrow> CityBlock" where
  "squareBlock ps =
     \<lparr>block_id = 0, block_vertices = paintSquare, holes = [], block_parcels = ps,
      block_area = polygonArea paintSquare, perimeter = polygonPerimeter paintSquare,
      roadEdges = []\<rparr>"

definition squarePainted :: CityBlockManager where
  "squarePainted =
     \<lparr>blocks = [(0, squareBlock [0])],
      parcels = [(0, standaloneParcel 0 (squareRequest None) squareStrip 0)],
      nextBlockId = 1, nextParcelId = 1, cbm_rng = mulberry32 1\<rparr>"

definition squareCellA :: "Vec2 list" where
  "squareCellA =
     [\<lparr>vx = 10, vy = 354817850813711837903 / 89477032460429557760\<rparr>, \<lparr>vx = 10, vy = 10\<rparr>, \<lparr>vx = 0, vy = 10\<rparr>, \<lparr>vx = 0, vy = 84116886237511871183 / 89477032460429557760\<rparr>]"

definition squareCellB :: "Vec2 list" where
  "squareCellB =
     [\<lparr>vx = 10, vy = 261625476889932794939 / 82395913915952267264\<rparr>, \<lparr>vx = 10, vy = 10\<rparr>, \<lparr>vx = 0, vy = 10\<rparr>, \<lparr>vx = 0, vy = 139976678538001321019 / 82395913915952267264\<rparr>]"

text \<open>A lot of 1 m by 60 m, and a second square lot 100 m to the east of the first.\<close>

definition thinLot :: "Vec2 list" where
  "thinLot = [mkVec2 0 0, mkVec2 1 0, mkVec2 1 60, mkVec2 0 60]"

definition thinRequest :: ZonePaintRequest where
  "thinRequest =
     \<lparr>polygon = thinLot, req_zoneType = residential, req_zoneDensity = low,
      subdivisionMethod = None\<rparr>"

definition farSquare :: "Vec2 list" where
  "farSquare = [mkVec2 100 0, mkVec2 110 0, mkVec2 110 10, mkVec2 100 10]"

definition farRequest :: ZonePaintRequest where
  "farRequest =
     \<lparr>polygon = farSquare, req_zoneType = residential, req_zoneDensity = low,
      subdivisionMethod = None\<rparr>"


section \<open>Properties\<close>

subsection \<open>Helper lemmas: offset, split and concrete generator values\<close>

lemma length_offsetPolygon: "length (offsetPolygon vs d) = length vs"
  by (simp add: offsetPolygon_def Let_def)

lemma splitVertical_sum:
  "splitVertical g h st = (s, g') \<Longrightarrow> split_base s + split_body s + split_roof s = h"
  by (auto simp: splitVertical_def Let_def split: prod.splits)

lemma generateBuildingForParcel_emits:
  "zoneType p \<noteq> none \<Longrightarrow> 3 \<le> length (vertices p) \<Longrightarrow>
   \<exists>b bm'. generateBuildingForParcel bm p era lvl = (Some b, bm') \<and>
           length (footprint b) = length (vertices p)"
  by (auto simp: generateBuildingForParcel_def Let_def length_offsetPolygon split: prod.splits)

lemma bulkMassing_emits:
  "zoneType p \<noteq> none \<Longrightarrow> 3 \<le> length (vertices p) \<Longrightarrow>
   \<exists>b bm'. bulkMassing bm p era = (Some b, bm') \<and> length (footprint b) = length (vertices p)"
  by (auto simp: bulkMassing_def Let_def length_offsetPolygon split: prod.splits)

lemma bulkMassing_sum:
  "bulkMassing bm p era = (Some b, bm') \<Longrightarrow>
   baseHeight b + bodyHeight b + roofHeight b = height b"
  by (auto simp: bulkMassing_def Let_def split: prod.splits if_splits
           dest: splitVertical_sum)

lemma generateBuildings_loop_sum:
  "\<forall>m \<in> set acc. baseHeight m + bodyHeight m + roofHeight m = height m \<Longrightarrow>
   \<forall>m \<in> set (fst (generateBuildings_loop bm ps era acc)).
      baseHeight m + bodyHeight m + roofHeight m = height m"
proof (induction ps arbitrary: bm acc)
  case Nil
  then show ?case by simp
next
  case (Cons p ps)
  obtain r bm' where step: "bulkMassing bm p era = (r, bm')"
    by (cases "bulkMassing bm p era")
  show ?case
  proof (cases r)
    case None
    with step Cons show ?thesis by simp
  next
    case (Some m)
    with step have "baseHeight m + bodyHeight m + roofHeight m = height m"
      by (simp add: bulkMassing_sum)
    with Cons.prems have "\<forall>k \<in> set (acc @ [m]).
        baseHeight k + bodyHeight k + roofHeight k = height k"
      by simp
    from Cons.IH [OF this] step Some show ?thesis by simp
  qed
qed

lemma rng_1000_a: "rng_next 1000 = (3415336119 / 4294967296, 1831566813)"
  by (simp add: rng_next_def Let_def)

lemma rng_1000_b: "rng_next 1831566813 = (444361565 / 536870912, 3663132626)"
  by (simp add: rng_next_def Let_def)

lemma rng_1000_c: "rng_next 3663132626 = (2970039059 / 4294967296, 5494698439)"
  by (simp add: rng_next_def Let_def)

lemma rng_1000_d: "rng_next 5494698439 = (3782041747 / 4294967296, 7326264252)"
  by (simp add: rng_next_def Let_def)

lemma rng_1_a: "rng_next 1 = (2693262067 / 4294967296, 1831565814)"
  by (simp add: rng_next_def Let_def)

lemma rng_1_b: "rng_next 1831565814 = (11749833 / 4294967296, 3663131627)"
  by (simp add: rng_next_def Let_def)

lemma squareLot_style: "getStyleForEra E1950s 1000 = (brutalist, 1831566813)"
  by (simp add: getStyleForEra_def rng_1000_a)

lemma squareLot_roof: "getRoofForEra E1950s high 1831566813 = (flat, 3663132626)"
  by (simp add: getRoofForEra_def rng_1000_b)

lemma squareLot_setback:
  "getSetback high 3663132626 = (7265006355 / 4294967296, 5494698439)"
  by (simp add: getSetback_def rng_1000_c)

lemma squareLot_split:
  "splitVertical 1 (118077582351 / 2147483648) brutalist =
     (\<lparr>split_base = 4379335817780689758513 / 922337203685477580800,
       split_body = 44813181577283614152399 / 922337203685477580800,
       split_roof = 354232747053 / 214748364800\<rparr>, 3663131627)"
  by (simp add: splitVertical_def rng_1_a rng_1_b)

lemma squareLot_massing:
  "fst (generateBuildingForParcel freshManager squareLot E1950s 1) =
     Some \<lparr>massing_id = 0, parcelId = 0,
           footprint = offsetPolygon [mkVec2 0 0, mkVec2 20 0, mkVec2 20 20, mkVec2 0 20]
                         (- (7265006355 / 4294967296)),
           height = 118077582351 / 2147483648,
           baseHeight = 4379335817780689758513 / 922337203685477580800,
           bodyHeight = 44813181577283614152399 / 922337203685477580800,
           roofHeight = 354232747053 / 214748364800,
           style = brutalist, roofType = flat, floorCount = 18,
           setback = 7265006355 / 4294967296, seed = 0,
           massing_zoneType = residential, massing_zoneDensity = high, level = 1\<rparr>"
  by (simp add: generateBuildingForParcel_def squareLot_def freshManager_def mulberry32_def
        squareLot_style squareLot_roof squareLot_setback length_offsetPolygon rng_1000_d
        squareLot_split FLOOR_HEIGHT_def round_def Let_def)

subsection \<open>C8: the stored floor count\<close>




subsection \<open>C9: the component heights add up\<close>

text \<open>
  C9: for every massing emitted, by \<open>generateBuildingForParcel\<close> or by the bulk
  \<open>generateBuildings\<close>, base height + body height + roof height equals the total height
  (over the reals, for every style and every input height).
\<close>

theorem massing_heights_sum:
  "(generateBuildingForParcel bm p era lvl = (Some b, bm') \<longrightarrow>
      baseHeight b + bodyHeight b + roofHeight b = height b) \<and>
   (\<forall>m \<in> set (fst (generateBuildings bm ps era)).
      baseHeight m + bodyHeight m + roofHeight m = height m)"
proof
  show "generateBuildingForParcel bm p era lvl = (Some b, bm') \<longrightarrow>
      baseHeight b + bodyHeight b + roofHeight b = height b"
    by (auto simp: generateBuildingForParcel_def Let_def split: prod.splits if_splits
             dest: splitVertical_sum)
  show "\<forall>m \<in> set (fst (generateBuildings bm ps era)).
      baseHeight m + bodyHeight m + roofHeight m = height m"
    unfolding generateBuildings_def by (rule generateBuildings_loop_sum) simp
qed

theorem massing_heights_sum_witness:
  "fst (generateBuildingForParcel freshManager squareLot E1950s 1) \<noteq> None \<and>
   baseHeight (the (fst (generateBuildingForParcel freshManager squareLot E1950s 1))) +
   bodyHeight (the (fst (generateBuildingForParcel freshManager squareLot E1950s 1))) +
   roofHeight (the (fst (generateBuildingForParcel freshManager squareLot E1950s 1))) =
   height (the (fst (generateBuildingForParcel freshManager squareLot E1950s 1))) \<and>
   fst (generateBuildings freshManager [squareLot] E1950s) \<noteq> [] \<and>
   baseHeight (hd (fst (generateBuildings freshManager [squareLot] E1950s))) +
   bodyHeight (hd (fst (generateBuildings freshManager [squareLot] E1950s))) +
   roofHeight (hd (fst (generateBuildings freshManager [squareLot] E1950s))) =
   height (hd (fst (generateBuildings freshManager [squareLot] E1950s)))"
proof -
  have h: "generateBuildingForParcel freshManager squareLot E1950s 1 =
     (Some (the (fst (generateBuildingForParcel freshManager squareLot E1950s 1))),
      snd (generateBuildingForParcel freshManager squareLot E1950s 1))"
    by (simp add: prod_eq_iff squareLot_massing)
  obtain m bm' where bulk: "bulkMassing freshManager squareLot E1950s = (Some m, bm')"
    using bulkMassing_emits [of squareLot freshManager E1950s]
    by (auto simp: squareLot_def)
  then have ne: "fst (generateBuildings freshManager [squareLot] E1950s) = [m]"
    by (simp add: generateBuildings_def)
  from massing_heights_sum
         [of freshManager squareLot E1950s 1
             "the (fst (generateBuildingForParcel freshManager squareLot E1950s 1))"
             "snd (generateBuildingForParcel freshManager squareLot E1950s 1)" "[squareLot]"]
       h ne
  show ?thesis by (simp add: squareLot_massing)
qed

subsection \<open>C10: the inward offset keeps the vertex count\<close>

text \<open>
  C10: \<open>offsetPolygon\<close> returns exactly as many vertices as it is given (each vertex
  is displaced or copied in place; consecutive vertices need not even be distinct), so a
  zoned parcel with at least 3 vertices always yields a massing whose footprint has the
  parcel's vertex count: the abort branch \<open>footprint.length < 3\<close> is never taken, in
  \<open>generateBuildingForParcel\<close> and in the bulk loop alike.
\<close>

theorem offsetPolygon_keeps_vertex_count:
  "length (offsetPolygon vs d) = length vs \<and>
   (3 \<le> length (vertices p) \<and> zoneType p \<noteq> none \<longrightarrow>
      (\<exists>b bm'. generateBuildingForParcel bm p era lvl = (Some b, bm') \<and>
               length (footprint b) = length (vertices p) \<and> 3 \<le> length (footprint b)) \<and>
      (\<exists>b bm'. bulkMassing bm p era = (Some b, bm') \<and>
               length (footprint b) = length (vertices p) \<and> 3 \<le> length (footprint b)))"
proof (intro conjI impI)
  show "length (offsetPolygon vs d) = length vs"
    by (rule length_offsetPolygon)
next
  assume a: "3 \<le> length (vertices p) \<and> zoneType p \<noteq> none"
  with generateBuildingForParcel_emits [of p bm era lvl]
  show "\<exists>b bm'. generateBuildingForParcel bm p era lvl = (Some b, bm') \<and>
               length (footprint b) = length (vertices p) \<and> 3 \<le> length (footprint b)"
    by auto
next
  assume a: "3 \<le> length (vertices p) \<and> zoneType p \<noteq> none"
  with bulkMassing_emits [of p bm era]
  show "\<exists>b bm'. bulkMassing bm p era = (Some b, bm') \<and>
               length (footprint b) = length (vertices p) \<and> 3 \<le> length (footprint b)"
    by auto
qed

theorem offsetPolygon_keeps_vertex_count_witness:
  "3 \<le> length (vertices squareLot) \<and> zoneType squareLot \<noteq> none \<and>
   length (offsetPolygon (vertices squareLot) (- 2)) = 4 \<and>
   fst (generateBuildingForParcel freshManager squareLot E1950s 1) \<noteq> None \<and>
   fst (bulkMassing freshManager squareLot E1950s) \<noteq> None"
proof -
  have h: "3 \<le> length (vertices squareLot) \<and> zoneType squareLot \<noteq> none"
    by (simp add: squareLot_def)
  from offsetPolygon_keeps_vertex_count
         [of "vertices squareLot" "- 2" squareLot freshManager E1950s 1] h
  show ?thesis by (auto simp: squareLot_def)
qed

subsection \<open>Helper lemmas: distances, the spatial index and the two-node example\<close>

lemma distance_less_iff:
  "0 \<le> c \<Longrightarrow> distance a b < c \<longleftrightarrow> (vx b - vx a)\<^sup>2 + (vy b - vy a)\<^sup>2 < c\<^sup>2"
proof -
  assume c: "0 \<le> c"
  have "sqrt ((vx b - vx a)\<^sup>2 + (vy b - vy a)\<^sup>2) < c \<longleftrightarrow>
        sqrt ((vx b - vx a)\<^sup>2 + (vy b - vy a)\<^sup>2) < sqrt (c\<^sup>2)"
    using c by simp
  also have "\<dots> \<longleftrightarrow> (vx b - vx a)\<^sup>2 + (vy b - vy a)\<^sup>2 < c\<^sup>2"
    by (rule real_sqrt_less_iff)
  finally show ?thesis by (simp add: distance_def Let_def power2_eq_square)
qed

lemma distance_lt_iff:
  "distance a b < distance c d \<longleftrightarrow>
     (vx b - vx a)\<^sup>2 + (vy b - vy a)\<^sup>2 < (vx d - vx c)\<^sup>2 + (vy d - vy c)\<^sup>2"
  by (simp add: distance_def Let_def power2_eq_square)

lemma abs_dx_le_distance: "\<bar>vx b - vx a\<bar> \<le> distance a b"
proof -
  have "\<bar>vx b - vx a\<bar> = sqrt ((vx b - vx a)\<^sup>2)" by simp
  also have "\<dots> \<le> sqrt ((vx b - vx a)\<^sup>2 + (vy b - vy a)\<^sup>2)"
    by (rule real_sqrt_le_mono) simp
  finally show ?thesis by (simp add: distance_def Let_def power2_eq_square)
qed

lemma abs_dy_le_distance: "\<bar>vy b - vy a\<bar> \<le> distance a b"
proof -
  have "\<bar>vy b - vy a\<bar> = sqrt ((vy b - vy a)\<^sup>2)" by simp
  also have "\<dots> \<le> sqrt ((vx b - vx a)\<^sup>2 + (vy b - vy a)\<^sup>2)"
    by (rule real_sqrt_le_mono) simp
  finally show ?thesis by (simp add: distance_def Let_def power2_eq_square)
qed

lemma findSnap_None:
  "findSnap net p ids = None \<longleftrightarrow>
   (\<forall>j \<in> set ids. \<forall>m. nodes net j = Some m \<longrightarrow> \<not> distance (pos m) p < SNAP_THRESHOLD)"
  by (induction ids) (auto split: option.splits)

lemma floor_diff_bound:
  fixes a b :: real and k :: int
  assumes "\<bar>a - b\<bar> < of_int k"
  shows "- k \<le> \<lfloor>a\<rfloor> - \<lfloor>b\<rfloor> \<and> \<lfloor>a\<rfloor> - \<lfloor>b\<rfloor> \<le> k"
proof -
  have "a < b + of_int k" "b < a + of_int k" using assms by linarith+
  then have "\<lfloor>a\<rfloor> \<le> \<lfloor>b\<rfloor> + k" "\<lfloor>b\<rfloor> \<le> \<lfloor>a\<rfloor> + k"
    by linarith+
  then show ?thesis by linarith
qed

lemma findSnap_Some:
  "findSnap net p ids = Some i \<Longrightarrow>
   \<exists>pre post n. ids = pre @ i # post \<and> nodes net i = Some n \<and>
       distance (pos n) p < SNAP_THRESHOLD \<and>
       (\<forall>j \<in> set pre. \<forall>m. nodes net j = Some m \<longrightarrow> \<not> distance (pos m) p < SNAP_THRESHOLD)"
proof (induction ids)
  case Nil
  then show ?case by simp
next
  case (Cons j ids)
  show ?case
  proof (cases "\<exists>m. nodes net j = Some m \<and> distance (pos m) p < SNAP_THRESHOLD")
    case True
    then obtain m where m: "nodes net j = Some m" "distance (pos m) p < SNAP_THRESHOLD" by blast
    with Cons.prems have "i = j" by simp
    with m have "j # ids = [] @ i # ids \<and> nodes net i = Some m \<and>
       distance (pos m) p < SNAP_THRESHOLD \<and>
       (\<forall>j \<in> set []. \<forall>m. nodes net j = Some m \<longrightarrow> \<not> distance (pos m) p < SNAP_THRESHOLD)"
      by simp
    then show ?thesis by blast
  next
    case False
    with Cons.prems have "findSnap net p ids = Some i"
      by (cases "nodes net j") (simp_all split: if_splits)
    from Cons.IH [OF this] obtain pre post n where
      h: "ids = pre @ i # post" "nodes net i = Some n" "distance (pos n) p < SNAP_THRESHOLD"
         "\<forall>j \<in> set pre. \<forall>m. nodes net j = Some m \<longrightarrow> \<not> distance (pos m) p < SNAP_THRESHOLD"
      by blast
    with False have "j # ids = (j # pre) @ i # post \<and> nodes net i = Some n \<and>
       distance (pos n) p < SNAP_THRESHOLD \<and>
       (\<forall>j \<in> set (j # pre). \<forall>m. nodes net j = Some m \<longrightarrow> \<not> distance (pos m) p < SNAP_THRESHOLD)"
      by simp
    then show ?thesis by blast
  qed
qed

lemma scaled_abs_bound_aux:
  fixes c K :: real
  assumes cs: "c > 0" and r: "\<bar>n - x\<bar> < radius" and rk: "radius / c \<le> K"
  shows "\<bar>n / c - x / c\<bar> < K"
proof -
  have "n / c - x / c = (n - x) / c" by (rule diff_divide_distrib [symmetric])
  then have "\<bar>n / c - x / c\<bar> = \<bar>n - x\<bar> / c" using cs by (simp only: abs_divide abs_of_pos)
  also have "\<dots> < radius / c" using r cs by (rule divide_strict_right_mono)
  finally show ?thesis using rk by (rule less_le_trans)
qed

lemma scaled_abs_bound:
  fixes c :: real
  assumes cs: "c > 0" and r: "\<bar>n - x\<bar> < radius"
  shows "\<bar>n / c - x / c\<bar> < of_int \<lceil>radius / c\<rceil>"
  by (rule scaled_abs_bound_aux [OF cs r le_of_int_ceiling])

lemma concat_map_member:
  "d \<in> set ds \<Longrightarrow> i \<in> set (f d) \<Longrightarrow> i \<in> set (concat (map f ds))"
  by (induction ds) auto

lemma getNearby_unfold:
  "getNearby sg x y radius =
      concat (map (\<lambda>dx. concat (map (\<lambda>dy. cellNodes sg (\<lfloor>x / cellSize sg\<rfloor> + dx, \<lfloor>y / cellSize sg\<rfloor> + dy))
         [- \<lceil>radius / cellSize sg\<rceil>..\<lceil>radius / cellSize sg\<rceil>])) [- \<lceil>radius / cellSize sg\<rceil>..\<lceil>radius / cellSize sg\<rceil>])"
  unfolding getNearby_def Let_def ..

lemma getNearby_member:
  assumes cs: "cellSize sg > 0"
    and r: "\<bar>nx - x\<bar> < radius" "\<bar>ny - y\<bar> < radius"
    and i: "i \<in> set (cellNodes sg (getKey sg nx ny))"
  shows "i \<in> set (getNearby sg x y radius)"
proof -
  define c where "c = cellSize sg"
  define k where "k = \<lceil>radius / c\<rceil>"
  define cx where "cx = \<lfloor>x / c\<rfloor>"
  define cy where "cy = \<lfloor>y / c\<rfloor>"
  define dx where "dx = \<lfloor>nx / c\<rfloor> - cx"
  define dy where "dy = \<lfloor>ny / c\<rfloor> - cy"
  have cpos: "c > 0" using cs by (simp only: c_def)
  have "- k \<le> dx \<and> dx \<le> k"
    unfolding dx_def cx_def k_def by (rule floor_diff_bound [OF scaled_abs_bound [OF cpos r(1)]])
  then have dx: "dx \<in> set [- k..k]" by (simp only: set_upto atLeastAtMost_iff)
  have "- k \<le> dy \<and> dy \<le> k"
    unfolding dy_def cy_def k_def by (rule floor_diff_bound [OF scaled_abs_bound [OF cpos r(2)]])
  then have dy: "dy \<in> set [- k..k]" by (simp only: set_upto atLeastAtMost_iff)
  have "cx + dx = \<lfloor>nx / c\<rfloor>" "cy + dy = \<lfloor>ny / c\<rfloor>" by (simp_all only: dx_def dy_def add_diff_cancel_left' add.commute diff_add_cancel)
  then have key: "getKey sg nx ny = (cx + dx, cy + dy)"
    by (simp only: getKey_def c_def)
  from i have "i \<in> set (cellNodes sg (cx + dx, cy + dy))" by (simp only: key)
  with dy have "i \<in> set (concat (map (\<lambda>dy. cellNodes sg (cx + dx, cy + dy)) [- k..k]))"
    by (rule concat_map_member)
  with dx have "i \<in> set (concat (map (\<lambda>dx. concat (map (\<lambda>dy. cellNodes sg (cx + dx, cy + dy)) [- k..k])) [- k..k]))"
    by (rule concat_map_member)
  then show ?thesis
    by (simp only: getNearby_unfold c_def k_def cx_def cy_def)
qed

lemma near_node_in_getNearby:
  assumes w: "indexed net" and n: "nodes net i = Some n"
    and d: "distance (pos n) (mkVec2 x y) < SNAP_THRESHOLD"
  shows "i \<in> set (getNearby (spatialIndex net) x y SNAP_THRESHOLD)"
proof -
  have "\<bar>vx (mkVec2 x y) - vx (pos n)\<bar> < SNAP_THRESHOLD"
    using abs_dx_le_distance [of "mkVec2 x y" "pos n"] d by linarith
  then have dx: "\<bar>vx (pos n) - x\<bar> < SNAP_THRESHOLD" by (simp add: mkVec2_def abs_minus_commute)
  have "\<bar>vy (mkVec2 x y) - vy (pos n)\<bar> < SNAP_THRESHOLD"
    using abs_dy_le_distance [of "mkVec2 x y" "pos n"] d by linarith
  then have dy: "\<bar>vy (pos n) - y\<bar> < SNAP_THRESHOLD" by (simp add: mkVec2_def abs_minus_commute)
  from w n have cs: "cellSize (spatialIndex net) > 0"
    and i: "i \<in> set (cellNodes (spatialIndex net)
                   (getKey (spatialIndex net) (vx (pos n)) (vy (pos n))))"
    by (auto simp: indexed_def)
  show ?thesis by (rule getNearby_member [OF cs dx dy i])
qed

lemma indexed_new: "indexed (newRoadNetwork w h)"
  by (simp add: indexed_def newRoadNetwork_def newSpatialGrid_def)

lemma cellNodes_grid_insert:
  "set (cellNodes (grid_insert sg i x y) key) =
     (if key = getKey sg x y then insert i (set (cellNodes sg key)) else set (cellNodes sg key))"
  by (auto simp: cellNodes_def grid_insert_def getKey_def split: option.splits)

lemma getKey_grid_insert: "getKey (grid_insert sg i x y) = getKey sg"
  by (simp add: getKey_def grid_insert_def fun_eq_iff)

lemma indexed_addNode:
  assumes w: "indexed net"
  shows "indexed (snd (addNode net x y))"
proof (cases "findSnap net (mkVec2 x y) (getNearby (spatialIndex net) x y SNAP_THRESHOLD)")
  case (Some a)
  with w show ?thesis by (simp add: addNode_def)
next
  case None
  have cs: "0 < cellSize (spatialIndex (snd (addNode net x y)))"
    using w None by (simp add: addNode_def Let_def indexed_def grid_insert_def)
  have "i < nextNodeId (snd (addNode net x y)) \<and>
          i \<in> set (cellNodes (spatialIndex (snd (addNode net x y)))
               (getKey (spatialIndex (snd (addNode net x y))) (vx (pos n)) (vy (pos n))))"
    if n: "nodes (snd (addNode net x y)) i = Some n" for i n
  proof (cases "i = nextNodeId net")
    case True
    with n None have "pos n = mkVec2 x y" by (auto simp: addNode_def Let_def)
    with True None show ?thesis
      by (simp add: addNode_def Let_def cellNodes_grid_insert getKey_grid_insert mkVec2_def)
  next
    case False
    with n None have old: "nodes net i = Some n" by (simp add: addNode_def Let_def)
    with w have "i < nextNodeId net"
      and "i \<in> set (cellNodes (spatialIndex net)
                 (getKey (spatialIndex net) (vx (pos n)) (vy (pos n))))"
      by (auto simp: indexed_def)
    with None show ?thesis
      by (auto simp: addNode_def Let_def cellNodes_grid_insert getKey_grid_insert)
  qed
  with cs show ?thesis unfolding indexed_def by blast
qed

lemma origin_cell_in_getNearby:
  assumes "0 \<le> radius" "cellSize sg > 0" "i \<in> set (cellNodes sg (getKey sg x y))"
  shows "i \<in> set (getNearby sg x y radius)"
proof -
  have "0 \<le> radius / cellSize sg" using assms by simp
  then have k: "0 \<le> \<lceil>radius / cellSize sg\<rceil>" by linarith
  then have z: "(0::int) \<in> set [- \<lceil>radius / cellSize sg\<rceil>..\<lceil>radius / cellSize sg\<rceil>]"
    by simp
  from assms(3) have "i \<in> set (cellNodes sg (\<lfloor>x / cellSize sg\<rfloor> + 0, \<lfloor>y / cellSize sg\<rfloor> + 0))"
    by (simp add: getKey_def)
  with z have "i \<in> set (concat (map (\<lambda>dy. cellNodes sg (\<lfloor>x / cellSize sg\<rfloor> + 0, \<lfloor>y / cellSize sg\<rfloor> + dy))
         [- \<lceil>radius / cellSize sg\<rceil>..\<lceil>radius / cellSize sg\<rceil>]))"
    by (rule concat_map_member)
  with z show ?thesis
    unfolding getNearby_unfold by (rule concat_map_member)
qed

lemma getNearby_empty: "getNearby (newSpatialGrid w h) x y r = []"
  by (simp add: getNearby_def newSpatialGrid_def cellNodes_def Let_def)

lemma oneNode_eq:
  "oneNode =
     \<lparr>nodes = [0 \<mapsto> \<lparr>node_id = 0, pos = mkVec2 0 0, node_edges = [], isIntersection = False\<rparr>],
      edges = Map.empty,
      spatialIndex = \<lparr>cellSize = 50, grid = [(0, 0) \<mapsto> [0]], grid_width = 2000, grid_height = 2000\<rparr>,
      nextNodeId = 1, nextEdgeId = 0\<rparr>"
  by (simp add: oneNode_def addNode_def newRoadNetwork_def getNearby_empty Let_def)
     (simp add: newSpatialGrid_def grid_insert_def getKey_def cellNodes_def)

lemma nearby_one: "getNearby \<lparr>cellSize = 50, grid = [(0, 0) \<mapsto> [0]], grid_width = 2000, grid_height = 2000\<rparr> 20 0 15 = [0]"
  by (simp add: getNearby_def cellNodes_def Let_def upto.simps)

lemma twoNodes_eq:
  "twoNodes =
     \<lparr>nodes = [0 \<mapsto> \<lparr>node_id = 0, pos = mkVec2 0 0, node_edges = [], isIntersection = False\<rparr>,
               1 \<mapsto> \<lparr>node_id = 1, pos = mkVec2 20 0, node_edges = [], isIntersection = False\<rparr>],
      edges = Map.empty,
      spatialIndex = \<lparr>cellSize = 50, grid = [(0, 0) \<mapsto> [0, 1]], grid_width = 2000, grid_height = 2000\<rparr>,
      nextNodeId = 2, nextEdgeId = 0\<rparr>"
  unfolding twoNodes_def oneNode_eq
  by (simp add: addNode_def SNAP_THRESHOLD_def nearby_one Let_def distance_less_iff mkVec2_def)
     (simp add: grid_insert_def getKey_def cellNodes_def)

lemma nearby_two: "getNearby \<lparr>cellSize = 50, grid = [(0, 0) \<mapsto> [0, 1]], grid_width = 2000, grid_height = 2000\<rparr> 12 0 15 = [0, 1]"
  by (simp add: getNearby_def cellNodes_def Let_def upto.simps)

lemma indexed_twoNodes: "indexed twoNodes"
  unfolding twoNodes_def oneNode_def by (intro indexed_addNode indexed_new)


subsection \<open>C3: snapping in \<open>addNode\<close>\<close>

text \<open>
  C3 (as stated): \<open>addNode\<close> returns the nearest existing node within SNAP_THRESHOLD.
  This fails: with nodes 0 at (0, 0) and 1 at (20, 0), both created by \<open>addNode\<close>,
  \<open>addNode (12, 0)\<close> returns node 0 (12 m away), although node 1 is only 8 m away.
\<close>

theorem addNode_nearest_counterexample:
  "fst (addNode twoNodes 12 0) = 0 \<and>
   nodes twoNodes 0 = Some \<lparr>node_id = 0, pos = mkVec2 0 0, node_edges = [], isIntersection = False\<rparr> \<and>
   nodes twoNodes 1 = Some \<lparr>node_id = 1, pos = mkVec2 20 0, node_edges = [], isIntersection = False\<rparr> \<and>
   distance (mkVec2 20 0) (mkVec2 12 0) < SNAP_THRESHOLD \<and>
   distance (mkVec2 20 0) (mkVec2 12 0) < distance (mkVec2 0 0) (mkVec2 12 0)"
  unfolding twoNodes_eq
  by (simp add: addNode_def SNAP_THRESHOLD_def nearby_two distance_less_iff distance_lt_iff mkVec2_def)

text \<open>
  C3 (amended): in every graph state whose nodes are all filed in the spatial index
  (an invariant of the empty network that \<open>addNode\<close> keeps), \<open>addNode p\<close> returns the
  id of an existing node strictly within SNAP_THRESHOLD (15 m) of \<open>p\<close> whenever at least
  one such node exists: the first such node in the scan order of the index (the cells
  around \<open>p\<close>, insertion order inside a cell), not necessarily the nearest one, and the
  graph is unchanged. Otherwise it allocates and returns the fresh id \<open>nextNodeId\<close>, with
  empty incidence and no intersection flag, and files it in the spatial index.
\<close>

theorem addNode_snaps_first_or_allocates:
  assumes w: "indexed net"
  shows "((\<exists>i n. nodes net i = Some n \<and> distance (pos n) (mkVec2 x y) < SNAP_THRESHOLD) \<longrightarrow>
            snd (addNode net x y) = net \<and>
            (\<exists>n. nodes net (fst (addNode net x y)) = Some n \<and>
                 distance (pos n) (mkVec2 x y) < SNAP_THRESHOLD) \<and>
            (\<exists>pre post. getNearby (spatialIndex net) x y SNAP_THRESHOLD =
                            pre @ fst (addNode net x y) # post \<and>
               (\<forall>j \<in> set pre. \<forall>m. nodes net j = Some m \<longrightarrow>
                    \<not> distance (pos m) (mkVec2 x y) < SNAP_THRESHOLD))) \<and>
         (\<not> (\<exists>i n. nodes net i = Some n \<and> distance (pos n) (mkVec2 x y) < SNAP_THRESHOLD) \<longrightarrow>
            fst (addNode net x y) = nextNodeId net \<and>
            nodes net (nextNodeId net) = None \<and>
            nodes (snd (addNode net x y)) (nextNodeId net) =
              Some \<lparr>node_id = nextNodeId net, pos = mkVec2 x y, node_edges = [],
                    isIntersection = False\<rparr> \<and>
            nextNodeId net \<in> set (getNearby (spatialIndex (snd (addNode net x y))) x y
                                     SNAP_THRESHOLD)) \<and>
         indexed (snd (addNode net x y))"
proof (intro conjI impI)
  assume ex: "\<exists>i n. nodes net i = Some n \<and> distance (pos n) (mkVec2 x y) < SNAP_THRESHOLD"
  then obtain i n where n: "nodes net i = Some n" "distance (pos n) (mkVec2 x y) < SNAP_THRESHOLD"
    by blast
  with w have "i \<in> set (getNearby (spatialIndex net) x y SNAP_THRESHOLD)"
    by (rule near_node_in_getNearby)
  with n have "findSnap net (mkVec2 x y) (getNearby (spatialIndex net) x y SNAP_THRESHOLD) \<noteq> None"
    by (auto simp: findSnap_None)
  then obtain k where k: "findSnap net (mkVec2 x y)
       (getNearby (spatialIndex net) x y SNAP_THRESHOLD) = Some k"
    by blast
  then have r: "addNode net x y = (k, net)" by (simp add: addNode_def)
  from r show "snd (addNode net x y) = net" by simp
  from findSnap_Some [OF k] r
  show "\<exists>n. nodes net (fst (addNode net x y)) = Some n \<and>
            distance (pos n) (mkVec2 x y) < SNAP_THRESHOLD"
    by auto
  from findSnap_Some [OF k] r
  show "\<exists>pre post. getNearby (spatialIndex net) x y SNAP_THRESHOLD =
                            pre @ fst (addNode net x y) # post \<and>
               (\<forall>j \<in> set pre. \<forall>m. nodes net j = Some m \<longrightarrow>
                    \<not> distance (pos m) (mkVec2 x y) < SNAP_THRESHOLD)"
    by (simp only: fst_conv) blast
next
  assume nex: "\<not> (\<exists>i n. nodes net i = Some n \<and> distance (pos n) (mkVec2 x y) < SNAP_THRESHOLD)"
  then have none: "findSnap net (mkVec2 x y)
       (getNearby (spatialIndex net) x y SNAP_THRESHOLD) = None"
    by (simp add: findSnap_None)
  from none show "fst (addNode net x y) = nextNodeId net"
    by (simp add: addNode_def Let_def)
  from w show fresh: "nodes net (nextNodeId net) = None"
    by (cases "nodes net (nextNodeId net)") (auto simp: indexed_def)
  from none show "nodes (snd (addNode net x y)) (nextNodeId net) =
              Some \<lparr>node_id = nextNodeId net, pos = mkVec2 x y, node_edges = [],
                    isIntersection = False\<rparr>"
    by (simp add: addNode_def Let_def)
  have cs: "cellSize (grid_insert (spatialIndex net) (nextNodeId net) x y) > 0"
    using w by (simp add: indexed_def grid_insert_def)
  have "nextNodeId net \<in> set (getNearby (grid_insert (spatialIndex net) (nextNodeId net) x y) x y
                                     SNAP_THRESHOLD)"
    by (rule origin_cell_in_getNearby [OF _ cs])
       (simp_all add: SNAP_THRESHOLD_def cellNodes_grid_insert getKey_grid_insert)
  with none show "nextNodeId net \<in> set (getNearby (spatialIndex (snd (addNode net x y))) x y
                                     SNAP_THRESHOLD)"
    by (simp add: addNode_def Let_def)
next
  from w show "indexed (snd (addNode net x y))" by (rule indexed_addNode)
qed

theorem addNode_snaps_first_or_allocates_witness:
  "indexed twoNodes \<and>
   fst (addNode twoNodes 12 0) = 0 \<and> snd (addNode twoNodes 12 0) = twoNodes \<and>
   fst (addNode twoNodes 100 100) = 2 \<and>
   nodes (snd (addNode twoNodes 100 100)) 2 =
     Some \<lparr>node_id = 2, pos = mkVec2 100 100, node_edges = [], isIntersection = False\<rparr> \<and>
   indexed (snd (addNode twoNodes 100 100))"
proof -
  have near: "\<exists>i n. nodes twoNodes i = Some n \<and> distance (pos n) (mkVec2 12 0) < SNAP_THRESHOLD"
    by (rule exI [of _ 0], simp add: twoNodes_eq distance_less_iff SNAP_THRESHOLD_def mkVec2_def)
  have far: "\<not> (\<exists>i n. nodes twoNodes i = Some n \<and>
                      distance (pos n) (mkVec2 100 100) < SNAP_THRESHOLD)"
    by (auto simp: twoNodes_eq distance_less_iff SNAP_THRESHOLD_def mkVec2_def split: if_splits)
  have nid: "nextNodeId twoNodes = 2" by (simp add: twoNodes_eq)
  have first: "fst (addNode twoNodes 12 0) = 0"
    unfolding twoNodes_eq
    by (simp add: addNode_def SNAP_THRESHOLD_def nearby_two distance_less_iff mkVec2_def)
  from addNode_snaps_first_or_allocates [OF indexed_twoNodes, of 12 0]
       addNode_snaps_first_or_allocates [OF indexed_twoNodes, of 100 100]
       near far nid first indexed_twoNodes
  show ?thesis by simp
qed

subsection \<open>Helper lemmas: edges of the road graph\<close>












subsection \<open>C4: endpoints of road edges\<close>






subsection \<open>Helper lemmas: the welder and its examples\<close>

lemma distance_greater_iff:
  "0 \<le> c \<Longrightarrow> c < distance a b \<longleftrightarrow> c\<^sup>2 < (vx b - vx a)\<^sup>2 + (vy b - vy a)\<^sup>2"
proof -
  assume c: "0 \<le> c"
  have "c < sqrt ((vx b - vx a)\<^sup>2 + (vy b - vy a)\<^sup>2) \<longleftrightarrow>
        sqrt (c\<^sup>2) < sqrt ((vx b - vx a)\<^sup>2 + (vy b - vy a)\<^sup>2)"
    using c by simp
  also have "\<dots> \<longleftrightarrow> c\<^sup>2 < (vx b - vx a)\<^sup>2 + (vy b - vy a)\<^sup>2"
    by (rule real_sqrt_less_iff)
  finally show ?thesis by (simp add: distance_def Let_def power2_eq_square)
qed

lemma findIntersections_loop_iff:
  "ip \<in> set (findIntersections_loop S segs) \<longleftrightarrow>
   (\<exists>i E. (i, E) \<in> set segs \<and> ip_segmentId ip = i \<and>
      ih_lineIntersection (seg_start S) (seg_end S) (seg_start E) (seg_end E) = Some (ip_point ip) \<and>
      isMiddleIntersection (ip_point ip) S E)"
proof (induction segs)
  case Nil
  show ?case by simp
next
  case (Cons a segs)
  obtain i E where a: "a = (i, E)" by (cases a)
  show ?case
  proof (cases "ih_lineIntersection (seg_start S) (seg_end S) (seg_start E) (seg_end E)")
    case None
    with Cons a show ?thesis by auto
  next
    case (Some X)
    show ?thesis
    proof (cases "isMiddleIntersection X S E")
      case True
      with Cons a Some show ?thesis by (cases ip) auto
    next
      case False
      with Cons a Some show ?thesis by auto
    qed
  qed
qed

lemma splitLoop_shape:
  "splitLoop h S ips cur k acc = (segs, h') \<Longrightarrow>
   map seg_start segs = map seg_start acc @ cur # map ip_point ips \<and>
   map seg_end segs = map seg_end acc @ map ip_point ips @ [seg_end S]"
proof (induction ips arbitrary: h cur k acc)
  case Nil
  then show ?case by auto
next
  case (Cons ip ips)
  from Cons.prems have "splitLoop (splitExistingSegment h (ip_segmentId ip) (ip_point ip)) S ips
       (ip_point ip) (k + 1)
       (acc @ [\<lparr>seg_id = seg_id S + real k * 0.001,
                 seg_start = cur, seg_end = ip_point ip,
                 seg_width = seg_width S, seg_class = seg_class S\<rparr>]) = (segs, h')"
    by simp
  from Cons.IH [OF this] show ?case by simp
qed




lemma ih_lineIntersection_pointAt:
  assumes "ih_lineIntersection (seg_start S) (seg_end S) p3 p4 = Some X"
  shows "\<exists>t. 0 \<le> t \<and> t \<le> 1 \<and> X = pointAt S t \<and> seg_start S \<noteq> seg_end S"
proof -
  from assms have d: "\<not> \<bar>lineDenom (seg_start S) (seg_end S) p3 p4\<bar> < 0.001"
    by (auto simp: ih_lineIntersection_def split: if_splits)
  have ne: "seg_start S \<noteq> seg_end S"
  proof
    assume "seg_start S = seg_end S"
    then have "lineDenom (seg_start S) (seg_end S) p3 p4 = 0" by (simp add: lineDenom_def)
    with d show False by simp
  qed
  from assms d have "0 \<le> lineParam (seg_start S) (seg_end S) p3 p4 \<and>
      lineParam (seg_start S) (seg_end S) p3 p4 \<le> 1 \<and>
      X = pointAt S (lineParam (seg_start S) (seg_end S) p3 p4)"
    by (auto simp: ih_lineIntersection_def Let_def pointAt_def split: if_splits)
  with ne show ?thesis by blast
qed

lemma distance_pointAt:
  assumes "0 \<le> t"
  shows "distance (seg_start S) (pointAt S t) = t * distance (seg_start S) (seg_end S)"
proof -
  have "(t * (vx (seg_end S) - vx (seg_start S))) * (t * (vx (seg_end S) - vx (seg_start S))) +
        (t * (vy (seg_end S) - vy (seg_start S))) * (t * (vy (seg_end S) - vy (seg_start S))) =
        t\<^sup>2 * ((vx (seg_end S) - vx (seg_start S)) * (vx (seg_end S) - vx (seg_start S)) +
              (vy (seg_end S) - vy (seg_start S)) * (vy (seg_end S) - vy (seg_start S)))"
    by (simp add: power2_eq_square algebra_simps)
  then show ?thesis
    using assms by (simp add: distance_def pointAt_def Let_def real_sqrt_mult)
qed

lemma distance_pos: "a \<noteq> b \<Longrightarrow> 0 < distance a b"
proof -
  assume ne: "a \<noteq> b"
  have "vx b - vx a \<noteq> 0 \<or> vy b - vy a \<noteq> 0"
    using ne by (cases a, cases b) auto
  then have "0 < (vx b - vx a) * (vx b - vx a) + (vy b - vy a) * (vy b - vy a)"
    by (metis add_pos_nonneg add_nonneg_pos zero_le_square not_real_square_gt_zero)
  then show ?thesis by (simp add: distance_def Let_def)
qed




lemma sorted_map_divide:
  fixes f :: "'a \<Rightarrow> real"
  assumes "sorted (map f xs)" "0 < c"
  shows "sorted (map (\<lambda>x. f x / c) xs)"
  using assms by (induction xs) (auto simp: divide_right_mono)

lemma accepted_points_parameters:
  assumes acc: "\<forall>ip \<in> set pts. \<exists>p3 p4.
                  ih_lineIntersection (seg_start S) (seg_end S) p3 p4 = Some (ip_point ip)"
    and srt: "sorted (map (\<lambda>ip. distance (seg_start S) (ip_point ip)) pts)"
  shows "\<exists>ts. sorted ts \<and> (\<forall>t \<in> set ts. 0 \<le> t \<and> t \<le> 1) \<and>
              map ip_point pts = map (pointAt S) ts"
proof (cases "pts = []")
  case True
  then show ?thesis by simp
next
  case False
  then obtain ip0 where "ip0 \<in> set pts" by (cases pts) auto
  with acc obtain p3 p4 where
    "ih_lineIntersection (seg_start S) (seg_end S) p3 p4 = Some (ip_point ip0)" by blast
  from ih_lineIntersection_pointAt [OF this] have ne: "seg_start S \<noteq> seg_end S" by blast
  define len where "len = distance (seg_start S) (seg_end S)"
  have len: "0 < len" unfolding len_def using ne by (rule distance_pos)
  define ts where "ts = map (\<lambda>ip. distance (seg_start S) (ip_point ip) / len) pts"
  have par: "0 \<le> distance (seg_start S) (ip_point ip) / len \<and>
             distance (seg_start S) (ip_point ip) / len \<le> 1 \<and>
             ip_point ip = pointAt S (distance (seg_start S) (ip_point ip) / len)"
    if "ip \<in> set pts" for ip
  proof -
    from acc that obtain q3 q4 where
      "ih_lineIntersection (seg_start S) (seg_end S) q3 q4 = Some (ip_point ip)" by blast
    from ih_lineIntersection_pointAt [OF this] obtain t where
      t: "0 \<le> t" "t \<le> 1" "ip_point ip = pointAt S t" by blast
    have "distance (seg_start S) (ip_point ip) = t * len"
      unfolding len_def t(3) using t(1) by (rule distance_pointAt)
    with len have "distance (seg_start S) (ip_point ip) / len = t" by simp
    with t show ?thesis by simp
  qed
  have s: "sorted ts" unfolding ts_def using srt len by (rule sorted_map_divide)
  have r: "\<forall>t \<in> set ts. 0 \<le> t \<and> t \<le> 1" unfolding ts_def using par by auto
  have m: "map ip_point pts = map (pointAt S) ts"
    unfolding ts_def using par by (simp add: comp_def)
  from s r m show ?thesis by blast
qed

lemmas weld_eval =
  addSegment_def findIntersections_def splitSegmentAtPoints_def mapSet_def mapDelete_def
  updateIntersections_def roundKey_def round_def createOrUpdateIntersection_def isConnected_def
  distance_less_iff distance_greater_iff INTERSECTION_THRESHOLD_def IH_SNAP_THRESHOLD_def
  handleEndpointSnapping_def snapSegment_def snapStep_def mkVec2_def Let_def
  ih_lineIntersection_def lineDenom_def lineParam_def lineParamU_def isMiddleIntersection_def
  splitExistingSegment_def

lemma weldA_eq:
  "weldA = \<lparr>segments = [(0, \<lparr>seg_id = 0, seg_start = mkVec2 0 0, seg_end = mkVec2 100 0,
                               seg_width = 12, seg_class = 2\<rparr>)],
             intersections = [], nextSegmentId = 1, nextIntersectionId = 0\<rparr>"
  unfolding weldA_def
  by (simp add: weld_eval newIntersectionHandler_def)


lemma weldAB_eq:
  "weldAB = \<lparr>segments = [(0, \<lparr>seg_id = 0, seg_start = mkVec2 0 0, seg_end = mkVec2 100 0,
                               seg_width = 12, seg_class = 2\<rparr>),
                          (1, \<lparr>seg_id = 1, seg_start = mkVec2 100 0, seg_end = mkVec2 100 100,
                               seg_width = 12, seg_class = 2\<rparr>)],
             intersections = [(0, \<lparr>int_id = 0, position = mkVec2 100 0,
                                   connectedSegments = [0, 1], int_type = IT_end,
                                   int_angle = calculateAverageAngle
                                      [(0, \<lparr>seg_id = 0, seg_start = mkVec2 0 0, seg_end = mkVec2 100 0,
                                             seg_width = 12, seg_class = 2\<rparr>),
                                       (1, \<lparr>seg_id = 1, seg_start = mkVec2 100 0, seg_end = mkVec2 100 100,
                                             seg_width = 12, seg_class = 2\<rparr>)] [0, 1] (mkVec2 100 0),
                                   int_radius = 9\<rparr>)],
             nextSegmentId = 2, nextIntersectionId = 1\<rparr>"
  unfolding weldAB_def weldA_eq
  by (simp add: weld_eval)




lemma weldABC_find:
  "findIntersections \<lparr>segments = [(0, \<lparr>seg_id = 0, seg_start = (mkVec2 0 0), seg_end = (mkVec2 100 0), seg_width = 12, seg_class = 2\<rparr>),
      (1, \<lparr>seg_id = 1, seg_start = (mkVec2 100 0), seg_end = (mkVec2 100 100), seg_width = 12, seg_class = 2\<rparr>)],
     intersections = [(0, \<lparr>int_id = 0, position = mkVec2 100 0, connectedSegments = [0, 1], int_type = IT_end, int_angle = calculateAverageAngle [(0, \<lparr>seg_id = 0, seg_start = (mkVec2 0 0), seg_end = (mkVec2 100 0), seg_width = 12, seg_class = 2\<rparr>),
      (1, \<lparr>seg_id = 1, seg_start = (mkVec2 100 0), seg_end = (mkVec2 100 100), seg_width = 12, seg_class = 2\<rparr>)] [0, 1] (mkVec2 100 0), int_radius = 9\<rparr>)], nextSegmentId = 3, nextIntersectionId = 1\<rparr> \<lparr>seg_id = 2, seg_start = (mkVec2 50 (- 50)), seg_end = (mkVec2 50 50), seg_width = 12, seg_class = 2\<rparr> = [\<lparr>ip_point = mkVec2 50 0, ip_segmentId = 0\<rparr>]"
  by (simp add: findIntersections_def ih_lineIntersection_def lineDenom_def lineParam_def
        lineParamU_def isMiddleIntersection_def distance_greater_iff INTERSECTION_THRESHOLD_def
        mkVec2_def Let_def)

lemma weldABC_split:
  "splitSegmentAtPoints \<lparr>segments = [(0, \<lparr>seg_id = 0, seg_start = (mkVec2 0 0), seg_end = (mkVec2 100 0), seg_width = 12, seg_class = 2\<rparr>),
      (1, \<lparr>seg_id = 1, seg_start = (mkVec2 100 0), seg_end = (mkVec2 100 100), seg_width = 12, seg_class = 2\<rparr>)],
     intersections = [(0, \<lparr>int_id = 0, position = mkVec2 100 0, connectedSegments = [0, 1], int_type = IT_end, int_angle = calculateAverageAngle [(0, \<lparr>seg_id = 0, seg_start = (mkVec2 0 0), seg_end = (mkVec2 100 0), seg_width = 12, seg_class = 2\<rparr>),
      (1, \<lparr>seg_id = 1, seg_start = (mkVec2 100 0), seg_end = (mkVec2 100 100), seg_width = 12, seg_class = 2\<rparr>)] [0, 1] (mkVec2 100 0), int_radius = 9\<rparr>)], nextSegmentId = 3, nextIntersectionId = 1\<rparr> \<lparr>seg_id = 2, seg_start = (mkVec2 50 (- 50)), seg_end = (mkVec2 50 50), seg_width = 12, seg_class = 2\<rparr> [\<lparr>ip_point = mkVec2 50 0, ip_segmentId = 0\<rparr>] =
     ([\<lparr>seg_id = 2, seg_start = (mkVec2 50 (- 50)), seg_end = (mkVec2 50 0), seg_width = 12, seg_class = 2\<rparr>, \<lparr>seg_id = (2001 / 1000), seg_start = (mkVec2 50 0), seg_end = (mkVec2 50 50), seg_width = 12, seg_class = 2\<rparr>], [\<lparr>ip_point = mkVec2 50 0, ip_segmentId = 0\<rparr>], \<lparr>segments = [(1, \<lparr>seg_id = 1, seg_start = (mkVec2 100 0), seg_end = (mkVec2 100 100), seg_width = 12, seg_class = 2\<rparr>),
      (0, \<lparr>seg_id = 0, seg_start = (mkVec2 0 0), seg_end = (mkVec2 50 0), seg_width = 12, seg_class = 2\<rparr>),
      (3, \<lparr>seg_id = 3, seg_start = (mkVec2 50 0), seg_end = (mkVec2 100 0), seg_width = 12, seg_class = 2\<rparr>)],
     intersections = [(0, \<lparr>int_id = 0, position = mkVec2 100 0, connectedSegments = [0, 1], int_type = IT_end, int_angle = calculateAverageAngle [(0, \<lparr>seg_id = 0, seg_start = (mkVec2 0 0), seg_end = (mkVec2 100 0), seg_width = 12, seg_class = 2\<rparr>),
      (1, \<lparr>seg_id = 1, seg_start = (mkVec2 100 0), seg_end = (mkVec2 100 100), seg_width = 12, seg_class = 2\<rparr>)] [0, 1] (mkVec2 100 0), int_radius = 9\<rparr>)], nextSegmentId = 4, nextIntersectionId = 1\<rparr>)"
  by (simp add: splitSegmentAtPoints_def splitExistingSegment_def mapSet_def mapDelete_def
        distance_greater_iff INTERSECTION_THRESHOLD_def mkVec2_def Let_def)

lemma weldABC_point1:
  "createOrUpdateIntersection \<lparr>segments = [(1, \<lparr>seg_id = 1, seg_start = (mkVec2 100 0), seg_end = (mkVec2 100 100), seg_width = 12, seg_class = 2\<rparr>),
      (0, \<lparr>seg_id = 0, seg_start = (mkVec2 0 0), seg_end = (mkVec2 50 0), seg_width = 12, seg_class = 2\<rparr>),
      (3, \<lparr>seg_id = 3, seg_start = (mkVec2 50 0), seg_end = (mkVec2 100 0), seg_width = 12, seg_class = 2\<rparr>),
      (2, \<lparr>seg_id = 2, seg_start = (mkVec2 50 (- 50)), seg_end = (mkVec2 50 0), seg_width = 12, seg_class = 2\<rparr>),
      ((2001 / 1000), \<lparr>seg_id = (2001 / 1000), seg_start = (mkVec2 50 0), seg_end = (mkVec2 50 50), seg_width = 12, seg_class = 2\<rparr>)],
     intersections = [(0, \<lparr>int_id = 0, position = mkVec2 100 0, connectedSegments = [0, 1], int_type = IT_end, int_angle = calculateAverageAngle [(0, \<lparr>seg_id = 0, seg_start = (mkVec2 0 0), seg_end = (mkVec2 100 0), seg_width = 12, seg_class = 2\<rparr>),
      (1, \<lparr>seg_id = 1, seg_start = (mkVec2 100 0), seg_end = (mkVec2 100 100), seg_width = 12, seg_class = 2\<rparr>)] [0, 1] (mkVec2 100 0), int_radius = 9\<rparr>)], nextSegmentId = 4, nextIntersectionId = 1\<rparr> (mkVec2 50 (- 50)) = \<lparr>segments = [(1, \<lparr>seg_id = 1, seg_start = (mkVec2 100 0), seg_end = (mkVec2 100 100), seg_width = 12, seg_class = 2\<rparr>),
      (0, \<lparr>seg_id = 0, seg_start = (mkVec2 0 0), seg_end = (mkVec2 50 0), seg_width = 12, seg_class = 2\<rparr>),
      (3, \<lparr>seg_id = 3, seg_start = (mkVec2 50 0), seg_end = (mkVec2 100 0), seg_width = 12, seg_class = 2\<rparr>),
      (2, \<lparr>seg_id = 2, seg_start = (mkVec2 50 (- 50)), seg_end = (mkVec2 50 0), seg_width = 12, seg_class = 2\<rparr>),
      ((2001 / 1000), \<lparr>seg_id = (2001 / 1000), seg_start = (mkVec2 50 0), seg_end = (mkVec2 50 50), seg_width = 12, seg_class = 2\<rparr>)],
     intersections = [(0, \<lparr>int_id = 0, position = mkVec2 100 0, connectedSegments = [0, 1], int_type = IT_end, int_angle = calculateAverageAngle [(0, \<lparr>seg_id = 0, seg_start = (mkVec2 0 0), seg_end = (mkVec2 100 0), seg_width = 12, seg_class = 2\<rparr>),
      (1, \<lparr>seg_id = 1, seg_start = (mkVec2 100 0), seg_end = (mkVec2 100 100), seg_width = 12, seg_class = 2\<rparr>)] [0, 1] (mkVec2 100 0), int_radius = 9\<rparr>)], nextSegmentId = 4, nextIntersectionId = 1\<rparr>"
  by (simp add: createOrUpdateIntersection_def isConnected_def distance_less_iff
        INTERSECTION_THRESHOLD_def mkVec2_def Let_def)

lemma weldABC_point2:
  "createOrUpdateIntersection \<lparr>segments = [(1, \<lparr>seg_id = 1, seg_start = (mkVec2 100 0), seg_end = (mkVec2 100 100), seg_width = 12, seg_class = 2\<rparr>),
      (0, \<lparr>seg_id = 0, seg_start = (mkVec2 0 0), seg_end = (mkVec2 50 0), seg_width = 12, seg_class = 2\<rparr>),
      (3, \<lparr>seg_id = 3, seg_start = (mkVec2 50 0), seg_end = (mkVec2 100 0), seg_width = 12, seg_class = 2\<rparr>),
      (2, \<lparr>seg_id = 2, seg_start = (mkVec2 50 (- 50)), seg_end = (mkVec2 50 0), seg_width = 12, seg_class = 2\<rparr>),
      ((2001 / 1000), \<lparr>seg_id = (2001 / 1000), seg_start = (mkVec2 50 0), seg_end = (mkVec2 50 50), seg_width = 12, seg_class = 2\<rparr>)],
     intersections = [(0, \<lparr>int_id = 0, position = mkVec2 100 0, connectedSegments = [0, 1], int_type = IT_end, int_angle = calculateAverageAngle [(0, \<lparr>seg_id = 0, seg_start = (mkVec2 0 0), seg_end = (mkVec2 100 0), seg_width = 12, seg_class = 2\<rparr>),
      (1, \<lparr>seg_id = 1, seg_start = (mkVec2 100 0), seg_end = (mkVec2 100 100), seg_width = 12, seg_class = 2\<rparr>)] [0, 1] (mkVec2 100 0), int_radius = 9\<rparr>)], nextSegmentId = 4, nextIntersectionId = 1\<rparr> (mkVec2 50 0) = \<lparr>segments = [(1, \<lparr>seg_id = 1, seg_start = (mkVec2 100 0), seg_end = (mkVec2 100 100), seg_width = 12, seg_class = 2\<rparr>),
      (0, \<lparr>seg_id = 0, seg_start = (mkVec2 0 0), seg_end = (mkVec2 50 0), seg_width = 12, seg_class = 2\<rparr>),
      (3, \<lparr>seg_id = 3, seg_start = (mkVec2 50 0), seg_end = (mkVec2 100 0), seg_width = 12, seg_class = 2\<rparr>),
      (2, \<lparr>seg_id = 2, seg_start = (mkVec2 50 (- 50)), seg_end = (mkVec2 50 0), seg_width = 12, seg_class = 2\<rparr>),
      ((2001 / 1000), \<lparr>seg_id = (2001 / 1000), seg_start = (mkVec2 50 0), seg_end = (mkVec2 50 50), seg_width = 12, seg_class = 2\<rparr>)],
     intersections = [(0, \<lparr>int_id = 0, position = mkVec2 100 0, connectedSegments = [0, 1], int_type = IT_end, int_angle = calculateAverageAngle [(0, \<lparr>seg_id = 0, seg_start = (mkVec2 0 0), seg_end = (mkVec2 100 0), seg_width = 12, seg_class = 2\<rparr>),
      (1, \<lparr>seg_id = 1, seg_start = (mkVec2 100 0), seg_end = (mkVec2 100 100), seg_width = 12, seg_class = 2\<rparr>)] [0, 1] (mkVec2 100 0), int_radius = 9\<rparr>), (1, \<lparr>int_id = 1, position = mkVec2 50 0, connectedSegments = [0, 3, 2, 2001 / 1000], int_type = IT_cross, int_angle = calculateAverageAngle [(1, \<lparr>seg_id = 1, seg_start = (mkVec2 100 0), seg_end = (mkVec2 100 100), seg_width = 12, seg_class = 2\<rparr>),
      (0, \<lparr>seg_id = 0, seg_start = (mkVec2 0 0), seg_end = (mkVec2 50 0), seg_width = 12, seg_class = 2\<rparr>),
      (3, \<lparr>seg_id = 3, seg_start = (mkVec2 50 0), seg_end = (mkVec2 100 0), seg_width = 12, seg_class = 2\<rparr>),
      (2, \<lparr>seg_id = 2, seg_start = (mkVec2 50 (- 50)), seg_end = (mkVec2 50 0), seg_width = 12, seg_class = 2\<rparr>),
      ((2001 / 1000), \<lparr>seg_id = (2001 / 1000), seg_start = (mkVec2 50 0), seg_end = (mkVec2 50 50), seg_width = 12, seg_class = 2\<rparr>)] [0, 3, 2, 2001 / 1000] (mkVec2 50 0), int_radius = 9\<rparr>)], nextSegmentId = 4, nextIntersectionId = 2\<rparr>"
  by (simp add: createOrUpdateIntersection_def isConnected_def distance_less_iff
        INTERSECTION_THRESHOLD_def mapSet_def mkVec2_def Let_def)

lemma weldABC_point3:
  "createOrUpdateIntersection \<lparr>segments = [(1, \<lparr>seg_id = 1, seg_start = (mkVec2 100 0), seg_end = (mkVec2 100 100), seg_width = 12, seg_class = 2\<rparr>),
      (0, \<lparr>seg_id = 0, seg_start = (mkVec2 0 0), seg_end = (mkVec2 50 0), seg_width = 12, seg_class = 2\<rparr>),
      (3, \<lparr>seg_id = 3, seg_start = (mkVec2 50 0), seg_end = (mkVec2 100 0), seg_width = 12, seg_class = 2\<rparr>),
      (2, \<lparr>seg_id = 2, seg_start = (mkVec2 50 (- 50)), seg_end = (mkVec2 50 0), seg_width = 12, seg_class = 2\<rparr>),
      ((2001 / 1000), \<lparr>seg_id = (2001 / 1000), seg_start = (mkVec2 50 0), seg_end = (mkVec2 50 50), seg_width = 12, seg_class = 2\<rparr>)],
     intersections = [(0, \<lparr>int_id = 0, position = mkVec2 100 0, connectedSegments = [0, 1], int_type = IT_end, int_angle = calculateAverageAngle [(0, \<lparr>seg_id = 0, seg_start = (mkVec2 0 0), seg_end = (mkVec2 100 0), seg_width = 12, seg_class = 2\<rparr>),
      (1, \<lparr>seg_id = 1, seg_start = (mkVec2 100 0), seg_end = (mkVec2 100 100), seg_width = 12, seg_class = 2\<rparr>)] [0, 1] (mkVec2 100 0), int_radius = 9\<rparr>), (1, \<lparr>int_id = 1, position = mkVec2 50 0, connectedSegments = [0, 3, 2, 2001 / 1000], int_type = IT_cross, int_angle = calculateAverageAngle [(1, \<lparr>seg_id = 1, seg_start = (mkVec2 100 0), seg_end = (mkVec2 100 100), seg_width = 12, seg_class = 2\<rparr>),
      (0, \<lparr>seg_id = 0, seg_start = (mkVec2 0 0), seg_end = (mkVec2 50 0), seg_width = 12, seg_class = 2\<rparr>),
      (3, \<lparr>seg_id = 3, seg_start = (mkVec2 50 0), seg_end = (mkVec2 100 0), seg_width = 12, seg_class = 2\<rparr>),
      (2, \<lparr>seg_id = 2, seg_start = (mkVec2 50 (- 50)), seg_end = (mkVec2 50 0), seg_width = 12, seg_class = 2\<rparr>),
      ((2001 / 1000), \<lparr>seg_id = (2001 / 1000), seg_start = (mkVec2 50 0), seg_end = (mkVec2 50 50), seg_width = 12, seg_class = 2\<rparr>)] [0, 3, 2, 2001 / 1000] (mkVec2 50 0), int_radius = 9\<rparr>)], nextSegmentId = 4, nextIntersectionId = 2\<rparr> (mkVec2 50 50) = \<lparr>segments = [(1, \<lparr>seg_id = 1, seg_start = (mkVec2 100 0), seg_end = (mkVec2 100 100), seg_width = 12, seg_class = 2\<rparr>),
      (0, \<lparr>seg_id = 0, seg_start = (mkVec2 0 0), seg_end = (mkVec2 50 0), seg_width = 12, seg_class = 2\<rparr>),
      (3, \<lparr>seg_id = 3, seg_start = (mkVec2 50 0), seg_end = (mkVec2 100 0), seg_width = 12, seg_class = 2\<rparr>),
      (2, \<lparr>seg_id = 2, seg_start = (mkVec2 50 (- 50)), seg_end = (mkVec2 50 0), seg_width = 12, seg_class = 2\<rparr>),
      ((2001 / 1000), \<lparr>seg_id = (2001 / 1000), seg_start = (mkVec2 50 0), seg_end = (mkVec2 50 50), seg_width = 12, seg_class = 2\<rparr>)],
     intersections = [(0, \<lparr>int_id = 0, position = mkVec2 100 0, connectedSegments = [0, 1], int_type = IT_end, int_angle = calculateAverageAngle [(0, \<lparr>seg_id = 0, seg_start = (mkVec2 0 0), seg_end = (mkVec2 100 0), seg_width = 12, seg_class = 2\<rparr>),
      (1, \<lparr>seg_id = 1, seg_start = (mkVec2 100 0), seg_end = (mkVec2 100 100), seg_width = 12, seg_class = 2\<rparr>)] [0, 1] (mkVec2 100 0), int_radius = 9\<rparr>), (1, \<lparr>int_id = 1, position = mkVec2 50 0, connectedSegments = [0, 3, 2, 2001 / 1000], int_type = IT_cross, int_angle = calculateAverageAngle [(1, \<lparr>seg_id = 1, seg_start = (mkVec2 100 0), seg_end = (mkVec2 100 100), seg_width = 12, seg_class = 2\<rparr>),
      (0, \<lparr>seg_id = 0, seg_start = (mkVec2 0 0), seg_end = (mkVec2 50 0), seg_width = 12, seg_class = 2\<rparr>),
      (3, \<lparr>seg_id = 3, seg_start = (mkVec2 50 0), seg_end = (mkVec2 100 0), seg_width = 12, seg_class = 2\<rparr>),
      (2, \<lparr>seg_id = 2, seg_start = (mkVec2 50 (- 50)), seg_end = (mkVec2 50 0), seg_width = 12, seg_class = 2\<rparr>),
      ((2001 / 1000), \<lparr>seg_id = (2001 / 1000), seg_start = (mkVec2 50 0), seg_end = (mkVec2 50 50), seg_width = 12, seg_class = 2\<rparr>)] [0, 3, 2, 2001 / 1000] (mkVec2 50 0), int_radius = 9\<rparr>)], nextSegmentId = 4, nextIntersectionId = 2\<rparr>"
  by (simp add: createOrUpdateIntersection_def isConnected_def distance_less_iff
        INTERSECTION_THRESHOLD_def mkVec2_def Let_def)

lemma weldABC_update:
  "updateIntersections \<lparr>segments = [(1, \<lparr>seg_id = 1, seg_start = (mkVec2 100 0), seg_end = (mkVec2 100 100), seg_width = 12, seg_class = 2\<rparr>),
      (0, \<lparr>seg_id = 0, seg_start = (mkVec2 0 0), seg_end = (mkVec2 50 0), seg_width = 12, seg_class = 2\<rparr>),
      (3, \<lparr>seg_id = 3, seg_start = (mkVec2 50 0), seg_end = (mkVec2 100 0), seg_width = 12, seg_class = 2\<rparr>),
      (2, \<lparr>seg_id = 2, seg_start = (mkVec2 50 (- 50)), seg_end = (mkVec2 50 0), seg_width = 12, seg_class = 2\<rparr>),
      ((2001 / 1000), \<lparr>seg_id = (2001 / 1000), seg_start = (mkVec2 50 0), seg_end = (mkVec2 50 50), seg_width = 12, seg_class = 2\<rparr>)],
     intersections = [(0, \<lparr>int_id = 0, position = mkVec2 100 0, connectedSegments = [0, 1], int_type = IT_end, int_angle = calculateAverageAngle [(0, \<lparr>seg_id = 0, seg_start = (mkVec2 0 0), seg_end = (mkVec2 100 0), seg_width = 12, seg_class = 2\<rparr>),
      (1, \<lparr>seg_id = 1, seg_start = (mkVec2 100 0), seg_end = (mkVec2 100 100), seg_width = 12, seg_class = 2\<rparr>)] [0, 1] (mkVec2 100 0), int_radius = 9\<rparr>)], nextSegmentId = 4, nextIntersectionId = 1\<rparr> [\<lparr>seg_id = 2, seg_start = (mkVec2 50 (- 50)), seg_end = (mkVec2 50 0), seg_width = 12, seg_class = 2\<rparr>, \<lparr>seg_id = (2001 / 1000), seg_start = (mkVec2 50 0), seg_end = (mkVec2 50 50), seg_width = 12, seg_class = 2\<rparr>] [\<lparr>ip_point = mkVec2 50 0, ip_segmentId = 0\<rparr>] = \<lparr>segments = [(1, \<lparr>seg_id = 1, seg_start = (mkVec2 100 0), seg_end = (mkVec2 100 100), seg_width = 12, seg_class = 2\<rparr>),
      (0, \<lparr>seg_id = 0, seg_start = (mkVec2 0 0), seg_end = (mkVec2 50 0), seg_width = 12, seg_class = 2\<rparr>),
      (3, \<lparr>seg_id = 3, seg_start = (mkVec2 50 0), seg_end = (mkVec2 100 0), seg_width = 12, seg_class = 2\<rparr>),
      (2, \<lparr>seg_id = 2, seg_start = (mkVec2 50 (- 50)), seg_end = (mkVec2 50 0), seg_width = 12, seg_class = 2\<rparr>),
      ((2001 / 1000), \<lparr>seg_id = (2001 / 1000), seg_start = (mkVec2 50 0), seg_end = (mkVec2 50 50), seg_width = 12, seg_class = 2\<rparr>)],
     intersections = [(0, \<lparr>int_id = 0, position = mkVec2 100 0, connectedSegments = [0, 1], int_type = IT_end, int_angle = calculateAverageAngle [(0, \<lparr>seg_id = 0, seg_start = (mkVec2 0 0), seg_end = (mkVec2 100 0), seg_width = 12, seg_class = 2\<rparr>),
      (1, \<lparr>seg_id = 1, seg_start = (mkVec2 100 0), seg_end = (mkVec2 100 100), seg_width = 12, seg_class = 2\<rparr>)] [0, 1] (mkVec2 100 0), int_radius = 9\<rparr>), (1, \<lparr>int_id = 1, position = mkVec2 50 0, connectedSegments = [0, 3, 2, 2001 / 1000], int_type = IT_cross, int_angle = calculateAverageAngle [(1, \<lparr>seg_id = 1, seg_start = (mkVec2 100 0), seg_end = (mkVec2 100 100), seg_width = 12, seg_class = 2\<rparr>),
      (0, \<lparr>seg_id = 0, seg_start = (mkVec2 0 0), seg_end = (mkVec2 50 0), seg_width = 12, seg_class = 2\<rparr>),
      (3, \<lparr>seg_id = 3, seg_start = (mkVec2 50 0), seg_end = (mkVec2 100 0), seg_width = 12, seg_class = 2\<rparr>),
      (2, \<lparr>seg_id = 2, seg_start = (mkVec2 50 (- 50)), seg_end = (mkVec2 50 0), seg_width = 12, seg_class = 2\<rparr>),
      ((2001 / 1000), \<lparr>seg_id = (2001 / 1000), seg_start = (mkVec2 50 0), seg_end = (mkVec2 50 50), seg_width = 12, seg_class = 2\<rparr>)] [0, 3, 2, 2001 / 1000] (mkVec2 50 0), int_radius = 9\<rparr>)], nextSegmentId = 4, nextIntersectionId = 2\<rparr>"
proof -
  have pm: "map snd (foldl (\<lambda>pm ip. mapSet (roundKey (ip_point ip)) (ip_point ip) pm)
      (foldl (\<lambda>pm segment.
                   mapSet (roundKey (seg_end segment)) (seg_end segment)
                     (mapSet (roundKey (seg_start segment)) (seg_start segment) pm))
                 [] [\<lparr>seg_id = 2, seg_start = (mkVec2 50 (- 50)), seg_end = (mkVec2 50 0), seg_width = 12, seg_class = 2\<rparr>, \<lparr>seg_id = (2001 / 1000), seg_start = (mkVec2 50 0), seg_end = (mkVec2 50 50), seg_width = 12, seg_class = 2\<rparr>]) [\<lparr>ip_point = mkVec2 50 0, ip_segmentId = 0\<rparr>]) = [mkVec2 50 (- 50), mkVec2 50 0, mkVec2 50 50]"
    by (simp add: mapSet_def roundKey_def round_def mkVec2_def)
  show ?thesis
    unfolding updateIntersections_def Let_def pm
    by (simp only: foldl.simps weldABC_point1 weldABC_point2 weldABC_point3)
qed

lemma weldABC_snap2:
  "snapSegment \<lparr>segments = [(1, \<lparr>seg_id = 1, seg_start = (mkVec2 100 0), seg_end = (mkVec2 100 100), seg_width = 12, seg_class = 2\<rparr>),
      (0, \<lparr>seg_id = 0, seg_start = (mkVec2 0 0), seg_end = (mkVec2 50 0), seg_width = 12, seg_class = 2\<rparr>),
      (3, \<lparr>seg_id = 3, seg_start = (mkVec2 50 0), seg_end = (mkVec2 100 0), seg_width = 12, seg_class = 2\<rparr>),
      (2, \<lparr>seg_id = 2, seg_start = (mkVec2 50 (- 50)), seg_end = (mkVec2 50 0), seg_width = 12, seg_class = 2\<rparr>),
      ((2001 / 1000), \<lparr>seg_id = (2001 / 1000), seg_start = (mkVec2 50 0), seg_end = (mkVec2 50 50), seg_width = 12, seg_class = 2\<rparr>)],
     intersections = [(0, \<lparr>int_id = 0, position = mkVec2 100 0, connectedSegments = [0, 1], int_type = IT_end, int_angle = calculateAverageAngle [(0, \<lparr>seg_id = 0, seg_start = (mkVec2 0 0), seg_end = (mkVec2 100 0), seg_width = 12, seg_class = 2\<rparr>),
      (1, \<lparr>seg_id = 1, seg_start = (mkVec2 100 0), seg_end = (mkVec2 100 100), seg_width = 12, seg_class = 2\<rparr>)] [0, 1] (mkVec2 100 0), int_radius = 9\<rparr>), (1, \<lparr>int_id = 1, position = mkVec2 50 0, connectedSegments = [0, 3, 2, 2001 / 1000], int_type = IT_cross, int_angle = calculateAverageAngle [(1, \<lparr>seg_id = 1, seg_start = (mkVec2 100 0), seg_end = (mkVec2 100 100), seg_width = 12, seg_class = 2\<rparr>),
      (0, \<lparr>seg_id = 0, seg_start = (mkVec2 0 0), seg_end = (mkVec2 50 0), seg_width = 12, seg_class = 2\<rparr>),
      (3, \<lparr>seg_id = 3, seg_start = (mkVec2 50 0), seg_end = (mkVec2 100 0), seg_width = 12, seg_class = 2\<rparr>),
      (2, \<lparr>seg_id = 2, seg_start = (mkVec2 50 (- 50)), seg_end = (mkVec2 50 0), seg_width = 12, seg_class = 2\<rparr>),
      ((2001 / 1000), \<lparr>seg_id = (2001 / 1000), seg_start = (mkVec2 50 0), seg_end = (mkVec2 50 50), seg_width = 12, seg_class = 2\<rparr>)] [0, 3, 2, 2001 / 1000] (mkVec2 50 0), int_radius = 9\<rparr>)], nextSegmentId = 4, nextIntersectionId = 2\<rparr> 2 = \<lparr>segments = [(1, \<lparr>seg_id = 1, seg_start = (mkVec2 100 0), seg_end = (mkVec2 100 100), seg_width = 12, seg_class = 2\<rparr>),
      (0, \<lparr>seg_id = 0, seg_start = (mkVec2 0 0), seg_end = (mkVec2 50 0), seg_width = 12, seg_class = 2\<rparr>),
      (3, \<lparr>seg_id = 3, seg_start = (mkVec2 50 0), seg_end = (mkVec2 100 0), seg_width = 12, seg_class = 2\<rparr>),
      (2, \<lparr>seg_id = 2, seg_start = (mkVec2 50 (- 50)), seg_end = (mkVec2 50 0), seg_width = 12, seg_class = 2\<rparr>),
      ((2001 / 1000), \<lparr>seg_id = (2001 / 1000), seg_start = (mkVec2 50 0), seg_end = (mkVec2 50 50), seg_width = 12, seg_class = 2\<rparr>)],
     intersections = [(0, \<lparr>int_id = 0, position = mkVec2 100 0, connectedSegments = [0, 1], int_type = IT_end, int_angle = calculateAverageAngle [(0, \<lparr>seg_id = 0, seg_start = (mkVec2 0 0), seg_end = (mkVec2 100 0), seg_width = 12, seg_class = 2\<rparr>),
      (1, \<lparr>seg_id = 1, seg_start = (mkVec2 100 0), seg_end = (mkVec2 100 100), seg_width = 12, seg_class = 2\<rparr>)] [0, 1] (mkVec2 100 0), int_radius = 9\<rparr>), (1, \<lparr>int_id = 1, position = mkVec2 50 0, connectedSegments = [0, 3, 2, 2001 / 1000], int_type = IT_cross, int_angle = calculateAverageAngle [(1, \<lparr>seg_id = 1, seg_start = (mkVec2 100 0), seg_end = (mkVec2 100 100), seg_width = 12, seg_class = 2\<rparr>),
      (0, \<lparr>seg_id = 0, seg_start = (mkVec2 0 0), seg_end = (mkVec2 50 0), seg_width = 12, seg_class = 2\<rparr>),
      (3, \<lparr>seg_id = 3, seg_start = (mkVec2 50 0), seg_end = (mkVec2 100 0), seg_width = 12, seg_class = 2\<rparr>),
      (2, \<lparr>seg_id = 2, seg_start = (mkVec2 50 (- 50)), seg_end = (mkVec2 50 0), seg_width = 12, seg_class = 2\<rparr>),
      ((2001 / 1000), \<lparr>seg_id = (2001 / 1000), seg_start = (mkVec2 50 0), seg_end = (mkVec2 50 50), seg_width = 12, seg_class = 2\<rparr>)] [0, 3, 2, 2001 / 1000] (mkVec2 50 0), int_radius = 9\<rparr>)], nextSegmentId = 4, nextIntersectionId = 2\<rparr>"
  by (simp add: snapSegment_def snapStep_def mapSet_def distance_less_iff IH_SNAP_THRESHOLD_def
        mkVec2_def Let_def)

lemma weldABC_snap3:
  "snapSegment \<lparr>segments = [(1, \<lparr>seg_id = 1, seg_start = (mkVec2 100 0), seg_end = (mkVec2 100 100), seg_width = 12, seg_class = 2\<rparr>),
      (0, \<lparr>seg_id = 0, seg_start = (mkVec2 0 0), seg_end = (mkVec2 50 0), seg_width = 12, seg_class = 2\<rparr>),
      (3, \<lparr>seg_id = 3, seg_start = (mkVec2 50 0), seg_end = (mkVec2 100 0), seg_width = 12, seg_class = 2\<rparr>),
      (2, \<lparr>seg_id = 2, seg_start = (mkVec2 50 (- 50)), seg_end = (mkVec2 50 0), seg_width = 12, seg_class = 2\<rparr>),
      ((2001 / 1000), \<lparr>seg_id = (2001 / 1000), seg_start = (mkVec2 50 0), seg_end = (mkVec2 50 50), seg_width = 12, seg_class = 2\<rparr>)],
     intersections = [(0, \<lparr>int_id = 0, position = mkVec2 100 0, connectedSegments = [0, 1], int_type = IT_end, int_angle = calculateAverageAngle [(0, \<lparr>seg_id = 0, seg_start = (mkVec2 0 0), seg_end = (mkVec2 100 0), seg_width = 12, seg_class = 2\<rparr>),
      (1, \<lparr>seg_id = 1, seg_start = (mkVec2 100 0), seg_end = (mkVec2 100 100), seg_width = 12, seg_class = 2\<rparr>)] [0, 1] (mkVec2 100 0), int_radius = 9\<rparr>), (1, \<lparr>int_id = 1, position = mkVec2 50 0, connectedSegments = [0, 3, 2, 2001 / 1000], int_type = IT_cross, int_angle = calculateAverageAngle [(1, \<lparr>seg_id = 1, seg_start = (mkVec2 100 0), seg_end = (mkVec2 100 100), seg_width = 12, seg_class = 2\<rparr>),
      (0, \<lparr>seg_id = 0, seg_start = (mkVec2 0 0), seg_end = (mkVec2 50 0), seg_width = 12, seg_class = 2\<rparr>),
      (3, \<lparr>seg_id = 3, seg_start = (mkVec2 50 0), seg_end = (mkVec2 100 0), seg_width = 12, seg_class = 2\<rparr>),
      (2, \<lparr>seg_id = 2, seg_start = (mkVec2 50 (- 50)), seg_end = (mkVec2 50 0), seg_width = 12, seg_class = 2\<rparr>),
      ((2001 / 1000), \<lparr>seg_id = (2001 / 1000), seg_start = (mkVec2 50 0), seg_end = (mkVec2 50 50), seg_width = 12, seg_class = 2\<rparr>)] [0, 3, 2, 2001 / 1000] (mkVec2 50 0), int_radius = 9\<rparr>)], nextSegmentId = 4, nextIntersectionId = 2\<rparr> (2001 / 1000) = \<lparr>segments = [(1, \<lparr>seg_id = 1, seg_start = (mkVec2 100 0), seg_end = (mkVec2 100 100), seg_width = 12, seg_class = 2\<rparr>),
      (0, \<lparr>seg_id = 0, seg_start = (mkVec2 0 0), seg_end = (mkVec2 50 0), seg_width = 12, seg_class = 2\<rparr>),
      (3, \<lparr>seg_id = 3, seg_start = (mkVec2 50 0), seg_end = (mkVec2 100 0), seg_width = 12, seg_class = 2\<rparr>),
      (2, \<lparr>seg_id = 2, seg_start = (mkVec2 50 (- 50)), seg_end = (mkVec2 50 0), seg_width = 12, seg_class = 2\<rparr>),
      ((2001 / 1000), \<lparr>seg_id = (2001 / 1000), seg_start = (mkVec2 50 0), seg_end = (mkVec2 50 50), seg_width = 12, seg_class = 2\<rparr>)],
     intersections = [(0, \<lparr>int_id = 0, position = mkVec2 100 0, connectedSegments = [0, 1], int_type = IT_end, int_angle = calculateAverageAngle [(0, \<lparr>seg_id = 0, seg_start = (mkVec2 0 0), seg_end = (mkVec2 100 0), seg_width = 12, seg_class = 2\<rparr>),
      (1, \<lparr>seg_id = 1, seg_start = (mkVec2 100 0), seg_end = (mkVec2 100 100), seg_width = 12, seg_class = 2\<rparr>)] [0, 1] (mkVec2 100 0), int_radius = 9\<rparr>), (1, \<lparr>int_id = 1, position = mkVec2 50 0, connectedSegments = [0, 3, 2, 2001 / 1000], int_type = IT_cross, int_angle = calculateAverageAngle [(1, \<lparr>seg_id = 1, seg_start = (mkVec2 100 0), seg_end = (mkVec2 100 100), seg_width = 12, seg_class = 2\<rparr>),
      (0, \<lparr>seg_id = 0, seg_start = (mkVec2 0 0), seg_end = (mkVec2 50 0), seg_width = 12, seg_class = 2\<rparr>),
      (3, \<lparr>seg_id = 3, seg_start = (mkVec2 50 0), seg_end = (mkVec2 100 0), seg_width = 12, seg_class = 2\<rparr>),
      (2, \<lparr>seg_id = 2, seg_start = (mkVec2 50 (- 50)), seg_end = (mkVec2 50 0), seg_width = 12, seg_class = 2\<rparr>),
      ((2001 / 1000), \<lparr>seg_id = (2001 / 1000), seg_start = (mkVec2 50 0), seg_end = (mkVec2 50 50), seg_width = 12, seg_class = 2\<rparr>)] [0, 3, 2, 2001 / 1000] (mkVec2 50 0), int_radius = 9\<rparr>)], nextSegmentId = 4, nextIntersectionId = 2\<rparr>"
  by (simp add: snapSegment_def snapStep_def mapSet_def distance_less_iff IH_SNAP_THRESHOLD_def
        mkVec2_def Let_def)

lemma weldABC_eq:
  "weldABC = \<lparr>segments = [(1, \<lparr>seg_id = 1, seg_start = (mkVec2 100 0), seg_end = (mkVec2 100 100), seg_width = 12, seg_class = 2\<rparr>),
      (0, \<lparr>seg_id = 0, seg_start = (mkVec2 0 0), seg_end = (mkVec2 50 0), seg_width = 12, seg_class = 2\<rparr>),
      (3, \<lparr>seg_id = 3, seg_start = (mkVec2 50 0), seg_end = (mkVec2 100 0), seg_width = 12, seg_class = 2\<rparr>),
      (2, \<lparr>seg_id = 2, seg_start = (mkVec2 50 (- 50)), seg_end = (mkVec2 50 0), seg_width = 12, seg_class = 2\<rparr>),
      ((2001 / 1000), \<lparr>seg_id = (2001 / 1000), seg_start = (mkVec2 50 0), seg_end = (mkVec2 50 50), seg_width = 12, seg_class = 2\<rparr>)],
     intersections = [(0, \<lparr>int_id = 0, position = mkVec2 100 0, connectedSegments = [0, 1], int_type = IT_end, int_angle = calculateAverageAngle [(0, \<lparr>seg_id = 0, seg_start = (mkVec2 0 0), seg_end = (mkVec2 100 0), seg_width = 12, seg_class = 2\<rparr>),
      (1, \<lparr>seg_id = 1, seg_start = (mkVec2 100 0), seg_end = (mkVec2 100 100), seg_width = 12, seg_class = 2\<rparr>)] [0, 1] (mkVec2 100 0), int_radius = 9\<rparr>), (1, \<lparr>int_id = 1, position = mkVec2 50 0, connectedSegments = [0, 3, 2, 2001 / 1000], int_type = IT_cross, int_angle = calculateAverageAngle [(1, \<lparr>seg_id = 1, seg_start = (mkVec2 100 0), seg_end = (mkVec2 100 100), seg_width = 12, seg_class = 2\<rparr>),
      (0, \<lparr>seg_id = 0, seg_start = (mkVec2 0 0), seg_end = (mkVec2 50 0), seg_width = 12, seg_class = 2\<rparr>),
      (3, \<lparr>seg_id = 3, seg_start = (mkVec2 50 0), seg_end = (mkVec2 100 0), seg_width = 12, seg_class = 2\<rparr>),
      (2, \<lparr>seg_id = 2, seg_start = (mkVec2 50 (- 50)), seg_end = (mkVec2 50 0), seg_width = 12, seg_class = 2\<rparr>),
      ((2001 / 1000), \<lparr>seg_id = (2001 / 1000), seg_start = (mkVec2 50 0), seg_end = (mkVec2 50 50), seg_width = 12, seg_class = 2\<rparr>)] [0, 3, 2, 2001 / 1000] (mkVec2 50 0), int_radius = 9\<rparr>)], nextSegmentId = 4, nextIntersectionId = 2\<rparr>"
proof -
  have set: "foldl (\<lambda>m segment. mapSet (seg_id segment) segment m) [(1, \<lparr>seg_id = 1, seg_start = (mkVec2 100 0), seg_end = (mkVec2 100 100), seg_width = 12, seg_class = 2\<rparr>),
      (0, \<lparr>seg_id = 0, seg_start = (mkVec2 0 0), seg_end = (mkVec2 50 0), seg_width = 12, seg_class = 2\<rparr>),
      (3, \<lparr>seg_id = 3, seg_start = (mkVec2 50 0), seg_end = (mkVec2 100 0), seg_width = 12, seg_class = 2\<rparr>)] [\<lparr>seg_id = 2, seg_start = (mkVec2 50 (- 50)), seg_end = (mkVec2 50 0), seg_width = 12, seg_class = 2\<rparr>, \<lparr>seg_id = (2001 / 1000), seg_start = (mkVec2 50 0), seg_end = (mkVec2 50 50), seg_width = 12, seg_class = 2\<rparr>] = [(1, \<lparr>seg_id = 1, seg_start = (mkVec2 100 0), seg_end = (mkVec2 100 100), seg_width = 12, seg_class = 2\<rparr>),
      (0, \<lparr>seg_id = 0, seg_start = (mkVec2 0 0), seg_end = (mkVec2 50 0), seg_width = 12, seg_class = 2\<rparr>),
      (3, \<lparr>seg_id = 3, seg_start = (mkVec2 50 0), seg_end = (mkVec2 100 0), seg_width = 12, seg_class = 2\<rparr>),
      (2, \<lparr>seg_id = 2, seg_start = (mkVec2 50 (- 50)), seg_end = (mkVec2 50 0), seg_width = 12, seg_class = 2\<rparr>),
      ((2001 / 1000), \<lparr>seg_id = (2001 / 1000), seg_start = (mkVec2 50 0), seg_end = (mkVec2 50 50), seg_width = 12, seg_class = 2\<rparr>)]"
    by (simp add: mapSet_def)
  have snap: "handleEndpointSnapping \<lparr>segments = [(1, \<lparr>seg_id = 1, seg_start = (mkVec2 100 0), seg_end = (mkVec2 100 100), seg_width = 12, seg_class = 2\<rparr>),
      (0, \<lparr>seg_id = 0, seg_start = (mkVec2 0 0), seg_end = (mkVec2 50 0), seg_width = 12, seg_class = 2\<rparr>),
      (3, \<lparr>seg_id = 3, seg_start = (mkVec2 50 0), seg_end = (mkVec2 100 0), seg_width = 12, seg_class = 2\<rparr>),
      (2, \<lparr>seg_id = 2, seg_start = (mkVec2 50 (- 50)), seg_end = (mkVec2 50 0), seg_width = 12, seg_class = 2\<rparr>),
      ((2001 / 1000), \<lparr>seg_id = (2001 / 1000), seg_start = (mkVec2 50 0), seg_end = (mkVec2 50 50), seg_width = 12, seg_class = 2\<rparr>)],
     intersections = [(0, \<lparr>int_id = 0, position = mkVec2 100 0, connectedSegments = [0, 1], int_type = IT_end, int_angle = calculateAverageAngle [(0, \<lparr>seg_id = 0, seg_start = (mkVec2 0 0), seg_end = (mkVec2 100 0), seg_width = 12, seg_class = 2\<rparr>),
      (1, \<lparr>seg_id = 1, seg_start = (mkVec2 100 0), seg_end = (mkVec2 100 100), seg_width = 12, seg_class = 2\<rparr>)] [0, 1] (mkVec2 100 0), int_radius = 9\<rparr>), (1, \<lparr>int_id = 1, position = mkVec2 50 0, connectedSegments = [0, 3, 2, 2001 / 1000], int_type = IT_cross, int_angle = calculateAverageAngle [(1, \<lparr>seg_id = 1, seg_start = (mkVec2 100 0), seg_end = (mkVec2 100 100), seg_width = 12, seg_class = 2\<rparr>),
      (0, \<lparr>seg_id = 0, seg_start = (mkVec2 0 0), seg_end = (mkVec2 50 0), seg_width = 12, seg_class = 2\<rparr>),
      (3, \<lparr>seg_id = 3, seg_start = (mkVec2 50 0), seg_end = (mkVec2 100 0), seg_width = 12, seg_class = 2\<rparr>),
      (2, \<lparr>seg_id = 2, seg_start = (mkVec2 50 (- 50)), seg_end = (mkVec2 50 0), seg_width = 12, seg_class = 2\<rparr>),
      ((2001 / 1000), \<lparr>seg_id = (2001 / 1000), seg_start = (mkVec2 50 0), seg_end = (mkVec2 50 50), seg_width = 12, seg_class = 2\<rparr>)] [0, 3, 2, 2001 / 1000] (mkVec2 50 0), int_radius = 9\<rparr>)], nextSegmentId = 4, nextIntersectionId = 2\<rparr> [\<lparr>seg_id = 2, seg_start = (mkVec2 50 (- 50)), seg_end = (mkVec2 50 0), seg_width = 12, seg_class = 2\<rparr>, \<lparr>seg_id = (2001 / 1000), seg_start = (mkVec2 50 0), seg_end = (mkVec2 50 50), seg_width = 12, seg_class = 2\<rparr>] = \<lparr>segments = [(1, \<lparr>seg_id = 1, seg_start = (mkVec2 100 0), seg_end = (mkVec2 100 100), seg_width = 12, seg_class = 2\<rparr>),
      (0, \<lparr>seg_id = 0, seg_start = (mkVec2 0 0), seg_end = (mkVec2 50 0), seg_width = 12, seg_class = 2\<rparr>),
      (3, \<lparr>seg_id = 3, seg_start = (mkVec2 50 0), seg_end = (mkVec2 100 0), seg_width = 12, seg_class = 2\<rparr>),
      (2, \<lparr>seg_id = 2, seg_start = (mkVec2 50 (- 50)), seg_end = (mkVec2 50 0), seg_width = 12, seg_class = 2\<rparr>),
      ((2001 / 1000), \<lparr>seg_id = (2001 / 1000), seg_start = (mkVec2 50 0), seg_end = (mkVec2 50 50), seg_width = 12, seg_class = 2\<rparr>)],
     intersections = [(0, \<lparr>int_id = 0, position = mkVec2 100 0, connectedSegments = [0, 1], int_type = IT_end, int_angle = calculateAverageAngle [(0, \<lparr>seg_id = 0, seg_start = (mkVec2 0 0), seg_end = (mkVec2 100 0), seg_width = 12, seg_class = 2\<rparr>),
      (1, \<lparr>seg_id = 1, seg_start = (mkVec2 100 0), seg_end = (mkVec2 100 100), seg_width = 12, seg_class = 2\<rparr>)] [0, 1] (mkVec2 100 0), int_radius = 9\<rparr>), (1, \<lparr>int_id = 1, position = mkVec2 50 0, connectedSegments = [0, 3, 2, 2001 / 1000], int_type = IT_cross, int_angle = calculateAverageAngle [(1, \<lparr>seg_id = 1, seg_start = (mkVec2 100 0), seg_end = (mkVec2 100 100), seg_width = 12, seg_class = 2\<rparr>),
      (0, \<lparr>seg_id = 0, seg_start = (mkVec2 0 0), seg_end = (mkVec2 50 0), seg_width = 12, seg_class = 2\<rparr>),
      (3, \<lparr>seg_id = 3, seg_start = (mkVec2 50 0), seg_end = (mkVec2 100 0), seg_width = 12, seg_class = 2\<rparr>),
      (2, \<lparr>seg_id = 2, seg_start = (mkVec2 50 (- 50)), seg_end = (mkVec2 50 0), seg_width = 12, seg_class = 2\<rparr>),
      ((2001 / 1000), \<lparr>seg_id = (2001 / 1000), seg_start = (mkVec2 50 0), seg_end = (mkVec2 50 50), seg_width = 12, seg_class = 2\<rparr>)] [0, 3, 2, 2001 / 1000] (mkVec2 50 0), int_radius = 9\<rparr>)], nextSegmentId = 4, nextIntersectionId = 2\<rparr>"
    by (simp add: handleEndpointSnapping_def weldABC_snap2 weldABC_snap3)
  show ?thesis
    unfolding weldABC_def weldAB_eq addSegment_def
    by (simp add: Let_def weldABC_find weldABC_split mapSet_def weldABC_update snap)
qed
lemma distance_le_iff:
  "0 \<le> c \<Longrightarrow> distance a b \<le> c \<longleftrightarrow> (vx b - vx a)\<^sup>2 + (vy b - vy a)\<^sup>2 \<le> c\<^sup>2"
  using distance_greater_iff [of c a b] by (simp add: not_less [symmetric])

lemma crossing_find:
  "findIntersections weldA crossing = [\<lparr>ip_point = mkVec2 50 0, ip_segmentId = 0\<rparr>]"
  unfolding weldA_eq crossing_def
  by (simp add: findIntersections_def ih_lineIntersection_def lineDenom_def lineParam_def
        lineParamU_def isMiddleIntersection_def distance_greater_iff INTERSECTION_THRESHOLD_def
        mkVec2_def Let_def)


subsection \<open>C1: accepted crossings and the split of the new segment\<close>

text \<open>
  C1: in \<open>addSegment\<close>, an intersection point \<open>X\<close> of the new segment \<open>S\<close> with an
  existing segment \<open>E\<close> is accepted by \<open>findIntersections\<close> if and only if its distance
  to each of the four endpoints exceeds INTERSECTION_THRESHOLD = 2; and
  \<open>splitSegmentAtPoints\<close> splits \<open>S\<close> at exactly the accepted points (as a multiset),
  into consecutive sub-segments (the first starts at the start of \<open>S\<close>, each ends where
  the next starts, the last ends at the end of \<open>S\<close>), the points being taken in
  increasing order of their parameter along \<open>S\<close>.
\<close>

theorem findIntersections_accepts_and_splits:
  "(ip \<in> set (findIntersections h S) \<longleftrightarrow>
      (\<exists>i E. (i, E) \<in> set (segments h) \<and> ip_segmentId ip = i \<and>
         ih_lineIntersection (seg_start S) (seg_end S) (seg_start E) (seg_end E)
           = Some (ip_point ip) \<and>
         distance (ip_point ip) (seg_start S) > INTERSECTION_THRESHOLD \<and>
         distance (ip_point ip) (seg_end S) > INTERSECTION_THRESHOLD \<and>
         distance (ip_point ip) (seg_start E) > INTERSECTION_THRESHOLD \<and>
         distance (ip_point ip) (seg_end E) > INTERSECTION_THRESHOLD)) \<and>
   INTERSECTION_THRESHOLD = 2 \<and>
   (splitSegmentAtPoints h S (findIntersections h S) = (segs, pts, h') \<longrightarrow>
      mset pts = mset (findIntersections h S) \<and>
      map seg_start segs = seg_start S # map ip_point pts \<and>
      map seg_end segs = map ip_point pts @ [seg_end S] \<and>
      (\<exists>ts. sorted ts \<and> (\<forall>t \<in> set ts. 0 \<le> t \<and> t \<le> 1) \<and>
            map ip_point pts = map (pointAt S) ts))"
proof (intro conjI impI)
  show "ip \<in> set (findIntersections h S) \<longleftrightarrow>
      (\<exists>i E. (i, E) \<in> set (segments h) \<and> ip_segmentId ip = i \<and>
         ih_lineIntersection (seg_start S) (seg_end S) (seg_start E) (seg_end E)
           = Some (ip_point ip) \<and>
         distance (ip_point ip) (seg_start S) > INTERSECTION_THRESHOLD \<and>
         distance (ip_point ip) (seg_end S) > INTERSECTION_THRESHOLD \<and>
         distance (ip_point ip) (seg_start E) > INTERSECTION_THRESHOLD \<and>
         distance (ip_point ip) (seg_end E) > INTERSECTION_THRESHOLD)"
    unfolding findIntersections_def findIntersections_loop_iff isMiddleIntersection_def ..
  show "INTERSECTION_THRESHOLD = 2" by (rule INTERSECTION_THRESHOLD_def)
next
  assume sp: "splitSegmentAtPoints h S (findIntersections h S) = (segs, pts, h')"
  let ?key = "\<lambda>ip. distance (seg_start S) (ip_point ip)"
  have shape: "mset pts = mset (findIntersections h S) \<and>
      sorted (map ?key pts) \<and>
      map seg_start segs = seg_start S # map ip_point pts \<and>
      map seg_end segs = map ip_point pts @ [seg_end S]"
  proof (cases "findIntersections h S = []")
    case True
    with sp show ?thesis by (auto simp: splitSegmentAtPoints_def)
  next
    case False
    with sp have pts: "pts = sort_key ?key (findIntersections h S)"
      and lp: "splitLoop h S pts (seg_start S) 0 [] = (segs, h')"
      by (auto simp: splitSegmentAtPoints_def Let_def split: prod.splits)
    from splitLoop_shape [OF lp] pts show ?thesis by simp
  qed
  then show "mset pts = mset (findIntersections h S)"
    and "map seg_start segs = seg_start S # map ip_point pts"
    and "map seg_end segs = map ip_point pts @ [seg_end S]"
    by simp_all
  from shape have "set pts = set (findIntersections_loop S (segments h))"
    unfolding findIntersections_def by (metis set_mset_mset)
  then have acc: "\<forall>ip \<in> set pts. \<exists>p3 p4.
       ih_lineIntersection (seg_start S) (seg_end S) p3 p4 = Some (ip_point ip)"
    using findIntersections_loop_iff [of _ S "segments h"] by blast
  from shape have srt: "sorted (map ?key pts)" by simp
  from accepted_points_parameters [OF acc srt]
  show "\<exists>ts. sorted ts \<and> (\<forall>t \<in> set ts. 0 \<le> t \<and> t \<le> 1) \<and>
            map ip_point pts = map (pointAt S) ts" .
qed




theorem findIntersections_accepts_and_splits_witness:
  "\<lparr>ip_point = mkVec2 50 0, ip_segmentId = 0\<rparr> \<in> set (findIntersections weldA crossing) \<and>
   map seg_start (fst (splitSegmentAtPoints weldA crossing (findIntersections weldA crossing))) =
     [mkVec2 50 (- 50), mkVec2 50 0] \<and>
   map seg_end (fst (splitSegmentAtPoints weldA crossing (findIntersections weldA crossing))) =
     [mkVec2 50 0, mkVec2 50 50]"
proof -
  let ?r = "splitSegmentAtPoints weldA crossing (findIntersections weldA crossing)"
  let ?ip = "\<lparr>ip_point = mkVec2 50 0, ip_segmentId = 0\<rparr>"
  have eq: "?r = (fst ?r, fst (snd ?r), snd (snd ?r))" by simp
  have rhs: "\<exists>i E. (i, E) \<in> set (segments weldA) \<and> ip_segmentId ?ip = i \<and>
         ih_lineIntersection (seg_start crossing) (seg_end crossing) (seg_start E) (seg_end E)
           = Some (ip_point ?ip) \<and>
         distance (ip_point ?ip) (seg_start crossing) > INTERSECTION_THRESHOLD \<and>
         distance (ip_point ?ip) (seg_end crossing) > INTERSECTION_THRESHOLD \<and>
         distance (ip_point ?ip) (seg_start E) > INTERSECTION_THRESHOLD \<and>
         distance (ip_point ?ip) (seg_end E) > INTERSECTION_THRESHOLD"
    unfolding weldA_eq crossing_def
    by (simp add: ih_lineIntersection_def lineDenom_def lineParam_def lineParamU_def
          distance_greater_iff INTERSECTION_THRESHOLD_def mkVec2_def Let_def)
  note t = findIntersections_accepts_and_splits
             [of ?ip weldA crossing "fst ?r" "fst (snd ?r)" "snd (snd ?r)"]
  from t rhs have mem: "?ip \<in> set (findIntersections weldA crossing)" by blast
  from t eq have "mset (fst (snd ?r)) = mset (findIntersections weldA crossing)"
    and st: "map seg_start (fst ?r) = seg_start crossing # map ip_point (fst (snd ?r))"
    and en: "map seg_end (fst ?r) = map ip_point (fst (snd ?r)) @ [seg_end crossing]"
    by blast+
  then have "fst (snd ?r) = [?ip]" by (simp add: crossing_find)
  with mem st en show ?thesis by (simp add: crossing_def)
qed


subsection \<open>C5: intersection records after a split\<close>

text \<open>
  C5: every segment id listed in an intersection record designates a segment with an
  endpoint within INTERSECTION_THRESHOLD of the record's position, in every state reached
  by \<open>addSegment\<close> calls. The code does not keep this: after the three calls
  \<open>addSegment (0,0) (100,0)\<close>, \<open>addSegment (100,0) (100,100)\<close> and
  \<open>addSegment (50,-50) (50,50)\<close>, the record at (100, 0) still lists segment 0, which
  \<open>splitExistingSegment\<close> has shortened to (0,0)-(50,0): both of its endpoints are at
  least 50 m from the record.
\<close>

theorem stale_intersection_record:
  "position (the (map_of (intersections weldABC) 0)) = mkVec2 100 0 \<and>
   0 \<in> set (connectedSegments (the (map_of (intersections weldABC) 0))) \<and>
   map_of (segments weldABC) 0 =
     Some \<lparr>seg_id = 0, seg_start = mkVec2 0 0, seg_end = mkVec2 50 0,
           seg_width = 12, seg_class = 2\<rparr> \<and>
   \<not> distance (mkVec2 100 0) (mkVec2 0 0) \<le> INTERSECTION_THRESHOLD \<and>
   \<not> distance (mkVec2 100 0) (mkVec2 50 0) \<le> INTERSECTION_THRESHOLD"
  by (simp add: weldABC_eq distance_le_iff INTERSECTION_THRESHOLD_def mkVec2_def)


subsection \<open>Helper lemmas: the parcel table and the loop over the blocks\<close>

lemma mapSet_fresh: "k \<notin> fst ` set m \<Longrightarrow> mapSet k v m = m @ [(k, v)]"
  by (simp add: mapSet_def)

lemma numbered_keys:
  "\<forall>kp \<in> set (numbered mk n polys). n \<le> fst kp \<and> fst kp < n + int (length polys)"
proof (induction polys arbitrary: n)
  case Nil
  show ?case by simp
next
  case (Cons vs polys)
  from Cons [of "n + 1"] show ?case by auto
qed

lemma numbered_snd:
  "map snd (numbered mk n polys) = map (\<lambda>(vs, i). mk vs i) (zip polys (map (\<lambda>j. n + int j) [0..<length polys]))"
proof (induction polys arbitrary: n)
  case Nil
  show ?case by simp
next
  case (Cons vs polys)
  have "map (\<lambda>j. n + int j) [0..<Suc (length polys)] = n # map (\<lambda>j. (n + 1) + int j) [0..<length polys]"
    by (simp add: upt_rec [of 0] map_Suc_upt [symmetric] del: upt_Suc)
  with Cons [of "n + 1"] show ?case by simp
qed

lemma numbered_length: "length (numbered mk n polys) = length polys"
  by (induction polys arbitrary: n) auto

lemma fold_createParcel:
  assumes keys: "\<forall>kp \<in> set (acc_parcels acc). fst kp < acc_nextId acc"
    and ids: "\<And>vs i. parcel_id (mk vs i) = i"
  shows "foldl (createParcel mk) acc polys =
     \<lparr>acc_parcels = acc_parcels acc @ numbered mk (acc_nextId acc) (goodPolys polys),
      acc_nextId = acc_nextId acc + int (length (goodPolys polys)),
      acc_blockParcels = acc_blockParcels acc @ map fst (numbered mk (acc_nextId acc) (goodPolys polys)),
      acc_affected = acc_affected acc @ map fst (numbered mk (acc_nextId acc) (goodPolys polys))\<rparr>"
  using keys
proof (induction polys arbitrary: acc)
  case Nil
  show ?case by (simp add: goodPolys_def)
next
  case (Cons vs polys)
  show ?case
  proof (cases "\<not> length vs < 3 \<and> \<not> polygonArea vs < 50")
    case False
    then have "createParcel mk acc vs = acc" by (auto simp: createParcel_def)
    moreover from False have "goodPolys (vs # polys) = goodPolys polys" by (auto simp: goodPolys_def)
    ultimately show ?thesis using Cons.IH [OF Cons.prems] by simp
  next
    case True
    let ?acc' = "createParcel mk acc vs"
    from Cons.prems have fresh: "acc_nextId acc \<notin> fst ` set (acc_parcels acc)" by auto
    from True have step: "?acc' =
        \<lparr>acc_parcels = acc_parcels acc @ [(acc_nextId acc, mk vs (acc_nextId acc))],
         acc_nextId = acc_nextId acc + 1,
         acc_blockParcels = acc_blockParcels acc @ [acc_nextId acc],
         acc_affected = acc_affected acc @ [acc_nextId acc]\<rparr>"
      by (simp add: createParcel_def Let_def ids mapSet_fresh [OF fresh])
    have keys': "\<forall>kp \<in> set (acc_parcels ?acc'). fst kp < acc_nextId ?acc'"
      unfolding step using Cons.prems by auto
    from True have g: "goodPolys (vs # polys) = vs # goodPolys polys" by (simp add: goodPolys_def)
    have "foldl (createParcel mk) acc (vs # polys) = foldl (createParcel mk) ?acc' polys" by simp
    also note Cons.IH [OF keys']
    finally show ?thesis unfolding g step by simp
  qed
qed

lemma clear_parcels:
  "foldl (\<lambda>ps parcelId. mapDelete parcelId ps) ps ids = filter (\<lambda>kv. fst kv \<notin> set ids) ps"
proof (induction ids arbitrary: ps)
  case Nil
  show ?case by simp
next
  case (Cons i ids)
  have "foldl (\<lambda>ps parcelId. mapDelete parcelId ps) ps (i # ids) =
        filter (\<lambda>kv. fst kv \<notin> set ids) (mapDelete i ps)"
    by (simp add: Cons)
  also have "\<dots> = filter (\<lambda>kv. fst kv \<notin> set (i # ids)) ps"
    by (auto simp: mapDelete_def intro: filter_cong)
  finally show ?case .
qed

lemma numbered_props:
  assumes "\<And>vs i. parcel_id (mk vs i) = i" "\<And>vs i. vertices (mk vs i) = vs"
    "\<And>vs i. area (mk vs i) = polygonArea vs"
  shows "(\<forall>kp \<in> set (numbered mk n polys).
            parcel_id (snd kp) = fst kp \<and> n \<le> fst kp \<and> fst kp < n + int (length polys) \<and>
            area (snd kp) = polygonArea (vertices (snd kp))) \<and>
         map (vertices \<circ> snd) (numbered mk n polys) = polys"
proof (induction polys arbitrary: n)
  case Nil
  show ?case by simp
next
  case (Cons vs polys)
  from Cons [of "n + 1"] assms show ?case by auto
qed

lemma blockParcel_fields:
  "parcel_id (blockParcel b k req vs i) = i"
  "vertices (blockParcel b k req vs i) = vs"
  "area (blockParcel b k req vs i) = polygonArea vs"
  "blockId (blockParcel b k req vs i) = k"
  by (simp_all add: blockParcel_def Let_def split: prod.splits)

lemma standaloneParcel_fields:
  "parcel_id (standaloneParcel k req vs i) = i"
  "vertices (standaloneParcel k req vs i) = vs"
  "area (standaloneParcel k req vs i) = polygonArea vs"
  "blockId (standaloneParcel k req vs i) = k"
  by (simp_all add: standaloneParcel_def)

lemma paintBlock_skeleton:
  assumes meth: "subdivisionMethod req \<noteq> Some voronoi"
    and sk: "skeletonOf req net b = Inr polys"
    and keys: "\<forall>kp \<in> set (parcels m). fst kp < nextParcelId m"
  shows "paintBlock req net (m, affected) (k, b) =
     Inr (m\<lparr>blocks := mapSet k (b\<lparr>block_parcels :=
                           map fst (numbered (blockParcel b k req) (nextParcelId m) (goodPolys polys))\<rparr>)
                        (blocks m),
            parcels := filter (\<lambda>kv. fst kv \<notin> set (block_parcels b)) (parcels m) @
                       numbered (blockParcel b k req) (nextParcelId m) (goodPolys polys),
            nextParcelId := nextParcelId m + int (length (goodPolys polys)),
            cbm_rng := cbm_rng m\<rparr>,
          affected @ map fst (numbered (blockParcel b k req) (nextParcelId m) (goodPolys polys)))"
proof -
  have m: "(case subdivisionMethod req of None \<Rightarrow> skeleton | Some meth \<Rightarrow> meth) \<noteq> voronoi"
    using meth by (cases "subdivisionMethod req") auto
  let ?acc = "\<lparr>acc_parcels = filter (\<lambda>kv. fst kv \<notin> set (block_parcels b)) (parcels m),
               acc_nextId = nextParcelId m, acc_blockParcels = [], acc_affected = affected\<rparr>"
  have k': "\<forall>kp \<in> set (acc_parcels ?acc). fst kp < acc_nextId ?acc" using keys by simp
  have f: "foldl (createParcel (blockParcel b k req)) ?acc polys =
     \<lparr>acc_parcels = acc_parcels ?acc @ numbered (blockParcel b k req) (acc_nextId ?acc) (goodPolys polys),
      acc_nextId = acc_nextId ?acc + int (length (goodPolys polys)),
      acc_blockParcels = acc_blockParcels ?acc @ map fst (numbered (blockParcel b k req) (acc_nextId ?acc) (goodPolys polys)),
      acc_affected = acc_affected ?acc @ map fst (numbered (blockParcel b k req) (acc_nextId ?acc) (goodPolys polys))\<rparr>"
    by (rule fold_createParcel [OF k']) (rule blockParcel_fields)
  show ?thesis
    using sk m
    by (simp add: paintBlock_def Let_def clear_parcels skeletonOf_def f)
qed

lemma paintBlock_skeleton_Inl:
  assumes meth: "subdivisionMethod req \<noteq> Some voronoi"
    and sk: "skeletonOf req net b = Inl e"
  shows "paintBlock req net (m, affected) (k, b) = Inl e"
proof -
  have m: "(case subdivisionMethod req of None \<Rightarrow> skeleton | Some meth \<Rightarrow> meth) \<noteq> voronoi"
    using meth by (cases "subdivisionMethod req") auto
  show ?thesis using sk m by (simp add: paintBlock_def Let_def skeletonOf_def)
qed

lemma mapSet_middle:
  assumes "distinct (map fst (pre @ (k, v) # post))"
  shows "mapSet k v' (pre @ (k, v) # post) = pre @ (k, v') # post"
proof -
  from assms have a: "k \<notin> fst ` set pre" "k \<notin> fst ` set post" by auto
  have p: "map (\<lambda>(k', w). if k' = k then (k', v') else (k', w)) pre = pre"
    using a(1) by (induction pre) auto
  have q: "map (\<lambda>(k', w). if k' = k then (k', v') else (k', w)) post = post"
    using a(2) by (induction post) auto
  show ?thesis by (simp add: mapSet_def p q)
qed

lemma entriesIn_append: "entriesIn lo hi (xs @ ys) \<longleftrightarrow> entriesIn lo hi xs \<and> entriesIn lo hi ys"
  by (auto simp: entriesIn_def)

lemma entriesIn_mono: "entriesIn lo hi es \<Longrightarrow> lo' \<le> lo \<Longrightarrow> hi \<le> hi' \<Longrightarrow> entriesIn lo' hi' es"
  by (fastforce simp: entriesIn_def)

lemma entriesIn_numbered:
  "entriesIn n (n + int (length polys)) (numbered (blockParcel b k req) n polys)"
  using numbered_props [of "blockParcel b k req" n polys]
  by (simp add: entriesIn_def blockParcel_fields)

lemma vertices_numbered:
  "map (vertices \<circ> snd) (numbered (blockParcel b k req) n polys) = polys"
  using numbered_props [of "blockParcel b k req" n polys]
  by (simp add: blockParcel_fields)

lemma paintBlocks_skeleton:
  assumes meth: "subdivisionMethod req \<noteq> Some voronoi"
  shows "paintBlocks req net (f, m, affected) bs = Inr (f', m', affected') \<Longrightarrow>
     blocks m = pre @ bs \<Longrightarrow> distinct (map fst (pre @ bs)) \<Longrightarrow>
     parcels m = olds @ news \<Longrightarrow>
     (\<forall>kp \<in> set olds. fst kp < N0) \<Longrightarrow>
     entriesIn N0 (nextParcelId m) news \<Longrightarrow>
     N0 \<le> nextParcelId m \<Longrightarrow>
     (\<forall>kb \<in> set bs. \<forall>i \<in> set (block_parcels (snd kb)). i < N0) \<Longrightarrow>
     \<exists>olds' news' post.
       parcels m' = olds' @ news @ news' \<and> set olds' \<subseteq> set olds \<and>
       entriesIn (nextParcelId m) (nextParcelId m') news' \<and>
       nextParcelId m \<le> nextParcelId m' \<and>
       affected' = affected @ map fst news' \<and>
       map (vertices \<circ> snd) news' = blockPolys req net bs \<and>
       f' = (f \<or> (\<exists>kb \<in> set bs. blockHit req (snd kb))) \<and>
       blocks m' = pre @ post \<and> sameShape post bs \<and>
       (\<forall>kb \<in> set post. \<forall>i \<in> set (block_parcels (snd kb)). i < nextParcelId m') \<and>
       nextBlockId m' = nextBlockId m \<and> cbm_rng m' = cbm_rng m"
proof (induction bs arbitrary: f m affected pre olds news)
  case Nil
  then show ?case
    by (intro exI [of _ olds] exI [of _ "[]"])
       (auto simp: entriesIn_def blockPolys_def sameShape_def)
next
  case (Cons kb bs)
  obtain k b where kb: "kb = (k, b)" by (cases kb)
  note run = Cons.prems(1) and blk = Cons.prems(2) and dist = Cons.prems(3)
    and par = Cons.prems(4) and olds = Cons.prems(5) and news = Cons.prems(6)
    and n0 = Cons.prems(7) and bp = Cons.prems(8)
  show ?case
  proof (cases "blockHit req b")
    case False
    with run kb have run': "paintBlocks req net (f, m, affected) bs = Inr (f', m', affected')"
      by (simp add: blockHit_def)
    from blk kb have blk': "blocks m = (pre @ [(k, b)]) @ bs" by simp
    from dist kb have dist': "distinct (map fst ((pre @ [(k, b)]) @ bs))" by simp
    from bp have bp': "\<forall>kb \<in> set bs. \<forall>i \<in> set (block_parcels (snd kb)). i < N0" by simp
    from Cons.IH [OF run' blk' dist' par olds news n0 bp']
    obtain olds' news' post where r:
      "parcels m' = olds' @ news @ news'" "set olds' \<subseteq> set olds"
      "entriesIn (nextParcelId m) (nextParcelId m') news'"
      "nextParcelId m \<le> nextParcelId m'"
      "affected' = affected @ map fst news'"
      "map (vertices \<circ> snd) news' = blockPolys req net bs"
      "f' = (f \<or> (\<exists>kb \<in> set bs. blockHit req (snd kb)))"
      "blocks m' = (pre @ [(k, b)]) @ post" "sameShape post bs"
      "\<forall>kb \<in> set post. \<forall>i \<in> set (block_parcels (snd kb)). i < nextParcelId m'"
      "nextBlockId m' = nextBlockId m" "cbm_rng m' = cbm_rng m"
      by blast
    have old_b: "\<forall>i \<in> set (block_parcels b). i < nextParcelId m'"
      using bp kb n0 r(4) by fastforce
    show ?thesis
      apply (rule exI [of _ olds'], rule exI [of _ news'], rule exI [of _ "(k, b) # post"])
      using r False kb old_b
      by (auto simp: blockPolys_def sameShape_def comp_def)
  next
    case True
    from run kb True obtain m1 aff1 where
      pb: "paintBlock req net (m, affected) (k, b) = Inr (m1, aff1)"
      and run': "paintBlocks req net (True, m1, aff1) bs = Inr (f', m', affected')"
      by (auto simp: blockHit_def split: sum.splits)
    obtain polys where sk: "skeletonOf req net b = Inr polys"
    proof (cases "skeletonOf req net b")
      case (Inl e)
      from paintBlock_skeleton_Inl [OF meth Inl] pb show ?thesis by simp
    next
      case (Inr polys)
      then show ?thesis by (rule that)
    qed
    have keys: "\<forall>kp \<in> set (parcels m). fst kp < nextParcelId m"
      using par olds news n0 by (fastforce simp: entriesIn_def)
    define new where "new = numbered (blockParcel b k req) (nextParcelId m) (goodPolys polys)"
    from paintBlock_skeleton [OF meth sk keys, of affected k] pb
    have m1: "m1 = m\<lparr>blocks := mapSet k (b\<lparr>block_parcels := map fst new\<rparr>) (blocks m),
            parcels := filter (\<lambda>kv. fst kv \<notin> set (block_parcels b)) (parcels m) @ new,
            nextParcelId := nextParcelId m + int (length (goodPolys polys)),
            cbm_rng := cbm_rng m\<rparr>"
      and aff1: "aff1 = affected @ map fst new"
      by (simp_all add: new_def)
    let ?b' = "b\<lparr>block_parcels := map fst new\<rparr>"
    have blocks1: "blocks m1 = (pre @ [(k, ?b')]) @ bs"
      using mapSet_middle [of pre k b bs ?b'] dist blk kb by (simp add: m1)
    have dist1: "distinct (map fst ((pre @ [(k, ?b')]) @ bs))" using dist kb by simp
    have keep: "filter (\<lambda>kv. fst kv \<notin> set (block_parcels b)) news = news"
      using news bp kb by (fastforce simp: entriesIn_def filter_id_conv)
    define olds1 where "olds1 = filter (\<lambda>kv. fst kv \<notin> set (block_parcels b)) olds"
    have par1: "parcels m1 = olds1 @ (news @ new)"
      by (simp add: m1 par keep olds1_def)
    have olds1: "\<forall>kp \<in> set olds1. fst kp < N0" using olds by (simp add: olds1_def)
    have en: "entriesIn (nextParcelId m) (nextParcelId m1) new"
      unfolding new_def m1 using entriesIn_numbered by simp
    have news1: "entriesIn N0 (nextParcelId m1) (news @ new)"
      unfolding entriesIn_append
      using entriesIn_mono [OF news, of N0 "nextParcelId m1"]
            entriesIn_mono [OF en, of N0 "nextParcelId m1"] n0
      by (simp add: m1)
    have n01: "N0 \<le> nextParcelId m1" using n0 by (simp add: m1)
    from bp have bp': "\<forall>kb \<in> set bs. \<forall>i \<in> set (block_parcels (snd kb)). i < N0" by simp
    from Cons.IH [OF run' blocks1 dist1 par1 olds1 news1 n01 bp']
    obtain olds' news' post where r:
      "parcels m' = olds' @ (news @ new) @ news'" "set olds' \<subseteq> set olds1"
      "entriesIn (nextParcelId m1) (nextParcelId m') news'"
      "nextParcelId m1 \<le> nextParcelId m'"
      "affected' = aff1 @ map fst news'"
      "map (vertices \<circ> snd) news' = blockPolys req net bs"
      "f' = (True \<or> (\<exists>kb \<in> set bs. blockHit req (snd kb)))"
      "blocks m' = (pre @ [(k, ?b')]) @ post" "sameShape post bs"
      "\<forall>kb \<in> set post. \<forall>i \<in> set (block_parcels (snd kb)). i < nextParcelId m'"
      "nextBlockId m' = nextBlockId m1" "cbm_rng m' = cbm_rng m1"
      by blast
    have le: "nextParcelId m \<le> nextParcelId m1" by (simp add: m1)
    have e_all: "entriesIn (nextParcelId m) (nextParcelId m') (new @ news')"
      unfolding entriesIn_append
      using entriesIn_mono [OF en, of "nextParcelId m" "nextParcelId m'"]
            entriesIn_mono [OF r(3), of "nextParcelId m" "nextParcelId m'"] le r(4)
      by simp
    have polys_eq: "map (vertices \<circ> snd) (new @ news') = blockPolys req net (kb # bs)"
      using r(6) True kb sk vertices_numbered [of b k req "nextParcelId m" "goodPolys polys"]
      by (simp add: blockPolys_def polysOrNone_def new_def)
    have newb: "\<forall>i \<in> set (block_parcels ?b'). i < nextParcelId m'"
      using en r(4) by (fastforce simp: entriesIn_def)
    show ?thesis
      apply (rule exI [of _ olds'], rule exI [of _ "new @ news'"], rule exI [of _ "(k, ?b') # post"])
      using r e_all polys_eq newb True kb le aff1
      by (auto simp: sameShape_def olds1_def m1 comp_def)
  qed
qed

lemma paintBlock_returns:
  assumes meth: "subdivisionMethod req \<noteq> Some voronoi"
    and sk: "skeletonOf req net b = Inr polys"
  shows "\<exists>m1 aff1. paintBlock req net (m, affected) (k, b) = Inr (m1, aff1)"
proof -
  have m: "(case subdivisionMethod req of None \<Rightarrow> skeleton | Some meth \<Rightarrow> meth) \<noteq> voronoi"
    using meth by (cases "subdivisionMethod req") auto
  show ?thesis using sk m by (simp add: paintBlock_def Let_def skeletonOf_def)
qed

lemma paintBlocks_returns_iff:
  assumes meth: "subdivisionMethod req \<noteq> Some voronoi"
  shows "(\<exists>r. paintBlocks req net (f, m, affected) bs = Inr r) \<longleftrightarrow>
     (\<forall>kb \<in> set bs. blockHit req (snd kb) \<longrightarrow> (\<exists>polys. skeletonOf req net (snd kb) = Inr polys))"
proof (induction bs arbitrary: f m affected)
  case Nil
  show ?case by simp
next
  case (Cons kb bs)
  obtain k b where kb: "kb = (k, b)" by (cases kb)
  show ?case
  proof (cases "blockHit req b")
    case False
    then show ?thesis using Cons [of f m affected] kb by (simp add: blockHit_def)
  next
    case True
    show ?thesis
    proof (cases "skeletonOf req net b")
      case (Inl e)
      from paintBlock_skeleton_Inl [OF meth Inl, of m affected k] True kb Inl
      show ?thesis by (simp add: blockHit_def)
    next
      case (Inr polys)
      from paintBlock_returns [OF meth Inr, of m affected k]
      obtain m1 aff1 where "paintBlock req net (m, affected) (k, b) = Inr (m1, aff1)" by blast
      then show ?thesis using Cons [of True m1 aff1] True kb Inr by (simp add: blockHit_def)
    qed
  qed
qed

lemma shape_cong:
  assumes "block_vertices b = block_vertices c" "roadEdges b = roadEdges c"
  shows "skeletonOf req net b = skeletonOf req net c" "blockHit req b = blockHit req c"
  using assms by (simp_all add: skeletonOf_def blockHit_def bestFrontageIndex_def)

lemma sameShape_cong:
  assumes "sameShape post bs"
  shows "blockPolys req net post = blockPolys req net bs"
    and "(\<exists>kb \<in> set post. blockHit req (snd kb)) = (\<exists>kb \<in> set bs. blockHit req (snd kb))"
    and "(\<forall>kb \<in> set post. blockHit req (snd kb) \<longrightarrow> (\<exists>polys. skeletonOf req net (snd kb) = Inr polys)) =
         (\<forall>kb \<in> set bs. blockHit req (snd kb) \<longrightarrow> (\<exists>polys. skeletonOf req net (snd kb) = Inr polys))"
proof -
  from assms have len: "length post = length bs"
    unfolding sameShape_def by (metis length_map)
  from len assms have "blockPolys req net post = blockPolys req net bs \<and>
     (\<exists>kb \<in> set post. blockHit req (snd kb)) = (\<exists>kb \<in> set bs. blockHit req (snd kb)) \<and>
     (\<forall>kb \<in> set post. blockHit req (snd kb) \<longrightarrow> (\<exists>polys. skeletonOf req net (snd kb) = Inr polys)) =
     (\<forall>kb \<in> set bs. blockHit req (snd kb) \<longrightarrow> (\<exists>polys. skeletonOf req net (snd kb) = Inr polys))"
  proof (induction post bs rule: list_induct2)
    case Nil
    show ?case by (simp add: blockPolys_def)
  next
    case (Cons x xs y ys)
    from Cons.prems have s: "sameShape xs ys" and v: "block_vertices (snd x) = block_vertices (snd y)"
      and e: "roadEdges (snd x) = roadEdges (snd y)"
      by (simp_all add: sameShape_def)
    note c = shape_cong(1) [OF v e, of req net] shape_cong(2) [OF v e, of req]
    from Cons.IH [OF s] c show ?case by (simp add: blockPolys_def)
  qed
  then show "blockPolys req net post = blockPolys req net bs"
    and "(\<exists>kb \<in> set post. blockHit req (snd kb)) = (\<exists>kb \<in> set bs. blockHit req (snd kb))"
    and "(\<forall>kb \<in> set post. blockHit req (snd kb) \<longrightarrow> (\<exists>polys. skeletonOf req net (snd kb) = Inr polys)) =
         (\<forall>kb \<in> set bs. blockHit req (snd kb) \<longrightarrow> (\<exists>polys. skeletonOf req net (snd kb) = Inr polys))"
    by blast+
qed

lemma blockPolys_no_hit:
  "\<forall>kb \<in> set bs. \<not> blockHit req (snd kb) \<Longrightarrow> blockPolys req net bs = []"
  by (simp add: blockPolys_def)

lemma blockPolys_append:
  "blockPolys req net (bs @ cs) = blockPolys req net bs @ blockPolys req net cs"
  by (simp add: blockPolys_def)

lemma affected_new:
  assumes par: "parcels m = olds @ news"
    and olds: "\<forall>kp \<in> set olds. parcel_id (snd kp) = fst kp \<and> fst kp < n"
    and news: "entriesIn n hi news"
  shows "affectedParcels m (map fst news) = map snd news"
proof -
  have a: "filter (\<lambda>p. parcel_id p \<in> fst ` set news) (map snd olds) = []"
    using olds news by (fastforce simp: entriesIn_def filter_empty_conv)
  have b: "filter (\<lambda>p. parcel_id p \<in> fst ` set news) (map snd news) = map snd news"
    using news by (fastforce simp: entriesIn_def filter_id_conv)
  show ?thesis by (simp add: affectedParcels_def par a b)
qed

lemma entries_area:
  "entriesIn lo hi news \<Longrightarrow> map area (map snd news) = map polygonArea (map (vertices \<circ> snd) news)"
  by (simp add: entriesIn_def)

lemma paintBlocks_found:
  "paintBlocks req net (f, m, affected) bs = Inr (f', m', affected') \<Longrightarrow>
   f' = (f \<or> (\<exists>kb \<in> set bs. blockHit req (snd kb)))"
proof (induction bs arbitrary: f m affected)
  case Nil
  then show ?case by simp
next
  case (Cons kb bs)
  obtain k b where kb: "kb = (k, b)" by (cases kb)
  show ?case
  proof (cases "blockHit req b")
    case False
    with Cons.prems kb have "paintBlocks req net (f, m, affected) bs = Inr (f', m', affected')"
      by (simp add: blockHit_def)
    from Cons.IH [OF this] False kb show ?thesis by simp
  next
    case True
    with Cons.prems kb obtain m1 aff1 where
      "paintBlocks req net (True, m1, aff1) bs = Inr (f', m', affected')"
      by (auto simp: blockHit_def split: sum.splits)
    from Cons.IH [OF this] True kb show ?thesis by simp
  qed
qed

lemma paintBlocks_no_hit:
  "\<forall>kb \<in> set bs. \<not> blockHit req (snd kb) \<Longrightarrow> paintBlocks req net st bs = Inr st"
proof (induction bs)
  case Nil
  show ?case by simp
next
  case (Cons kb bs)
  obtain k b where kb: "kb = (k, b)" by (cases kb)
  obtain f m a where st: "st = (f, m, a)" by (cases st)
  from Cons kb st show ?case by (simp add: blockHit_def)
qed

lemma paintStandalone_returns_iff:
  "(\<exists>r. paintStandalone req m affected = Inr r) \<longleftrightarrow>
   (\<exists>polys. subdivideWithSkeleton (polygon req) (req_zoneType req) (req_zoneDensity req) 0 = Inr polys)"
  by (cases "subdivideWithSkeleton (polygon req) (req_zoneType req) (req_zoneDensity req) 0")
     (simp_all add: paintStandalone_def Let_def)

lemma paintZone_returns_iff:
  assumes meth: "subdivisionMethod req \<noteq> Some voronoi"
  shows "(\<exists>r. paintZone m req net = Inr r) \<longleftrightarrow>
     (\<forall>kb \<in> set (blocks m). blockHit req (snd kb) \<longrightarrow> (\<exists>polys. skeletonOf req net (snd kb) = Inr polys)) \<and>
     ((\<forall>kb \<in> set (blocks m). \<not> blockHit req (snd kb)) \<and> 3 \<le> length (polygon req) \<longrightarrow>
        (\<exists>polys. subdivideWithSkeleton (polygon req) (req_zoneType req) (req_zoneDensity req) 0 = Inr polys))"
proof (cases "paintBlocks req net (False, m, []) (blocks m)")
  case (Inl e)
  then have "\<not> (\<exists>r. paintBlocks req net (False, m, []) (blocks m) = Inr r)" by simp
  with paintBlocks_returns_iff [OF meth, of net False m "[]" "blocks m"] Inl
  show ?thesis by (simp add: paintZone_def)
next
  case (Inr r)
  obtain f1 m1 a1 where r: "r = (f1, m1, a1)" by (cases r)
  from Inr r have run: "paintBlocks req net (False, m, []) (blocks m) = Inr (f1, m1, a1)" by simp
  from paintBlocks_found [OF run] have f1: "f1 = (\<exists>kb \<in> set (blocks m). blockHit req (snd kb))" by simp
  from run paintBlocks_returns_iff [OF meth, of net False m "[]" "blocks m"]
  have sk: "\<forall>kb \<in> set (blocks m). blockHit req (snd kb) \<longrightarrow> (\<exists>polys. skeletonOf req net (snd kb) = Inr polys)"
    by blast
  show ?thesis
  proof (cases "\<not> f1 \<and> 3 \<le> length (polygon req)")
    case True
    with run have "paintZone m req net = paintStandalone req m1 a1" by (simp add: paintZone_def)
    with paintStandalone_returns_iff [of req m1 a1] sk True f1 show ?thesis by simp
  next
    case False
    with run have "paintZone m req net = Inr (a1, m1)" by (auto simp: paintZone_def)
    with sk False f1 show ?thesis by auto
  qed
qed

lemma entriesIn_numbered_standalone:
  "entriesIn n (n + int (length polys)) (numbered (standaloneParcel k req) n polys)"
  using numbered_props [of "standaloneParcel k req" n polys]
  by (simp add: entriesIn_def standaloneParcel_fields)

lemma vertices_numbered_standalone:
  "map (vertices \<circ> snd) (numbered (standaloneParcel k req) n polys) = polys"
  using numbered_props [of "standaloneParcel k req" n polys]
  by (simp add: standaloneParcel_fields)

lemma blockId_numbered_standalone:
  "\<forall>kp \<in> set (numbered (standaloneParcel k req) n polys). blockId (snd kp) = k"
  by (induction polys arbitrary: n) (simp_all add: standaloneParcel_fields)

lemma paintStandalone_eq:
  assumes keys: "\<forall>kp \<in> set (parcels m). fst kp < nextParcelId m"
    and bk: "nextBlockId m \<notin> fst ` set (blocks m)"
    and sk: "subdivideWithSkeleton (polygon req) (req_zoneType req) (req_zoneDensity req) 0 = Inr polys"
  shows "paintStandalone req m affected =
     Inr (affected @ map fst (numbered (standaloneParcel (nextBlockId m) req) (nextParcelId m) (goodPolys polys)),
          m\<lparr>blocks := blocks m @
                [(nextBlockId m,
                  \<lparr>block_id = nextBlockId m, block_vertices = polygon req, holes = [],
                   block_parcels = map fst (numbered (standaloneParcel (nextBlockId m) req)
                                              (nextParcelId m) (goodPolys polys)),
                   block_area = polygonArea (polygon req),
                   perimeter = polygonPerimeter (polygon req), roadEdges = []\<rparr>)],
            nextBlockId := nextBlockId m + 1,
            parcels := parcels m @
                numbered (standaloneParcel (nextBlockId m) req) (nextParcelId m) (goodPolys polys),
            nextParcelId := nextParcelId m + int (length (goodPolys polys))\<rparr>)"
proof -
  let ?acc = "\<lparr>acc_parcels = parcels m, acc_nextId = nextParcelId m,
               acc_blockParcels = [], acc_affected = affected\<rparr>"
  let ?mk = "standaloneParcel (nextBlockId m) req"
  have k': "\<forall>kp \<in> set (acc_parcels ?acc). fst kp < acc_nextId ?acc" using keys by simp
  have f: "foldl (createParcel ?mk) ?acc polys =
     \<lparr>acc_parcels = acc_parcels ?acc @ numbered ?mk (acc_nextId ?acc) (goodPolys polys),
      acc_nextId = acc_nextId ?acc + int (length (goodPolys polys)),
      acc_blockParcels = acc_blockParcels ?acc @ map fst (numbered ?mk (acc_nextId ?acc) (goodPolys polys)),
      acc_affected = acc_affected ?acc @ map fst (numbered ?mk (acc_nextId ?acc) (goodPolys polys))\<rparr>"
    by (rule fold_createParcel [OF k']) (rule standaloneParcel_fields)
  show ?thesis
    using sk by (simp add: paintStandalone_def Let_def f mapSet_fresh [OF bk])
qed

lemma virtual_skeleton:
  assumes "block_vertices vb = polygon req" "roadEdges vb = []"
  shows "skeletonOf req net vb =
     subdivideWithSkeleton (polygon req) (req_zoneType req) (req_zoneDensity req) 0"
proof -
  have "foldl (\<lambda>acc i. acc) (0::nat, None::real option) xs = (0, None)" for xs :: "nat list"
    by (induction xs) simp_all
  then show ?thesis
    using assms by (simp add: skeletonOf_def bestFrontageIndex_def Let_def)
qed

lemma paintBlocks_whole:
  assumes meth: "subdivisionMethod req \<noteq> Some voronoi"
    and wf: "wellFormed m"
    and run: "paintBlocks req net (False, m, []) (blocks m) = Inr (f1, m1, aff1)"
  shows "\<exists>olds' news' post.
       parcels m1 = olds' @ news' \<and> set olds' \<subseteq> set (parcels m) \<and>
       entriesIn (nextParcelId m) (nextParcelId m1) news' \<and>
       nextParcelId m \<le> nextParcelId m1 \<and>
       aff1 = map fst news' \<and>
       map (vertices \<circ> snd) news' = blockPolys req net (blocks m) \<and>
       blocks m1 = post \<and> sameShape post (blocks m) \<and>
       (\<forall>kb \<in> set post. \<forall>i \<in> set (block_parcels (snd kb)). i < nextParcelId m1) \<and>
       nextBlockId m1 = nextBlockId m"
proof -
  have a: "blocks m = [] @ blocks m" by simp
  have b: "distinct (map fst ([] @ blocks m))" using wf by (simp add: wellFormed_def)
  have c: "parcels m = parcels m @ []" by simp
  have d: "\<forall>kp \<in> set (parcels m). fst kp < nextParcelId m" using wf by (simp add: wellFormed_def)
  have e: "entriesIn (nextParcelId m) (nextParcelId m) []" by (simp add: entriesIn_def)
  have g: "\<forall>kb \<in> set (blocks m). \<forall>i \<in> set (block_parcels (snd kb)). i < nextParcelId m"
    using wf by (simp add: wellFormed_def)
  from paintBlocks_skeleton [OF meth run a b c d e order_refl g]
  show ?thesis by simp blast
qed

lemma paintZone_skeleton_facts:
  assumes meth: "subdivisionMethod req \<noteq> Some voronoi"
    and wf: "wellFormed m"
    and run: "paintZone m req net = Inr (ids, m')"
  shows "map vertices (affectedParcels m' ids) = paintedPolys m req net"
    and "map area (affectedParcels m' ids) = map polygonArea (paintedPolys m req net)"
    and "wellFormed m'"
    and "paintedPolys m' req net = paintedPolys m req net"
    and "\<exists>r. paintZone m' req net = Inr r"
proof -
  let ?S = "subdivideWithSkeleton (polygon req) (req_zoneType req) (req_zoneDensity req) 0"
  let ?hit = "\<exists>kb \<in> set (blocks m). blockHit req (snd kb)"
  from run obtain f1 m1 aff1 where
    pb: "paintBlocks req net (False, m, []) (blocks m) = Inr (f1, m1, aff1)"
    by (auto simp: paintZone_def split: sum.splits)
  from paintBlocks_found [OF pb] have f1: "f1 = ?hit" by simp
  from paintZone_returns_iff [OF meth, of m net] run
  have ret1: "\<forall>kb \<in> set (blocks m). blockHit req (snd kb) \<longrightarrow> (\<exists>polys. skeletonOf req net (snd kb) = Inr polys)"
    and ret2: "(\<forall>kb \<in> set (blocks m). \<not> blockHit req (snd kb)) \<and> 3 \<le> length (polygon req) \<longrightarrow>
        (\<exists>polys. ?S = Inr polys)"
    by simp_all
  have oldp: "\<forall>kp \<in> set (parcels m). parcel_id (snd kp) = fst kp \<and> fst kp < nextParcelId m"
    using wf by (simp add: wellFormed_def)
  have "map vertices (affectedParcels m' ids) = paintedPolys m req net \<and>
        map area (affectedParcels m' ids) = map polygonArea (paintedPolys m req net) \<and>
        wellFormed m' \<and> paintedPolys m' req net = paintedPolys m req net \<and>
        (\<exists>r. paintZone m' req net = Inr r)"
  proof (cases "\<not> f1 \<and> 3 \<le> length (polygon req)")
    case False
    with run pb have eq: "ids = aff1" "m' = m1" by (auto simp: paintZone_def)
    from paintBlocks_whole [OF meth wf pb]
    obtain olds' news' where r:
      "parcels m1 = olds' @ news'" "set olds' \<subseteq> set (parcels m)"
      "entriesIn (nextParcelId m) (nextParcelId m1) news'"
      "nextParcelId m \<le> nextParcelId m1"
      "aff1 = map fst news'"
      "map (vertices \<circ> snd) news' = blockPolys req net (blocks m)"
      "sameShape (blocks m1) (blocks m)"
      "\<forall>kb \<in> set (blocks m1). \<forall>i \<in> set (block_parcels (snd kb)). i < nextParcelId m1"
      "nextBlockId m1 = nextBlockId m"
      by blast
    have olds': "\<forall>kp \<in> set olds'. parcel_id (snd kp) = fst kp \<and> fst kp < nextParcelId m"
      using r(2) oldp by blast
    have aff: "affectedParcels m1 aff1 = map snd news'"
      unfolding r(5) by (rule affected_new [OF r(1) olds' r(3)])
    have pp: "paintedPolys m req net = blockPolys req net (blocks m)"
      using False f1 by (auto simp: paintedPolys_def)
    have v: "map vertices (affectedParcels m1 aff1) = paintedPolys m req net"
      using r(6) by (simp add: aff pp)
    have ar: "map area (affectedParcels m1 aff1) = map polygonArea (paintedPolys m req net)"
      using entries_area [OF r(3)] r(6) by (simp add: aff pp)
    have wf1: "wellFormed m1"
    proof -
      have "map fst (blocks m1) = map fst (blocks m)" using r(7) by (simp add: sameShape_def)
      then have d: "distinct (map fst (blocks m1))"
        and k: "\<forall>kb \<in> set (blocks m1). fst kb < nextBlockId m1"
        using wf r(9) by (simp_all add: wellFormed_def) (metis (no_types, lifting) image_iff image_set)
      have p: "\<forall>kp \<in> set (parcels m1). parcel_id (snd kp) = fst kp \<and> fst kp < nextParcelId m1"
        using olds' r(1,3,4) by (fastforce simp: entriesIn_def)
      from d k p r(8) show ?thesis by (simp add: wellFormed_def)
    qed
    note sc = sameShape_cong(1) [OF r(7), of req net] sameShape_cong(2) [OF r(7), of req]
      sameShape_cong(3) [OF r(7), of req net]
    from sc(2) have nh: "(\<forall>kb \<in> set (blocks m1). \<not> blockHit req (snd kb)) =
        (\<forall>kb \<in> set (blocks m). \<not> blockHit req (snd kb))" by blast
    have pp1: "paintedPolys m1 req net = paintedPolys m req net"
      by (simp add: paintedPolys_def sc(1) nh)
    have ret: "\<exists>r. paintZone m1 req net = Inr r"
      unfolding paintZone_returns_iff [OF meth]
      using nh sc(3) ret1 ret2 by simp
    from v ar wf1 pp1 ret eq show ?thesis by simp
  next
    case True
    with f1 have nohit: "\<forall>kb \<in> set (blocks m). \<not> blockHit req (snd kb)" by simp
    from paintBlocks_no_hit [OF nohit, of net "(False, m, [])"] pb
    have same: "m1 = m" "aff1 = []" by simp_all
    from run pb True same have st: "paintStandalone req m [] = Inr (ids, m')"
      by (simp add: paintZone_def)
    from ret2 nohit True obtain polys where S: "?S = Inr polys" by blast
    have keys: "\<forall>kp \<in> set (parcels m). fst kp < nextParcelId m" using oldp by simp
    have bk: "nextBlockId m \<notin> fst ` set (blocks m)" using wf by (fastforce simp: wellFormed_def)
    define new where "new = numbered (standaloneParcel (nextBlockId m) req) (nextParcelId m) (goodPolys polys)"
    define vb where "vb = \<lparr>block_id = nextBlockId m, block_vertices = polygon req, holes = [],
                   block_parcels = map fst new,
                   block_area = polygonArea (polygon req),
                   perimeter = polygonPerimeter (polygon req), roadEdges = []\<rparr>"
    from paintStandalone_eq [OF keys bk S, of "[]"] st
    have ids: "ids = map fst new"
      and m': "m' = m\<lparr>blocks := blocks m @ [(nextBlockId m, vb)],
            nextBlockId := nextBlockId m + 1,
            parcels := parcels m @ new,
            nextParcelId := nextParcelId m + int (length (goodPolys polys))\<rparr>"
      by (simp_all add: new_def vb_def)
    have en: "entriesIn (nextParcelId m) (nextParcelId m') new"
      unfolding new_def m' using entriesIn_numbered_standalone by simp
    have par: "parcels m' = parcels m @ new" by (simp add: m')
    have aff: "affectedParcels m' ids = map snd new"
      unfolding ids by (rule affected_new [OF par oldp en])
    have vn: "map (vertices \<circ> snd) new = goodPolys polys"
      unfolding new_def by (rule vertices_numbered_standalone)
    have pp: "paintedPolys m req net = goodPolys polys"
      using nohit True S by (simp add: paintedPolys_def blockPolys_no_hit polysOrNone_def)
    have v: "map vertices (affectedParcels m' ids) = paintedPolys m req net"
      using vn by (simp add: aff pp)
    have ar: "map area (affectedParcels m' ids) = map polygonArea (paintedPolys m req net)"
      using entries_area [OF en] vn by (simp add: aff pp)
    have wf': "wellFormed m'"
    proof -
      have d: "distinct (map fst (blocks m'))" using wf bk by (simp add: m' wellFormed_def)
      have k: "\<forall>kb \<in> set (blocks m'). fst kb < nextBlockId m'"
        using wf by (fastforce simp: m' wellFormed_def)
      have le: "nextParcelId m \<le> nextParcelId m'" by (simp add: m')
      have bp: "\<forall>kb \<in> set (blocks m'). \<forall>i \<in> set (block_parcels (snd kb)). i < nextParcelId m'"
      proof (intro ballI)
        fix kb i assume kb: "kb \<in> set (blocks m')" and i: "i \<in> set (block_parcels (snd kb))"
        from kb have "kb \<in> set (blocks m) \<or> kb = (nextBlockId m, vb)" by (auto simp: m')
        then show "i < nextParcelId m'"
        proof
          assume "kb \<in> set (blocks m)"
          with wf i have "i < nextParcelId m" by (auto simp: wellFormed_def)
          with le show ?thesis by simp
        next
          assume "kb = (nextBlockId m, vb)"
          with i have "i \<in> fst ` set new" by (simp add: vb_def)
          with en show ?thesis by (auto simp: entriesIn_def)
        qed
      qed
      have p: "\<forall>kp \<in> set (parcels m'). parcel_id (snd kp) = fst kp \<and> fst kp < nextParcelId m'"
        using oldp en le par by (fastforce simp: entriesIn_def)
      from d k bp p show ?thesis by (simp add: wellFormed_def)
    qed
    have vsk: "skeletonOf req net vb = ?S"
      by (rule virtual_skeleton) (simp_all add: vb_def)
    have bl: "blocks m' = blocks m @ [(nextBlockId m, vb)]" by (simp add: m')
    have hit': "(\<forall>kb \<in> set (blocks m'). \<not> blockHit req (snd kb)) = (\<not> blockHit req vb)"
      using nohit by (auto simp: bl)
    have bp': "blockPolys req net (blocks m') = (if blockHit req vb then goodPolys polys else [])"
      unfolding bl blockPolys_append blockPolys_no_hit [OF nohit]
      by (simp add: blockPolys_def vsk S polysOrNone_def)
    have pp': "paintedPolys m' req net = paintedPolys m req net"
      unfolding pp using True S
      by (simp add: paintedPolys_def [of m'] hit' bp' polysOrNone_def)
    have ret: "\<exists>r. paintZone m' req net = Inr r"
      unfolding paintZone_returns_iff [OF meth]
      using nohit S vsk by (auto simp: bl)
    from v ar wf' pp' ret show ?thesis by simp
  qed
  then show "map vertices (affectedParcels m' ids) = paintedPolys m req net"
    and "map area (affectedParcels m' ids) = map polygonArea (paintedPolys m req net)"
    and "wellFormed m'"
    and "paintedPolys m' req net = paintedPolys m req net"
    and "\<exists>r. paintZone m' req net = Inr r"
    by blast+
qed

lemma paintZone_standalone:
  assumes wf: "wellFormed m"
    and nohit: "\<forall>kb \<in> set (blocks m). \<not> blockHit req (snd kb)"
    and len: "3 \<le> length (polygon req)"
    and S: "subdivideWithSkeleton (polygon req) (req_zoneType req) (req_zoneDensity req) 0 = Inr polys"
  shows "paintZone m req net =
     Inr (map fst (numbered (standaloneParcel (nextBlockId m) req) (nextParcelId m) (goodPolys polys)),
          m\<lparr>blocks := blocks m @
                [(nextBlockId m,
                  \<lparr>block_id = nextBlockId m, block_vertices = polygon req, holes = [],
                   block_parcels = map fst (numbered (standaloneParcel (nextBlockId m) req)
                                              (nextParcelId m) (goodPolys polys)),
                   block_area = polygonArea (polygon req),
                   perimeter = polygonPerimeter (polygon req), roadEdges = []\<rparr>)],
            nextBlockId := nextBlockId m + 1,
            parcels := parcels m @
                numbered (standaloneParcel (nextBlockId m) req) (nextParcelId m) (goodPolys polys),
            nextParcelId := nextParcelId m + int (length (goodPolys polys))\<rparr>)"
    and "affectedParcels
           (m\<lparr>blocks := bs', nextBlockId := nb',
              parcels := parcels m @
                numbered (standaloneParcel (nextBlockId m) req) (nextParcelId m) (goodPolys polys),
              nextParcelId := np'\<rparr>)
           (map fst (numbered (standaloneParcel (nextBlockId m) req) (nextParcelId m) (goodPolys polys))) =
         map snd (numbered (standaloneParcel (nextBlockId m) req) (nextParcelId m) (goodPolys polys))"
proof -
  have keys: "\<forall>kp \<in> set (parcels m). fst kp < nextParcelId m" using wf by (simp add: wellFormed_def)
  have oldp: "\<forall>kp \<in> set (parcels m). parcel_id (snd kp) = fst kp \<and> fst kp < nextParcelId m"
    using wf by (simp add: wellFormed_def)
  have bk: "nextBlockId m \<notin> fst ` set (blocks m)" using wf by (fastforce simp: wellFormed_def)
  have "paintZone m req net = paintStandalone req m []"
    using len by (simp add: paintZone_def paintBlocks_no_hit [OF nohit])
  then show "paintZone m req net =
     Inr (map fst (numbered (standaloneParcel (nextBlockId m) req) (nextParcelId m) (goodPolys polys)),
          m\<lparr>blocks := blocks m @
                [(nextBlockId m,
                  \<lparr>block_id = nextBlockId m, block_vertices = polygon req, holes = [],
                   block_parcels = map fst (numbered (standaloneParcel (nextBlockId m) req)
                                              (nextParcelId m) (goodPolys polys)),
                   block_area = polygonArea (polygon req),
                   perimeter = polygonPerimeter (polygon req), roadEdges = []\<rparr>)],
            nextBlockId := nextBlockId m + 1,
            parcels := parcels m @
                numbered (standaloneParcel (nextBlockId m) req) (nextParcelId m) (goodPolys polys),
            nextParcelId := nextParcelId m + int (length (goodPolys polys))\<rparr>)"
    using paintStandalone_eq [OF keys bk S, of "[]"] by simp
  show "affectedParcels
           (m\<lparr>blocks := bs', nextBlockId := nb',
              parcels := parcels m @
                numbered (standaloneParcel (nextBlockId m) req) (nextParcelId m) (goodPolys polys),
              nextParcelId := np'\<rparr>)
           (map fst (numbered (standaloneParcel (nextBlockId m) req) (nextParcelId m) (goodPolys polys))) =
         map snd (numbered (standaloneParcel (nextBlockId m) req) (nextParcelId m) (goodPolys polys))"
    by (rule affected_new [OF _ oldp entriesIn_numbered_standalone]) simp
qed

lemma subdivideWithSkeleton_returns:
  assumes "zt \<noteq> none" "0 < length block"
  shows "\<exists>polys. subdivideWithSkeleton block zt zd 0 = Inr polys"
  using assms
  by (cases zt; cases zd) (simp_all add: subdivideWithSkeleton_def Let_def)

lemma goodPolys_props: "\<forall>vs \<in> set (goodPolys polys). 3 \<le> length vs \<and> 50 \<le> polygonArea vs"
  by (auto simp: goodPolys_def)

lemma numbered_standalone_elems:
  "\<forall>p \<in> set (map snd (numbered (standaloneParcel k req) n polys)).
     blockId p = k \<and> vertices p \<in> set polys \<and> area p = polygonArea (vertices p)"
  by (induction polys arbitrary: n) (auto simp: standaloneParcel_fields)

lemma frontageStep_index:
  "fst acc < n \<Longrightarrow> i < n \<Longrightarrow> fst (frontageStep net midpoint i acc e) < n"
  by (simp add: frontageStep_def Let_def split: option.splits)

lemma frontageSteps_index:
  "fst acc < n \<Longrightarrow> i < n \<Longrightarrow> fst (foldl (frontageStep net midpoint i) acc es) < n"
  by (induction es arbitrary: acc) (simp_all add: frontageStep_index)

lemma frontage_fold_index:
  "fst acc < n \<Longrightarrow> \<forall>i \<in> set is. i < n \<Longrightarrow>
   fst (foldl (\<lambda>acc i. foldl (frontageStep net (mid i) i) acc es) acc is) < n"
  by (induction "is" arbitrary: acc) (simp_all add: frontageSteps_index)

lemma bestFrontageIndex_less:
  "block_vertices b \<noteq> [] \<Longrightarrow> bestFrontageIndex net b < length (block_vertices b)"
  unfolding bestFrontageIndex_def Let_def
  by (rule frontage_fold_index) simp_all

lemma polygonsIntersect_nonempty: "polygonsIntersect vs ws \<Longrightarrow> vs \<noteq> []"
  by (auto simp: polygonsIntersect_def pointInPolygon_def)

lemma subdivideWithSkeleton_returns_at:
  assumes "zt \<noteq> none" "k < length block"
  shows "\<exists>polys. subdivideWithSkeleton block zt zd k = Inr polys"
  using assms
  by (cases zt; cases zd) (simp_all add: subdivideWithSkeleton_def Let_def)

lemma paintZone_skeleton_returns:
  assumes meth: "subdivisionMethod req \<noteq> Some voronoi"
    and zt: "req_zoneType req \<noteq> none"
  shows "\<exists>ids m'. paintZone m req net = Inr (ids, m')"
proof -
  have a: "\<forall>kb \<in> set (blocks m). blockHit req (snd kb) \<longrightarrow>
             (\<exists>polys. skeletonOf req net (snd kb) = Inr polys)"
  proof (intro ballI impI)
    fix kb assume "kb \<in> set (blocks m)" and hit: "blockHit req (snd kb)"
    from hit have "block_vertices (snd kb) \<noteq> []"
      unfolding blockHit_def by (rule polygonsIntersect_nonempty)
    from bestFrontageIndex_less [OF this, of net]
    show "\<exists>polys. skeletonOf req net (snd kb) = Inr polys"
      unfolding skeletonOf_def by (rule subdivideWithSkeleton_returns_at [OF zt])
  qed
  have b: "(\<forall>kb \<in> set (blocks m). \<not> blockHit req (snd kb)) \<and> 3 \<le> length (polygon req) \<longrightarrow>
        (\<exists>polys. subdivideWithSkeleton (polygon req) (req_zoneType req) (req_zoneDensity req) 0 = Inr polys)"
  proof
    assume "(\<forall>kb \<in> set (blocks m). \<not> blockHit req (snd kb)) \<and> 3 \<le> length (polygon req)"
    then have "0 < length (polygon req)" by linarith
    then show "\<exists>polys. subdivideWithSkeleton (polygon req) (req_zoneType req) (req_zoneDensity req) 0 = Inr polys"
      by (rule subdivideWithSkeleton_returns_at [OF zt])
  qed
  from a b paintZone_returns_iff [OF meth, of m net] show ?thesis by auto
qed

lemma paintBlock_voronoi:
  assumes meth: "subdivisionMethod req = Some voronoi"
    and v: "subdivideWithVoronoi (cbm_rng m) (block_vertices b) (req_zoneType req) (req_zoneDensity req)
              = (Inr polys, g')"
    and keys: "\<forall>kp \<in> set (parcels m). fst kp < nextParcelId m"
  shows "paintBlock req net (m, affected) (k, b) =
     Inr (m\<lparr>blocks := mapSet k (b\<lparr>block_parcels :=
                           map fst (numbered (blockParcel b k req) (nextParcelId m) (goodPolys polys))\<rparr>)
                        (blocks m),
            parcels := filter (\<lambda>kv. fst kv \<notin> set (block_parcels b)) (parcels m) @
                       numbered (blockParcel b k req) (nextParcelId m) (goodPolys polys),
            nextParcelId := nextParcelId m + int (length (goodPolys polys)),
            cbm_rng := g'\<rparr>,
          affected @ map fst (numbered (blockParcel b k req) (nextParcelId m) (goodPolys polys)))"
proof -
  let ?acc = "\<lparr>acc_parcels = filter (\<lambda>kv. fst kv \<notin> set (block_parcels b)) (parcels m),
               acc_nextId = nextParcelId m, acc_blockParcels = [], acc_affected = affected\<rparr>"
  have k': "\<forall>kp \<in> set (acc_parcels ?acc). fst kp < acc_nextId ?acc" using keys by simp
  have f: "foldl (createParcel (blockParcel b k req)) ?acc polys =
     \<lparr>acc_parcels = acc_parcels ?acc @ numbered (blockParcel b k req) (acc_nextId ?acc) (goodPolys polys),
      acc_nextId = acc_nextId ?acc + int (length (goodPolys polys)),
      acc_blockParcels = acc_blockParcels ?acc @ map fst (numbered (blockParcel b k req) (acc_nextId ?acc) (goodPolys polys)),
      acc_affected = acc_affected ?acc @ map fst (numbered (blockParcel b k req) (acc_nextId ?acc) (goodPolys polys))\<rparr>"
    by (rule fold_createParcel [OF k']) (rule blockParcel_fields)
  show ?thesis
    using v meth by (simp add: paintBlock_def Let_def clear_parcels f)
qed

lemma wellFormed_new: "wellFormed (newCityBlockManager g)"
  by (simp add: wellFormed_def newCityBlockManager_def)


subsection \<open>Helper lemmas: the example lots\<close>

lemma upt4: "[0..<4] = [0, 1, 2, 3]"
  by (simp add: upt_rec)

lemma upt2: "[0..<2] = [0, 1]"
  by (simp add: upt_rec)

lemma upt1: "[0..<1] = [0]"
  by (simp add: upt_rec)

lemma clip_e0:
  "clipEdge [mkVec2 0 0, mkVec2 10 0, mkVec2 10 45, mkVec2 0 45] (mkVec2 0 0) (mkVec2 10 0) =
     [mkVec2 0 0, mkVec2 10 0, mkVec2 10 45, mkVec2 0 45]"
  by (simp add: clipEdge_def upt4 isLeftOfLine_def mkVec2_def)

lemma clip_e1:
  "clipEdge [mkVec2 0 0, mkVec2 10 0, mkVec2 10 45, mkVec2 0 45] (mkVec2 10 0) (mkVec2 10 10) =
     [mkVec2 0 0, mkVec2 10 0, mkVec2 10 45, mkVec2 0 45]"
  by (simp add: clipEdge_def upt4 isLeftOfLine_def mkVec2_def)

lemma clip_e2:
  "clipEdge [mkVec2 0 0, mkVec2 10 0, mkVec2 10 45, mkVec2 0 45] (mkVec2 10 10) (mkVec2 0 10) =
     squareStrip"
  by (simp add: clipEdge_def upt4 isLeftOfLine_def mkVec2_def squareStrip_def
        lineIntersection_def lineDenom_def lineParam_def lineParamU_def)

lemma clip_e3:
  "clipEdge squareStrip (mkVec2 0 10) (mkVec2 0 0) = squareStrip"
  by (simp add: clipEdge_def upt4 isLeftOfLine_def mkVec2_def squareStrip_def)

lemma squareStrip_nonempty: "squareStrip \<noteq> []"
  by (simp add: squareStrip_def)

lemma clip_square:
  "clipToPolygon [mkVec2 0 0, mkVec2 10 0, mkVec2 10 45, mkVec2 0 45] paintSquare = squareStrip"
  by (simp add: clipToPolygon_def paintSquare_def upt4 clip_e0 clip_e1 clip_e2 clip_e3
        squareStrip_nonempty)

lemma area_squareStrip: "polygonArea squareStrip = 100"
  by (simp add: polygonArea_def squareStrip_def upt4 mkVec2_def)

lemma area_paintSquare: "polygonArea paintSquare = 100"
  by (simp add: polygonArea_def paintSquare_def upt4 mkVec2_def)

lemma edgeLength_horizontal: "edgeLength \<lparr>vx = a, vy = c\<rparr> \<lparr>vx = b, vy = c\<rparr> = \<bar>b - a\<bar>"
  by (simp add: edgeLength_def)

lemma round_small: "round (4 / 9 :: real) = 0"
  by (simp add: round_def)

lemma skeleton_square:
  "subdivideWithSkeleton paintSquare residential low 0 = Inr [squareStrip]"
proof -
  have s: "stripParcels paintSquare (mkVec2 0 0) (mkVec2 10 0) \<lparr>vx = 0, vy = 1\<rparr> 45 1 False 0 = [squareStrip]"
    using clip_square
    by (simp add: stripParcels_def Let_def mkVec2_def keepParcel_def area_squareStrip)
       (simp add: squareStrip_def)
  have "subdivideWithSkeleton paintSquare residential low 0 =
     Inr (concat (map (stripParcels paintSquare (mkVec2 0 0) (mkVec2 10 0) \<lparr>vx = 0, vy = 1\<rparr> 45 1 False) [0..<1]))"
    by (simp add: subdivideWithSkeleton_def Let_def paintSquare_def mkVec2_def
          edgeLength_horizontal round_small)
  then show ?thesis by (simp add: upt1 s)
qed

lemma ceil_sqrt2: "\<lceil>sqrt 2\<rceil> = 2"
proof -
  have "1 < sqrt 2" by simp
  moreover have "sqrt 2 \<le> 2" by (rule real_le_lsqrt) simp_all
  ultimately show ?thesis by (simp add: ceiling_eq_iff)
qed

lemma bounds_paintSquare: "getPolygonBounds paintSquare = (0, 0, 10, 10)"
  by (simp add: getPolygonBounds_def paintSquare_def mkVec2_def)

lemma cells2:
  "concat (map (\<lambda>row. map (\<lambda>col. (row, col)) [0..<2]) [0..<2]) = [(0, 0), (0, 1), (1, 0), (1, 1 :: nat)]"
  by (simp add: upt2)

lemma gridSeedStep_full:
  "\<not> int (length seeds) < n \<Longrightarrow> gridSeedStep block n minX minY cw ch (seeds, g) cell = (seeds, g)"
  by (cases cell) (simp add: gridSeedStep_def)

lemma fillSeeds_full:
  "\<not> int (length seeds) < n \<Longrightarrow> fillSeeds k block n minX minY maxX maxY d (seeds, g) = (seeds, g)"
  by (cases k) simp_all

lemma rng_A_0_a: "rng_next 1 = (2693262067 / 4294967296, 1831565814)"
  by (simp add: rng_next_def Let_def)

lemma rng_A_0_b: "rng_next 1831565814 = (11749833 / 4294967296, 3663131627)"
  by (simp add: rng_next_def Let_def)

lemma seed_A_0_inside: "pointInPolygon \<lparr>vx = 23112171737 / 8589934592, vy = 15067635035 / 8589934592\<rparr> paintSquare"
  by (simp add: pointInPolygon_def paintSquare_def upt4 mkVec2_def Let_def)

lemma grid_A_0:
  "gridSeedStep paintSquare 2 0 0 5 5 ([], 1) (0, 0) =
     ([\<lparr>vx = 23112171737 / 8589934592, vy = 15067635035 / 8589934592\<rparr>], 3663131627)"
  by (simp add: gridSeedStep_def Let_def rng_A_0_a rng_A_0_b seed_A_0_inside)

lemma rng_A_1_a: "rng_next 3663131627 = (2265367787 / 4294967296, 5494697440)"
  by (simp add: rng_next_def Let_def)

lemma rng_A_1_b: "rng_next 5494697440 = (4213581821 / 4294967296, 7326263253)"
  by (simp add: rng_next_def Let_def)

lemma seed_A_1_inside: "pointInPolygon \<lparr>vx = 64778161857 / 8589934592, vy = 27673130999 / 8589934592\<rparr> paintSquare"
  by (simp add: pointInPolygon_def paintSquare_def upt4 mkVec2_def Let_def)

lemma grid_A_1:
  "gridSeedStep paintSquare 2 0 0 5 5 ([\<lparr>vx = 23112171737 / 8589934592, vy = 15067635035 / 8589934592\<rparr>], 3663131627) (0, (Suc 0)) =
     ([\<lparr>vx = 23112171737 / 8589934592, vy = 15067635035 / 8589934592\<rparr>, \<lparr>vx = 64778161857 / 8589934592, vy = 27673130999 / 8589934592\<rparr>], 7326263253)"
  by (simp add: gridSeedStep_def Let_def rng_A_1_a rng_A_1_b seed_A_1_inside)

lemma cell_A_0:
  "computeVoronoiCell 0 [\<lparr>vx = 23112171737 / 8589934592, vy = 15067635035 / 8589934592\<rparr>, \<lparr>vx = 64778161857 / 8589934592, vy = 27673130999 / 8589934592\<rparr>] paintSquare =
     [\<lparr>vx = 10, vy = 354817850813711837903 / 89477032460429557760\<rparr>, \<lparr>vx = 10, vy = 10\<rparr>, \<lparr>vx = 0, vy = 10\<rparr>, \<lparr>vx = 0, vy = 84116886237511871183 / 89477032460429557760\<rparr>]"
  by (simp add: computeVoronoiCell_def clipByHalfPlane_def paintSquare_def upt4 mkVec2_def Let_def)

lemma area_A_0:
  "polygonArea [\<lparr>vx = 10, vy = 354817850813711837903 / 89477032460429557760\<rparr>, \<lparr>vx = 10, vy = 10\<rparr>, \<lparr>vx = 0, vy = 10\<rparr>, \<lparr>vx = 0, vy = 84116886237511871183 / 89477032460429557760\<rparr>] =
     675302956078683723057 / 8947703246042955776"
  by (simp add: polygonArea_def upt4)

lemma cell_A_1:
  "computeVoronoiCell (Suc 0) [\<lparr>vx = 23112171737 / 8589934592, vy = 15067635035 / 8589934592\<rparr>, \<lparr>vx = 64778161857 / 8589934592, vy = 27673130999 / 8589934592\<rparr>] paintSquare =
     [\<lparr>vx = 0, vy = 0\<rparr>, \<lparr>vx = 10, vy = 0\<rparr>, \<lparr>vx = 10, vy = 354817850813711837903 / 89477032460429557760\<rparr>, \<lparr>vx = 0, vy = 84116886237511871183 / 89477032460429557760\<rparr>]"
  by (simp add: computeVoronoiCell_def clipByHalfPlane_def paintSquare_def upt4 mkVec2_def Let_def)

lemma area_A_1:
  "polygonArea [\<lparr>vx = 0, vy = 0\<rparr>, \<lparr>vx = 10, vy = 0\<rparr>, \<lparr>vx = 10, vy = 354817850813711837903 / 89477032460429557760\<rparr>, \<lparr>vx = 0, vy = 84116886237511871183 / 89477032460429557760\<rparr>] =
     219467368525611854543 / 8947703246042955776"
  by (simp add: polygonArea_def upt4)

lemma voronoi_A:
  "subdivideWithVoronoi 1 paintSquare residential low = (Inr [squareCellA], 7326263253)"
  by (simp add: subdivideWithVoronoi_def Let_def area_paintSquare bounds_paintSquare ceil_sqrt2
        cells2 grid_A_0 grid_A_1 gridSeedStep_full fillSeeds_full cell_A_0 cell_A_1
        area_A_0 area_A_1 keepParcel_def upt2 squareCellA_def)

lemma rng_B_0_a: "rng_next 7326263253 = (4159151403 / 4294967296, 9157829066)"
  by (simp add: rng_next_def Let_def)

lemma rng_B_0_b: "rng_next 9157829066 = (75458147 / 268435456, 10989394879)"
  by (simp add: rng_next_def Let_def)

lemma seed_B_0_inside: "pointInPolygon \<lparr>vx = 27509839745 / 8589934592, vy = 1165898537 / 536870912\<rparr> paintSquare"
  by (simp add: pointInPolygon_def paintSquare_def upt4 mkVec2_def Let_def)

lemma grid_B_0:
  "gridSeedStep paintSquare 2 0 0 5 5 ([], 7326263253) (0, 0) =
     ([\<lparr>vx = 27509839745 / 8589934592, vy = 1165898537 / 536870912\<rparr>], 10989394879)"
  by (simp add: gridSeedStep_def Let_def rng_B_0_a rng_B_0_b seed_B_0_inside)

lemma rng_B_1_a: "rng_next 10989394879 = (164507679 / 268435456, 12820960692)"
  by (simp add: rng_next_def Let_def)

lemma rng_B_1_b: "rng_next 12820960692 = (773892055 / 1073741824, 14652526505)"
  by (simp add: rng_next_def Let_def)

lemma seed_B_1_inside: "pointInPolygon \<lparr>vx = 4117401693 / 536870912, vy = 6079772549 / 2147483648\<rparr> paintSquare"
  by (simp add: pointInPolygon_def paintSquare_def upt4 mkVec2_def Let_def)

lemma grid_B_1:
  "gridSeedStep paintSquare 2 0 0 5 5 ([\<lparr>vx = 27509839745 / 8589934592, vy = 1165898537 / 536870912\<rparr>], 10989394879) (0, (Suc 0)) =
     ([\<lparr>vx = 27509839745 / 8589934592, vy = 1165898537 / 536870912\<rparr>, \<lparr>vx = 4117401693 / 536870912, vy = 6079772549 / 2147483648\<rparr>], 14652526505)"
  by (simp add: gridSeedStep_def Let_def rng_B_1_a rng_B_1_b seed_B_1_inside)

lemma cell_B_0:
  "computeVoronoiCell 0 [\<lparr>vx = 27509839745 / 8589934592, vy = 1165898537 / 536870912\<rparr>, \<lparr>vx = 4117401693 / 536870912, vy = 6079772549 / 2147483648\<rparr>] paintSquare =
     [\<lparr>vx = 10, vy = 261625476889932794939 / 82395913915952267264\<rparr>, \<lparr>vx = 10, vy = 10\<rparr>, \<lparr>vx = 0, vy = 10\<rparr>, \<lparr>vx = 0, vy = 139976678538001321019 / 82395913915952267264\<rparr>]"
  by (simp add: computeVoronoiCell_def clipByHalfPlane_def paintSquare_def upt4 mkVec2_def Let_def)

lemma area_B_0:
  "polygonArea [\<lparr>vx = 10, vy = 261625476889932794939 / 82395913915952267264\<rparr>, \<lparr>vx = 10, vy = 10\<rparr>, \<lparr>vx = 0, vy = 10\<rparr>, \<lparr>vx = 0, vy = 139976678538001321019 / 82395913915952267264\<rparr>] =
     3115790307227778073305 / 41197956957976133632"
  by (simp add: polygonArea_def upt4)

lemma cell_B_1:
  "computeVoronoiCell (Suc 0) [\<lparr>vx = 27509839745 / 8589934592, vy = 1165898537 / 536870912\<rparr>, \<lparr>vx = 4117401693 / 536870912, vy = 6079772549 / 2147483648\<rparr>] paintSquare =
     [\<lparr>vx = 0, vy = 0\<rparr>, \<lparr>vx = 10, vy = 0\<rparr>, \<lparr>vx = 10, vy = 261625476889932794939 / 82395913915952267264\<rparr>, \<lparr>vx = 0, vy = 139976678538001321019 / 82395913915952267264\<rparr>]"
  by (simp add: computeVoronoiCell_def clipByHalfPlane_def paintSquare_def upt4 mkVec2_def Let_def)

lemma area_B_1:
  "polygonArea [\<lparr>vx = 0, vy = 0\<rparr>, \<lparr>vx = 10, vy = 0\<rparr>, \<lparr>vx = 10, vy = 261625476889932794939 / 82395913915952267264\<rparr>, \<lparr>vx = 0, vy = 139976678538001321019 / 82395913915952267264\<rparr>] =
     1004005388569835289895 / 41197956957976133632"
  by (simp add: polygonArea_def upt4)

lemma voronoi_B:
  "subdivideWithVoronoi 7326263253 paintSquare residential low = (Inr [squareCellB], 14652526505)"
  by (simp add: subdivideWithVoronoi_def Let_def area_paintSquare bounds_paintSquare ceil_sqrt2
        cells2 grid_B_0 grid_B_1 gridSeedStep_full fillSeeds_full cell_B_0 cell_B_1
        area_B_0 area_B_1 keepParcel_def upt2 squareCellB_def)

lemma goodPolys_squareStrip: "goodPolys [squareStrip] = [squareStrip]"
  by (simp add: goodPolys_def area_squareStrip) (simp add: squareStrip_def)

lemma first_paint:
  "paintZone (newCityBlockManager (mulberry32 1)) (squareRequest meth) net =
     Inr ([0], squarePainted)"
proof -
  have nh: "\<forall>kb \<in> set (blocks (newCityBlockManager (mulberry32 1))). \<not> blockHit (squareRequest meth) (snd kb)"
    by (simp add: newCityBlockManager_def)
  have len: "3 \<le> length (polygon (squareRequest meth))"
    by (simp add: squareRequest_def paintSquare_def)
  have S: "subdivideWithSkeleton (polygon (squareRequest meth)) (req_zoneType (squareRequest meth))
             (req_zoneDensity (squareRequest meth)) 0 = Inr [squareStrip]"
    by (simp add: squareRequest_def skeleton_square)
  show ?thesis
    unfolding paintZone_standalone(1) [OF wellFormed_new nh len S]
    by (simp add: goodPolys_squareStrip newCityBlockManager_def squarePainted_def squareBlock_def
          squareRequest_def standaloneParcel_def)
qed

lemma reply_squarePainted: "map vertices (affectedParcels squarePainted [0]) = [squareStrip]"
  by (simp add: affectedParcels_def squarePainted_def standaloneParcel_fields)

lemma square_hit: "polygonsIntersect paintSquare paintSquare"
proof -
  have "lineIntersection (paintSquare ! 0) (paintSquare ! ((0 + 1) mod length paintSquare))
          (paintSquare ! 1) (paintSquare ! ((1 + 1) mod length paintSquare)) \<noteq> None"
    by (simp add: paintSquare_def mkVec2_def lineIntersection_def lineDenom_def lineParam_def
          lineParamU_def)
  moreover have "0 \<in> set [0..<length paintSquare]" "1 \<in> set [0..<length paintSquare]"
    by (simp_all add: paintSquare_def)
  ultimately show ?thesis unfolding polygonsIntersect_def by blast
qed

lemma squareBlock_simps:
  "(squareBlock ps)\<lparr>block_parcels := qs\<rparr> = squareBlock qs"
  "block_parcels (squareBlock ps) = ps"
  "block_vertices (squareBlock ps) = paintSquare"
  by (simp_all add: squareBlock_def)

lemma square_voronoi_paint:
  assumes v: "subdivideWithVoronoi g paintSquare residential low = (Inr [cell], g')"
    and good: "goodPolys [cell] = [cell]"
    and i: "i < n"
  shows "paintZone \<lparr>blocks = [(0, squareBlock [i])], parcels = [(i, p)],
                    nextBlockId = 1, nextParcelId = n, cbm_rng = g\<rparr>
           (squareRequest (Some voronoi)) net =
         Inr ([n],
              \<lparr>blocks = [(0, squareBlock [n])],
               parcels = [(n, blockParcel (squareBlock [i]) 0 (squareRequest (Some voronoi)) cell n)],
               nextBlockId = 1, nextParcelId = n + 1, cbm_rng = g'\<rparr>)"
proof -
  let ?m = "\<lparr>blocks = [(0, squareBlock [i])], parcels = [(i, p)],
             nextBlockId = 1, nextParcelId = n, cbm_rng = g\<rparr>"
  let ?req = "squareRequest (Some voronoi)"
  have meth: "subdivisionMethod ?req = Some voronoi" by (simp add: squareRequest_def)
  have v': "subdivideWithVoronoi (cbm_rng ?m) (block_vertices (squareBlock [i])) (req_zoneType ?req)
              (req_zoneDensity ?req) = (Inr [cell], g')"
    using v by (simp add: squareBlock_def squareRequest_def)
  have keys: "\<forall>kp \<in> set (parcels ?m). fst kp < nextParcelId ?m" using i by simp
  have hit: "polygonsIntersect paintSquare (polygon ?req)"
    using square_hit by (simp add: squareRequest_def)
  note pb = paintBlock_voronoi [OF meth v' keys, of net "[]" 0]
  show ?thesis
    using i by (simp add: paintZone_def hit pb good mapSet_def squareBlock_simps)
qed

lemma reply_voronoi:
  "map vertices (affectedParcels
     \<lparr>blocks = bs, parcels = [(n, blockParcel b k req cell n)],
      nextBlockId = nb, nextParcelId = np, cbm_rng = g\<rparr> [n]) = [cell]"
  by (simp add: affectedParcels_def blockParcel_fields)

lemma area_squareCellA: "polygonArea squareCellA = 675302956078683723057 / 8947703246042955776"
  unfolding squareCellA_def by (rule area_A_0)

lemma area_squareCellB: "polygonArea squareCellB = 3115790307227778073305 / 41197956957976133632"
  unfolding squareCellB_def by (rule area_B_0)

lemma goodPolys_squareCellA: "goodPolys [squareCellA] = [squareCellA]"
  by (simp add: goodPolys_def area_squareCellA) (simp add: squareCellA_def)

lemma goodPolys_squareCellB: "goodPolys [squareCellB] = [squareCellB]"
  by (simp add: goodPolys_def area_squareCellB) (simp add: squareCellB_def)

lemma second_paint:
  "paintZone squarePainted (squareRequest (Some voronoi)) net =
     Inr ([1],
          \<lparr>blocks = [(0, squareBlock [1])],
           parcels = [(1, blockParcel (squareBlock [0]) 0 (squareRequest (Some voronoi)) squareCellA 1)],
           nextBlockId = 1, nextParcelId = 2, cbm_rng = 7326263253\<rparr>)"
  using square_voronoi_paint [OF _ goodPolys_squareCellA, of 1 7326263253 0 1] voronoi_A
  by (simp add: squarePainted_def mulberry32_def)

lemma third_paint:
  "paintZone \<lparr>blocks = [(0, squareBlock [1])],
           parcels = [(1, blockParcel (squareBlock [0]) 0 (squareRequest (Some voronoi)) squareCellA 1)],
           nextBlockId = 1, nextParcelId = 2, cbm_rng = 7326263253\<rparr>
      (squareRequest (Some voronoi)) net =
     Inr ([2],
          \<lparr>blocks = [(0, squareBlock [2])],
           parcels = [(2, blockParcel (squareBlock [1]) 0 (squareRequest (Some voronoi)) squareCellB 2)],
           nextBlockId = 1, nextParcelId = 3, cbm_rng = 14652526505\<rparr>)"
  using square_voronoi_paint [OF _ goodPolys_squareCellB, of 7326263253 14652526505 1 2] voronoi_B
  by simp

lemma thin_e0:
  "clipEdge [mkVec2 0 0, mkVec2 1 0, mkVec2 1 45, mkVec2 0 45] (mkVec2 0 0) (mkVec2 1 0) =
     [mkVec2 0 0, mkVec2 1 0, mkVec2 1 45, mkVec2 0 45]"
  by (simp add: clipEdge_def upt4 isLeftOfLine_def mkVec2_def)

lemma thin_e1:
  "clipEdge [mkVec2 0 0, mkVec2 1 0, mkVec2 1 45, mkVec2 0 45] (mkVec2 1 0) (mkVec2 1 60) =
     [mkVec2 0 0, mkVec2 1 0, mkVec2 1 45, mkVec2 0 45]"
  by (simp add: clipEdge_def upt4 isLeftOfLine_def mkVec2_def)

lemma thin_e2:
  "clipEdge [mkVec2 0 0, mkVec2 1 0, mkVec2 1 45, mkVec2 0 45] (mkVec2 1 60) (mkVec2 0 60) =
     [mkVec2 0 0, mkVec2 1 0, mkVec2 1 45, mkVec2 0 45]"
  by (simp add: clipEdge_def upt4 isLeftOfLine_def mkVec2_def)

lemma thin_e3:
  "clipEdge [mkVec2 0 0, mkVec2 1 0, mkVec2 1 45, mkVec2 0 45] (mkVec2 0 60) (mkVec2 0 0) =
     [mkVec2 0 0, mkVec2 1 0, mkVec2 1 45, mkVec2 0 45]"
  by (simp add: clipEdge_def upt4 isLeftOfLine_def mkVec2_def)

lemma clip_thin:
  "clipToPolygon [mkVec2 0 0, mkVec2 1 0, mkVec2 1 45, mkVec2 0 45] thinLot =
     [mkVec2 0 0, mkVec2 1 0, mkVec2 1 45, mkVec2 0 45]"
  by (simp add: clipToPolygon_def thinLot_def upt4 thin_e0 thin_e1 thin_e2 thin_e3)

lemma area_thin_strip: "polygonArea [mkVec2 0 0, mkVec2 1 0, mkVec2 1 45, mkVec2 0 45] = 45"
  by (simp add: polygonArea_def upt4 mkVec2_def)

lemma area_thinLot: "polygonArea thinLot = 60"
  by (simp add: polygonArea_def thinLot_def upt4 mkVec2_def)

lemma round_thin: "round (2 / 45 :: real) = 0"
  by (simp add: round_def)

lemma skeleton_thin: "subdivideWithSkeleton thinLot residential low 0 = Inr []"
proof -
  have s: "stripParcels thinLot (mkVec2 0 0) (mkVec2 1 0) \<lparr>vx = 0, vy = 1\<rparr> 45 1 False 0 = []"
    using clip_thin area_thin_strip
    by (simp add: stripParcels_def Let_def mkVec2_def keepParcel_def)
  have "subdivideWithSkeleton thinLot residential low 0 =
     Inr (concat (map (stripParcels thinLot (mkVec2 0 0) (mkVec2 1 0) \<lparr>vx = 0, vy = 1\<rparr> 45 1 False) [0..<1]))"
    by (simp add: subdivideWithSkeleton_def Let_def thinLot_def mkVec2_def
          edgeLength_horizontal round_thin)
  then show ?thesis by (simp add: upt1 s)
qed

lemma wellFormed_squarePainted: "wellFormed squarePainted"
  by (simp add: wellFormed_def squarePainted_def squareBlock_def standaloneParcel_def)

lemma far_no_hit: "\<not> polygonsIntersect paintSquare farSquare"
  by (simp add: polygonsIntersect_def paintSquare_def farSquare_def upt4 mkVec2_def
        pointInPolygon_def Let_def lineIntersection_def lineDenom_def lineParam_def lineParamU_def)


subsection \<open>C6: painting the same zone twice\<close>

text \<open>
  C6 (as stated): for every subdivision method, a second \<open>paintZone\<close> call with the
  same request yields the same polygons as the first. This fails for the Voronoi method.
  On a fresh manager whose generator is in state 1, three successive paints of the 10 m
  square with method \<open>voronoi\<close> reply with three different parcels: the first call takes
  the standalone path, which always uses the skeleton method and emits the whole square
  (100 square metres); the second call finds the virtual block of the first and
  subdivides it by Voronoi cells; the third call does the same with the generator state
  the second call left behind, and emits a different cell.
\<close>

theorem paintZone_voronoi_repeat_counterexample:
  "paintRepeat 3 (newCityBlockManager (mulberry32 1)) (squareRequest (Some voronoi))
     (newRoadNetwork 2000 2000) =
     Inr [[squareStrip], [squareCellA], [squareCellB]] \<and>
   polygonArea squareStrip = 100 \<and>
   polygonArea squareCellA = 675302956078683723057 / 8947703246042955776 \<and>
   polygonArea squareCellB = 3115790307227778073305 / 41197956957976133632"
  by (simp add: numeral_3_eq_3 first_paint second_paint third_paint reply_squarePainted
        reply_voronoi area_squareStrip area_squareCellA area_squareCellB)

text \<open>
  C6 (amended): when the request does not ask for the Voronoi method, its zone type is
  not \<open>none\<close> and the manager satisfies the table invariant \<open>wellFormed\<close> (true of a
  fresh manager and kept by such paints), then \<open>paintZone\<close> returns, a second call
  with the same request returns as well, and the reply of the second call has the same
  polygon at each index, hence the same parcel count and the same total area, as the
  reply of the first call.
\<close>

theorem paintZone_skeleton_idempotent:
  assumes wf: "wellFormed m"
    and meth: "subdivisionMethod req \<noteq> Some voronoi"
    and zt: "req_zoneType req \<noteq> none"
  shows "\<exists>ids1 m1 ids2 m2.
     paintZone m req net = Inr (ids1, m1) \<and>
     paintZone m1 req net = Inr (ids2, m2) \<and>
     map vertices (affectedParcels m2 ids2) = map vertices (affectedParcels m1 ids1) \<and>
     length (affectedParcels m2 ids2) = length (affectedParcels m1 ids1) \<and>
     sum_list (map area (affectedParcels m2 ids2)) = sum_list (map area (affectedParcels m1 ids1)) \<and>
     wellFormed m1 \<and> wellFormed m2"
proof -
  from paintZone_skeleton_returns [OF meth zt]
  obtain ids1 m1 where run: "paintZone m req net = Inr (ids1, m1)" by blast
  note first = paintZone_skeleton_facts [OF meth wf run]
  from first(5) obtain ids2 m2 where run2: "paintZone m1 req net = Inr (ids2, m2)" by auto
  note second = paintZone_skeleton_facts [OF meth first(3) run2]
  have v: "map vertices (affectedParcels m2 ids2) = map vertices (affectedParcels m1 ids1)"
    by (simp only: first(1) second(1) first(4))
  have a: "map area (affectedParcels m2 ids2) = map area (affectedParcels m1 ids1)"
    by (simp only: first(2) second(2) first(4))
  from v have l: "length (affectedParcels m2 ids2) = length (affectedParcels m1 ids1)"
    by (metis length_map)
  from run run2 v l a first(3) second(3) show ?thesis by simp
qed

theorem paintZone_skeleton_idempotent_witness:
  "wellFormed (newCityBlockManager (mulberry32 1)) \<and>
   subdivisionMethod (squareRequest None) \<noteq> Some voronoi \<and>
   req_zoneType (squareRequest None) \<noteq> none \<and>
   paintZone (newCityBlockManager (mulberry32 1)) (squareRequest None) (newRoadNetwork 2000 2000)
     = Inr ([0], squarePainted) \<and>
   (\<exists>ids2 m2.
     paintZone squarePainted (squareRequest None) (newRoadNetwork 2000 2000) = Inr (ids2, m2) \<and>
     map vertices (affectedParcels m2 ids2) = [squareStrip] \<and>
     length (affectedParcels m2 ids2) = 1 \<and>
     sum_list (map area (affectedParcels m2 ids2)) =
       sum_list (map area (affectedParcels squarePainted [0])) \<and>
     wellFormed m2)"
proof -
  let ?m = "newCityBlockManager (mulberry32 1)"
  let ?req = "squareRequest None"
  let ?net = "newRoadNetwork 2000 2000"
  have a: "subdivisionMethod ?req \<noteq> Some voronoi" and b: "req_zoneType ?req \<noteq> none"
    by (simp_all add: squareRequest_def)
  from paintZone_skeleton_idempotent [OF wellFormed_new a b, of "mulberry32 1" ?net]
  obtain ids1 m1 ids2 m2 where r:
    "paintZone ?m ?req ?net = Inr (ids1, m1)"
    "paintZone m1 ?req ?net = Inr (ids2, m2)"
    "map vertices (affectedParcels m2 ids2) = map vertices (affectedParcels m1 ids1)"
    "length (affectedParcels m2 ids2) = length (affectedParcels m1 ids1)"
    "sum_list (map area (affectedParcels m2 ids2)) = sum_list (map area (affectedParcels m1 ids1))"
    "wellFormed m2"
    by blast
  from r(1) have eq: "ids1 = [0]" "m1 = squarePainted" by (simp_all add: first_paint)
  from reply_squarePainted have len: "length (affectedParcels squarePainted [0]) = 1"
    by (metis length_map length_Cons list.size(3) One_nat_def)
  from r(2-6) eq len reply_squarePainted first_paint [of None ?net] wellFormed_new a b
  show ?thesis by auto
qed


subsection \<open>C7: the standalone zone\<close>

text \<open>
  C7 (as stated): a paint polygon of area above 50 square metres that intersects no
  block yields at least one parcel. This fails: the lot of 1 m by 60 m has area 60 square
  metres, but its frontage of 1 m gives a single strip of depth 45 m, whose 45 square
  metres are below the minimum parcel area; the call stores the virtual block and emits
  no parcel.
\<close>

theorem paintZone_standalone_counterexample:
  "3 \<le> length thinLot \<and> polygonArea thinLot = 60 \<and>
   paintZone (newCityBlockManager (mulberry32 1)) thinRequest (newRoadNetwork 2000 2000) =
     Inr ([],
          \<lparr>blocks = [(0, \<lparr>block_id = 0, block_vertices = thinLot, holes = [], block_parcels = [],
                          block_area = polygonArea thinLot, perimeter = polygonPerimeter thinLot,
                          roadEdges = []\<rparr>)],
           parcels = [], nextBlockId = 1, nextParcelId = 0, cbm_rng = mulberry32 1\<rparr>)"
proof -
  let ?m = "newCityBlockManager (mulberry32 1)"
  have nh: "\<forall>kb \<in> set (blocks ?m). \<not> blockHit thinRequest (snd kb)"
    by (simp add: newCityBlockManager_def)
  have len: "3 \<le> length (polygon thinRequest)"
    by (simp add: thinRequest_def thinLot_def)
  have S: "subdivideWithSkeleton (polygon thinRequest) (req_zoneType thinRequest)
             (req_zoneDensity thinRequest) 0 = Inr []"
    by (simp add: thinRequest_def skeleton_thin)
  have "paintZone ?m thinRequest (newRoadNetwork 2000 2000) =
     Inr ([],
          \<lparr>blocks = [(0, \<lparr>block_id = 0, block_vertices = thinLot, holes = [], block_parcels = [],
                          block_area = polygonArea thinLot, perimeter = polygonPerimeter thinLot,
                          roadEdges = []\<rparr>)],
           parcels = [], nextBlockId = 1, nextParcelId = 0, cbm_rng = mulberry32 1\<rparr>)"
    unfolding paintZone_standalone(1) [OF wellFormed_new nh len S]
    by (simp add: goodPolys_def newCityBlockManager_def thinRequest_def)
  then show ?thesis by (simp add: area_thinLot) (simp add: thinLot_def)
qed

text \<open>
  C7 (amended): for a manager satisfying \<open>wellFormed\<close>, a paint polygon with at least 3
  vertices that intersects no existing block and a zone type other than \<open>none\<close>,
  \<open>paintZone\<close> returns; it stores a virtual block under the next block id, whose polygon
  is the paint polygon and whose parcel list is the reply; the reply consists of the
  strips of the skeleton subdivision along edge 0 that have at least 3 vertices and an
  area of at least 50 square metres, in order (possibly none); each of them references
  the virtual block.
\<close>

theorem paintZone_standalone_block:
  assumes wf: "wellFormed m"
    and nohit: "\<forall>kb \<in> set (blocks m). \<not> polygonsIntersect (block_vertices (snd kb)) (polygon req)"
    and len: "3 \<le> length (polygon req)"
    and zt: "req_zoneType req \<noteq> none"
  shows "\<exists>ids m' vb polys.
     paintZone m req net = Inr (ids, m') \<and>
     blocks m' = blocks m @ [(nextBlockId m, vb)] \<and>
     block_id vb = nextBlockId m \<and> block_vertices vb = polygon req \<and> block_parcels vb = ids \<and>
     subdivideWithSkeleton (polygon req) (req_zoneType req) (req_zoneDensity req) 0 = Inr polys \<and>
     map vertices (affectedParcels m' ids) =
       filter (\<lambda>vs. 3 \<le> length vs \<and> 50 \<le> polygonArea vs) polys \<and>
     (\<forall>p \<in> set (affectedParcels m' ids).
        blockId p = nextBlockId m \<and> 3 \<le> length (vertices p) \<and> 50 \<le> area p)"
proof -
  from len have "0 < length (polygon req)" by linarith
  from subdivideWithSkeleton_returns [OF zt this]
  obtain polys where S: "subdivideWithSkeleton (polygon req) (req_zoneType req) (req_zoneDensity req) 0 = Inr polys"
    by blast
  from nohit have nh: "\<forall>kb \<in> set (blocks m). \<not> blockHit req (snd kb)" by (simp add: blockHit_def)
  define new where "new = numbered (standaloneParcel (nextBlockId m) req) (nextParcelId m) (goodPolys polys)"
  define vb where "vb = \<lparr>block_id = nextBlockId m, block_vertices = polygon req, holes = [],
                   block_parcels = map fst new,
                   block_area = polygonArea (polygon req),
                   perimeter = polygonPerimeter (polygon req), roadEdges = []\<rparr>"
  define m' where "m' = m\<lparr>blocks := blocks m @ [(nextBlockId m, vb)],
            nextBlockId := nextBlockId m + 1,
            parcels := parcels m @ new,
            nextParcelId := nextParcelId m + int (length (goodPolys polys))\<rparr>"
  note pz = paintZone_standalone [OF wf nh len S]
  have run: "paintZone m req net = Inr (map fst new, m')"
    unfolding m'_def vb_def new_def by (rule pz(1))
  have aff: "affectedParcels m' (map fst new) = map snd new"
    unfolding m'_def new_def by (rule pz(2))
  have g: "goodPolys polys = filter (\<lambda>vs. 3 \<le> length vs \<and> 50 \<le> polygonArea vs) polys"
    by (simp add: goodPolys_def not_less)
  have v: "map vertices (map snd new) = filter (\<lambda>vs. 3 \<le> length vs \<and> 50 \<le> polygonArea vs) polys"
    using vertices_numbered_standalone [of "nextBlockId m" req "nextParcelId m" "goodPolys polys"]
    by (simp add: new_def g)
  have e: "\<forall>p \<in> set (map snd new). blockId p = nextBlockId m \<and> 3 \<le> length (vertices p) \<and> 50 \<le> area p"
    using numbered_standalone_elems [of "nextBlockId m" req "nextParcelId m" "goodPolys polys"]
      goodPolys_props [of polys] unfolding new_def by auto
  have b: "blocks m' = blocks m @ [(nextBlockId m, vb)]" by (simp add: m'_def)
  have c: "block_id vb = nextBlockId m" "block_vertices vb = polygon req" "block_parcels vb = map fst new"
    by (simp_all add: vb_def)
  from run b c S v e show ?thesis
    unfolding aff [symmetric] by blast
qed

theorem paintZone_standalone_block_witness:
  "wellFormed squarePainted \<and>
   blocks squarePainted = [(0, squareBlock [0])] \<and>
   \<not> polygonsIntersect (block_vertices (squareBlock [0])) (polygon farRequest) \<and>
   3 \<le> length (polygon farRequest) \<and>
   req_zoneType farRequest \<noteq> none \<and>
   (\<exists>ids m' vb polys.
     paintZone squarePainted farRequest (newRoadNetwork 2000 2000) = Inr (ids, m') \<and>
     blocks m' = blocks squarePainted @ [(nextBlockId squarePainted, vb)] \<and>
     block_id vb = nextBlockId squarePainted \<and>
     block_vertices vb = polygon farRequest \<and> block_parcels vb = ids \<and>
     subdivideWithSkeleton (polygon farRequest) (req_zoneType farRequest)
       (req_zoneDensity farRequest) 0 = Inr polys \<and>
     map vertices (affectedParcels m' ids) =
       filter (\<lambda>vs. 3 \<le> length vs \<and> 50 \<le> polygonArea vs) polys \<and>
     (\<forall>p \<in> set (affectedParcels m' ids).
        blockId p = nextBlockId squarePainted \<and> 3 \<le> length (vertices p) \<and> 50 \<le> area p))"
proof -
  have a: "\<forall>kb \<in> set (blocks squarePainted).
      \<not> polygonsIntersect (block_vertices (snd kb)) (polygon farRequest)"
    using far_no_hit by (simp add: squarePainted_def squareBlock_def farRequest_def)
  have b: "3 \<le> length (polygon farRequest)" by (simp add: farRequest_def farSquare_def)
  have c: "req_zoneType farRequest \<noteq> none" by (simp add: farRequest_def)
  have d: "blocks squarePainted = [(0, squareBlock [0])]" by (simp add: squarePainted_def)
  have e: "\<not> polygonsIntersect (block_vertices (squareBlock [0])) (polygon farRequest)"
    using far_no_hit by (simp add: squareBlock_def farRequest_def)
  from paintZone_standalone_block [OF wellFormed_squarePainted a b c, of "newRoadNetwork 2000 2000"]
    wellFormed_squarePainted b c d e
  show ?thesis by blast
qed

end
